theory Spec2Isabelle
  imports Complex_Main "HOL-Library.Log_Nat"
begin

section \<open>The in-memory store of server/storage.ts\<close>

text \<open>
  The store is the class \<open>MemStorage\<close>: eight JavaScript \<open>Map\<close>s from a numeric id to a
  record, and one id counter for each. Every method is \<open>async\<close> but awaits only other
  methods of the same object, so a call runs to its end without interleaving; a method is
  modelled as a function from the store (and the values it reads from its environment)
  to its result and the store afterwards.

  Conventions of the embedding:
  \<^item> a JavaScript \<open>number\<close> that holds an amount, a price, a volume or a number of points
    is a \<open>number\<close>: an IEEE 754 double, with its rounding, its infinities and NaN. An id,
    a counter and the \<open>pointsRequired\<close> of a tier are \<open>int\<close>: the store only compares
    them and adds 1 to them;
  \<^item> a \<open>Date\<close> is the number of milliseconds since the epoch, an \<open>int\<close>;
  \<^item> \<open>new Date()\<close> is the argument \<open>now\<close> of the method that evaluates it; a method that
    reads the clock more than once, itself or through the methods it calls, gets the one
    reading for all of them, except \<open>generateResetToken\<close>, whose expiry is an argument of
    its own. The string built from \<open>Math.random()\<close> is the argument \<open>rnd\<close>;
  \<^item> a column that may be \<open>null\<close> (or a property that may be missing) has an
    \<open>option\<close> type, with \<open>None\<close> for \<open>null\<close> and \<open>undefined\<close> alike, where no method
    reads it in a way that tells the two apart; the three numbers that the methods read
    (\<open>filled\<close>, \<open>totalTradingVolume\<close>, \<open>rewardsPoints\<close>) are \<open>nullable\<close>, with both;
  \<^item> a string is a list of characters. The one place where the store computes with the
    characters of a string, the template literal of the referral code, is a parameter
    of the model.
\<close>

type_synonym date = int
type_synonym json = string

subsection \<open>JavaScript Map\<close>

text \<open>
  A \<open>Map\<close> iterates in insertion order, and \<open>set\<close> on a key that is present replaces the
  value where it stands. It is an association list; \<open>find\<close> and \<open>filter\<close> over
  \<open>Array.from(m.values())\<close> see the values in that order.
\<close>

type_synonym ('k, 'v) js_map = "('k \<times> 'v) list"

definition Map_get :: "('k, 'v) js_map \<Rightarrow> 'k \<Rightarrow> 'v option" where
  "Map_get m k = map_of m k"

primrec Map_set :: "('k, 'v) js_map \<Rightarrow> 'k \<Rightarrow> 'v \<Rightarrow> ('k, 'v) js_map" where
  "Map_set [] k v = [(k, v)]"
| "Map_set (p # m) k v = (if fst p = k then (k, v) # m else p # Map_set m k v)"

definition Map_values :: "('k, 'v) js_map \<Rightarrow> 'v list" where
  "Map_values m = map snd m"

subsection \<open>JavaScript numbers\<close>

text \<open>
  A \<open>number\<close> is a double: a finite value, which is a rational, or one of the infinities,
  or NaN. The two zeros are one value here: no method divides by a stored number or
  looks at the sign of a zero. \<open>round64\<close> rounds a rational to the nearest double, ties to
  the even significand: the unit in the last place is \<open>2 ^ p\<close>, where \<open>p\<close> is 52 below the
  binary exponent of the value (or of the least normal double), and a result of
  \<open>2 ^ 1024\<close> or more is an infinity. \<open>dadd\<close> is \<open>+\<close> and \<open>dge\<close> is \<open>>=\<close> on numbers.
\<close>

datatype number = Fin rat | PInf | NInf | NaN

definition round_half_even :: "rat \<Rightarrow> int" where
  "round_half_even x =
     (let f = \<lfloor>x\<rfloor>; d = x - of_int f
      in if d < 1 / 2 then f else if 1 / 2 < d then f + 1 else if even f then f else f + 1)"

text \<open>The binary exponent of a rational that is not 0: \<open>2 ^ e \<le> \<bar>q\<bar> < 2 ^ (e + 1)\<close>.\<close>

definition expo :: "rat \<Rightarrow> int" where
  "expo q =
     (if 1 \<le> \<bar>q\<bar> then bitlen \<lfloor>\<bar>q\<bar>\<rfloor> - 1 else - bitlen (\<lceil>1 / \<bar>q\<bar>\<rceil> - 1))"

definition scale2 :: "rat \<Rightarrow> int \<Rightarrow> rat" where
  "scale2 q p = (if 0 \<le> p then q * 2 ^ nat p else q / 2 ^ nat (- p))"

definition round64 :: "rat \<Rightarrow> number" where
  "round64 q =
     (if q = 0 then Fin 0
      else let p = max (expo q) (- 1022) - 52;
               m = round_half_even (scale2 \<bar>q\<bar> (- p))
           in if 971 < p \<or> (p = 971 \<and> 2 ^ 53 \<le> m) then (if 0 < q then PInf else NInf)
              else Fin (sgn q * scale2 (of_int m) p))"

fun dadd :: "number \<Rightarrow> number \<Rightarrow> number" where
  "dadd NaN y = NaN"
| "dadd x NaN = NaN"
| "dadd PInf NInf = NaN"
| "dadd NInf PInf = NaN"
| "dadd PInf y = PInf"
| "dadd x PInf = PInf"
| "dadd NInf y = NInf"
| "dadd x NInf = NInf"
| "dadd (Fin x) (Fin y) = round64 (x + y)"

fun dge :: "number \<Rightarrow> number \<Rightarrow> bool" where
  "dge NaN y = False"
| "dge x NaN = False"
| "dge PInf y = True"
| "dge x NInf = True"
| "dge NInf y = False"
| "dge x PInf = False"
| "dge (Fin x) (Fin y) = (y \<le> x)"

text \<open>
  A number that may be \<open>null\<close> or \<open>undefined\<close>. \<open>x || 0\<close> is 0 for both, for 0 and for NaN,
  and \<open>x\<close> otherwise; \<open>x >= y\<close> converts \<open>null\<close> to 0 and \<open>undefined\<close> to NaN.
\<close>

datatype 'a nullable = Undefined | Null | Val 'a

definition or_zero :: "number nullable \<Rightarrow> number" where
  "or_zero x = (case x of Val v \<Rightarrow> (if v = NaN \<or> v = Fin 0 then Fin 0 else v) | _ \<Rightarrow> Fin 0)"

definition to_number :: "number nullable \<Rightarrow> number" where
  "to_number x = (case x of Undefined \<Rightarrow> NaN | Null \<Rightarrow> Fin 0 | Val v \<Rightarrow> v)"

subsection \<open>Object spread\<close>

text \<open>
  One property of the object spread \<open>{...record, ...data}\<close>: a key that \<open>data\<close> has wins,
  a key it lacks keeps the record's value.
\<close>

definition spread :: "'a \<Rightarrow> 'a option \<Rightarrow> 'a" where
  "spread old new = (case new of None \<Rightarrow> old | Some v \<Rightarrow> v)"

subsection \<open>shared/schema.ts: the entities\<close>

record User =
  u_id :: int
  u_username :: string
  u_email :: string
  u_password :: string
  u_fullName :: "string option"
  u_walletAddress :: "string option"
  u_twoFactorEnabled :: "bool option"
  u_twoFactorSecret :: "string option"
  u_createdAt :: "date option"
  u_updatedAt :: "date option"
  u_profilePicture :: "string option"
  u_isVerified :: "bool option"
  u_verificationToken :: "string option"
  u_resetPasswordToken :: "string option"
  u_resetPasswordExpires :: "date option"
  u_totalTradingVolume :: "number nullable"
  u_rewardsPoints :: "number nullable"
  u_referralCode :: "string option"
  u_referredBy :: "int option"

record InsertUser =
  iu_username :: string
  iu_email :: string
  iu_password :: string
  iu_fullName :: "string option"
  iu_walletAddress :: "string option"

text \<open>\<open>Partial<User>\<close>: \<open>None\<close> is a key that is missing, \<open>Some v\<close> a key with the value \<open>v\<close>.\<close>

record UserPatch =
  pu_id :: "int option"
  pu_username :: "string option"
  pu_email :: "string option"
  pu_password :: "string option"
  pu_fullName :: "string option option"
  pu_walletAddress :: "string option option"
  pu_twoFactorEnabled :: "bool option option"
  pu_twoFactorSecret :: "string option option"
  pu_createdAt :: "date option option"
  pu_updatedAt :: "date option option"
  pu_profilePicture :: "string option option"
  pu_isVerified :: "bool option option"
  pu_verificationToken :: "string option option"
  pu_resetPasswordToken :: "string option option"
  pu_resetPasswordExpires :: "date option option"
  pu_totalTradingVolume :: "number nullable option"
  pu_rewardsPoints :: "number nullable option"
  pu_referralCode :: "string option option"
  pu_referredBy :: "int option option"

record TradingPair =
  tp_id :: int
  tp_baseAsset :: string
  tp_quoteAsset :: string
  tp_pairSymbol :: string
  tp_minTradeAmount :: number
  tp_maxTradeAmount :: "number option"
  tp_tradingFee :: "number option"
  tp_isActive :: "bool option"

record InsertTradingPair =
  itp_baseAsset :: string
  itp_quoteAsset :: string
  itp_pairSymbol :: string
  itp_minTradeAmount :: number
  itp_maxTradeAmount :: "number option"
  itp_tradingFee :: "number option"
  itp_isActive :: "bool option"

record TradingPairPatch =
  ptp_id :: "int option"
  ptp_baseAsset :: "string option"
  ptp_quoteAsset :: "string option"
  ptp_pairSymbol :: "string option"
  ptp_minTradeAmount :: "number option"
  ptp_maxTradeAmount :: "number option option"
  ptp_tradingFee :: "number option option"
  ptp_isActive :: "bool option option"

record Order =
  o_id :: int
  o_userId :: int
  o_tradingPairId :: int
  o_type :: string
  o_side :: string
  o_price :: "number option"
  o_amount :: number
  o_filled :: "number nullable"
  o_status :: string
  o_createdAt :: "date option"
  o_updatedAt :: "date option"

record InsertOrder =
  io_userId :: int
  io_tradingPairId :: int
  io_type :: string
  io_side :: string
  io_price :: "number option"
  io_amount :: number

record OrderPatch =
  po_id :: "int option"
  po_userId :: "int option"
  po_tradingPairId :: "int option"
  po_type :: "string option"
  po_side :: "string option"
  po_price :: "number option option"
  po_amount :: "number option"
  po_filled :: "number nullable option"
  po_status :: "string option"
  po_createdAt :: "date option option"
  po_updatedAt :: "date option option"

record Trade =
  t_id :: int
  t_buyOrderId :: int
  t_sellOrderId :: int
  t_tradingPairId :: int
  t_price :: number
  t_amount :: number
  t_totalValue :: number
  t_fee :: number
  t_timestamp :: "date option"

record InsertTrade =
  it_buyOrderId :: int
  it_sellOrderId :: int
  it_tradingPairId :: int
  it_price :: number
  it_amount :: number
  it_totalValue :: number
  it_fee :: number

record RewardsEvent =
  re_id :: int
  re_userId :: int
  re_eventType :: string
  re_points :: number
  re_description :: string
  re_createdAt :: "date option"
  re_additionalData :: "json option"

record InsertRewardsEvent =
  ire_userId :: int
  ire_eventType :: string
  ire_points :: number
  ire_description :: string
  ire_additionalData :: "json option"

record RewardsTier =
  rt_id :: int
  rt_name :: string
  rt_pointsRequired :: int
  rt_tradingFeeDiscount :: "number option"
  rt_additionalBenefits :: "string list option"
  rt_icon :: "string option"

record InsertRewardsTier =
  irt_name :: string
  irt_pointsRequired :: int
  irt_tradingFeeDiscount :: "number option"
  irt_additionalBenefits :: "string list option"
  irt_icon :: "string option"

record NewsArticle =
  na_id :: int
  na_title :: string
  na_content :: string
  na_summary :: "string option"
  na_author :: "string option"
  na_publishDate :: "date option"
  na_isPublished :: "bool option"
  na_imageUrl :: "string option"
  na_tags :: "string list option"

record InsertNewsArticle =
  ina_title :: string
  ina_content :: string
  ina_summary :: "string option"
  ina_author :: "string option"
  ina_publishDate :: "date option"
  ina_isPublished :: "bool option"
  ina_imageUrl :: "string option"
  ina_tags :: "string list option"

record NewsArticlePatch =
  pna_id :: "int option"
  pna_title :: "string option"
  pna_content :: "string option"
  pna_summary :: "string option option"
  pna_author :: "string option option"
  pna_publishDate :: "date option option"
  pna_isPublished :: "bool option option"
  pna_imageUrl :: "string option option"
  pna_tags :: "string list option option"

record Subscriber =
  sub_id :: int
  sub_email :: string
  sub_subscribedAt :: "date option"
  sub_isActive :: "bool option"

record InsertSubscriber =
  isub_email :: string

subsection \<open>The store\<close>

record MemStorage =
  users :: "(int, User) js_map"
  tradingPairs :: "(int, TradingPair) js_map"
  orders :: "(int, Order) js_map"
  trades :: "(int, Trade) js_map"
  rewardsEvents :: "(int, RewardsEvent) js_map"
  rewardsTiers :: "(int, RewardsTier) js_map"
  newsArticles :: "(int, NewsArticle) js_map"
  subscribers :: "(int, Subscriber) js_map"
  userCurrentId :: int
  tradingPairCurrentId :: int
  orderCurrentId :: int
  tradeCurrentId :: int
  rewardsEventCurrentId :: int
  rewardsTierCurrentId :: int
  newsArticleCurrentId :: int
  subscriberCurrentId :: int

subsection \<open>The referral code\<close>

text \<open>
  \<open>createUser\<close> builds the referral code with the template literal
  \<open>`${insertUser.username.slice(0, 5).toUpperCase()}${id}`\<close>. What \<open>slice\<close> and
  \<open>toUpperCase\<close> make of a string of UTF-16 code units, and how a number is printed, is
  the JavaScript runtime's: the literal is the parameter \<open>template\<close> of the model, a
  function of the username and the id. \<open>ascii_template\<close> is that function on usernames
  of ASCII characters and ids of a few digits, for the example stores.
\<close>

type_synonym template = "string \<Rightarrow> int \<Rightarrow> string"

definition upper_char :: "char \<Rightarrow> char" where
  "upper_char c =
     (case map_of (zip ''abcdefghijklmnopqrstuvwxyz'' ''ABCDEFGHIJKLMNOPQRSTUVWXYZ'') c of
        None \<Rightarrow> c
      | Some d \<Rightarrow> d)"

definition toUpperCase :: "string \<Rightarrow> string" where
  "toUpperCase str = map upper_char str"

fun digits :: "nat \<Rightarrow> string" where
  "digits n = (if n < 10 then [''0123456789'' ! n] else digits (n div 10) @ [''0123456789'' ! (n mod 10)])"

declare digits.simps [simp del]

definition number_toString :: "int \<Rightarrow> string" where
  "number_toString i = (if i < 0 then ''-'' @ digits (nat (- i)) else digits (nat i))"

definition ascii_template :: template where
  "ascii_template username id' = toUpperCase (take 5 username) @ number_toString id'"

subsection \<open>User methods\<close>

definition getUser :: "MemStorage \<Rightarrow> int \<Rightarrow> User option" where
  "getUser s id' = Map_get (users s) id'"

definition getUserByUsername :: "MemStorage \<Rightarrow> string \<Rightarrow> User option" where
  "getUserByUsername s username =
     find (\<lambda>user. u_username user = username) (Map_values (users s))"

definition getUserByEmail :: "MemStorage \<Rightarrow> string \<Rightarrow> User option" where
  "getUserByEmail s email = find (\<lambda>user. u_email user = email) (Map_values (users s))"

definition getUserByWalletAddress :: "MemStorage \<Rightarrow> string \<Rightarrow> User option" where
  "getUserByWalletAddress s walletAddress =
     find (\<lambda>user. u_walletAddress user = Some walletAddress) (Map_values (users s))"

definition createUser ::
  "template \<Rightarrow> MemStorage \<Rightarrow> date \<Rightarrow> InsertUser \<Rightarrow> User \<times> MemStorage" where
  "createUser template s now insertUser =
     (let id' = userCurrentId s;
          referralCode = template (iu_username insertUser) id';
          user = \<lparr> u_id = id',
                   u_username = iu_username insertUser,
                   u_email = iu_email insertUser,
                   u_password = iu_password insertUser,
                   u_fullName = iu_fullName insertUser,
                   u_walletAddress = iu_walletAddress insertUser,
                   u_twoFactorEnabled = Some False,
                   u_twoFactorSecret = None,
                   u_createdAt = Some now,
                   u_updatedAt = Some now,
                   u_profilePicture = None,
                   u_isVerified = Some False,
                   u_verificationToken = None,
                   u_resetPasswordToken = None,
                   u_resetPasswordExpires = None,
                   u_totalTradingVolume = Val (Fin 0),
                   u_rewardsPoints = Val (Fin 0),
                   u_referralCode = Some referralCode,
                   u_referredBy = None \<rparr>
      in (user, s\<lparr> userCurrentId := id' + 1, users := Map_set (users s) id' user \<rparr>))"

text \<open>\<open>{ ...user, ...data }\<close>\<close>

definition spread_User :: "User \<Rightarrow> UserPatch \<Rightarrow> User" where
  "spread_User user data =
     \<lparr> u_id = spread (u_id user) (pu_id data),
       u_username = spread (u_username user) (pu_username data),
       u_email = spread (u_email user) (pu_email data),
       u_password = spread (u_password user) (pu_password data),
       u_fullName = spread (u_fullName user) (pu_fullName data),
       u_walletAddress = spread (u_walletAddress user) (pu_walletAddress data),
       u_twoFactorEnabled = spread (u_twoFactorEnabled user) (pu_twoFactorEnabled data),
       u_twoFactorSecret = spread (u_twoFactorSecret user) (pu_twoFactorSecret data),
       u_createdAt = spread (u_createdAt user) (pu_createdAt data),
       u_updatedAt = spread (u_updatedAt user) (pu_updatedAt data),
       u_profilePicture = spread (u_profilePicture user) (pu_profilePicture data),
       u_isVerified = spread (u_isVerified user) (pu_isVerified data),
       u_verificationToken = spread (u_verificationToken user) (pu_verificationToken data),
       u_resetPasswordToken = spread (u_resetPasswordToken user) (pu_resetPasswordToken data),
       u_resetPasswordExpires =
         spread (u_resetPasswordExpires user) (pu_resetPasswordExpires data),
       u_totalTradingVolume = spread (u_totalTradingVolume user) (pu_totalTradingVolume data),
       u_rewardsPoints = spread (u_rewardsPoints user) (pu_rewardsPoints data),
       u_referralCode = spread (u_referralCode user) (pu_referralCode data),
       u_referredBy = spread (u_referredBy user) (pu_referredBy data) \<rparr>"

text \<open>The object literal \<open>{}\<close> as a \<open>Partial<User>\<close>.\<close>

definition no_User_fields :: UserPatch where
  "no_User_fields =
     \<lparr> pu_id = None, pu_username = None, pu_email = None, pu_password = None,
       pu_fullName = None, pu_walletAddress = None, pu_twoFactorEnabled = None,
       pu_twoFactorSecret = None, pu_createdAt = None, pu_updatedAt = None,
       pu_profilePicture = None, pu_isVerified = None, pu_verificationToken = None,
       pu_resetPasswordToken = None, pu_resetPasswordExpires = None,
       pu_totalTradingVolume = None, pu_rewardsPoints = None, pu_referralCode = None,
       pu_referredBy = None \<rparr>"

definition updateUser ::
  "MemStorage \<Rightarrow> date \<Rightarrow> int \<Rightarrow> UserPatch \<Rightarrow> User option \<times> MemStorage" where
  "updateUser s now id' data =
     (case getUser s id' of
        None \<Rightarrow> (None, s)
      | Some user \<Rightarrow>
          (let updatedUser = (spread_User user data)\<lparr> u_updatedAt := Some now \<rparr>
           in (Some updatedUser, s\<lparr> users := Map_set (users s) id' updatedUser \<rparr>)))"

definition verifyUser :: "MemStorage \<Rightarrow> date \<Rightarrow> string \<Rightarrow> User option \<times> MemStorage" where
  "verifyUser s now verificationToken =
     (case find (\<lambda>user. u_verificationToken user = Some verificationToken)
             (Map_values (users s)) of
        Some user \<Rightarrow>
          (let updatedUser = user\<lparr> u_isVerified := Some True,
                                    u_verificationToken := None,
                                    u_updatedAt := Some now \<rparr>
           in (Some updatedUser, s\<lparr> users := Map_set (users s) (u_id user) updatedUser \<rparr>))
      | None \<Rightarrow> (None, s))"

text \<open>The predicate of the \<open>find\<close> in \<open>resetPassword\<close>; a \<open>Date\<close> object is truthy, \<open>null\<close> is not.\<close>

definition reset_matches :: "date \<Rightarrow> string \<Rightarrow> User \<Rightarrow> bool" where
  "reset_matches now resetToken user =
     (u_resetPasswordToken user = Some resetToken \<and>
      (case u_resetPasswordExpires user of None \<Rightarrow> False | Some expires \<Rightarrow> expires > now))"

definition resetPassword :: "MemStorage \<Rightarrow> date \<Rightarrow> string \<Rightarrow> string \<Rightarrow> bool \<times> MemStorage" where
  "resetPassword s now resetToken newPassword =
     (case find (reset_matches now resetToken) (Map_values (users s)) of
        Some user \<Rightarrow>
          (let updatedUser = user\<lparr> u_password := newPassword,
                                    u_resetPasswordToken := None,
                                    u_resetPasswordExpires := None,
                                    u_updatedAt := Some now \<rparr>
           in (True, s\<lparr> users := Map_set (users s) (u_id user) updatedUser \<rparr>))
      | None \<Rightarrow> (False, s))"

text \<open>
  \<open>generateResetToken\<close> reads its environment three times: \<open>Math.random()\<close> for the token
  (\<open>rnd\<close>), the clock and the time zone for the expiry, and the clock again for
  \<open>updatedAt\<close> (\<open>now\<close>). The expiry is the \<open>Date\<close> that
  \<open>resetExpires.setHours(resetExpires.getHours() + 1)\<close> leaves: one hour later on the local
  wall clock, which is 3600000 ms after the reading except across a change of the zone's
  offset. It is the argument \<open>expires\<close>.
\<close>

definition generateResetToken ::
  "MemStorage \<Rightarrow> date \<Rightarrow> string \<Rightarrow> date \<Rightarrow> string \<Rightarrow> string option \<times> MemStorage" where
  "generateResetToken s now rnd expires email =
     (case getUserByEmail s email of
        None \<Rightarrow> (None, s)
      | Some user \<Rightarrow>
          (let resetToken = rnd;
               resetExpires = expires;
               updatedUser = user\<lparr> u_resetPasswordToken := Some resetToken,
                                    u_resetPasswordExpires := Some resetExpires,
                                    u_updatedAt := Some now \<rparr>
           in (Some resetToken, s\<lparr> users := Map_set (users s) (u_id user) updatedUser \<rparr>)))"

subsection \<open>Trading pair methods\<close>

definition getTradingPair :: "MemStorage \<Rightarrow> int \<Rightarrow> TradingPair option" where
  "getTradingPair s id' = Map_get (tradingPairs s) id'"

definition createTradingPair ::
  "MemStorage \<Rightarrow> InsertTradingPair \<Rightarrow> TradingPair \<times> MemStorage" where
  "createTradingPair s tradingPair =
     (let id' = tradingPairCurrentId s;
          pair = \<lparr> tp_id = id',
                   tp_baseAsset = itp_baseAsset tradingPair,
                   tp_quoteAsset = itp_quoteAsset tradingPair,
                   tp_pairSymbol = itp_pairSymbol tradingPair,
                   tp_minTradeAmount = itp_minTradeAmount tradingPair,
                   tp_maxTradeAmount = itp_maxTradeAmount tradingPair,
                   tp_tradingFee = itp_tradingFee tradingPair,
                   tp_isActive = itp_isActive tradingPair \<rparr>
      in (pair, s\<lparr> tradingPairCurrentId := id' + 1,
                    tradingPairs := Map_set (tradingPairs s) id' pair \<rparr>))"

definition spread_TradingPair :: "TradingPair \<Rightarrow> TradingPairPatch \<Rightarrow> TradingPair" where
  "spread_TradingPair pair data =
     \<lparr> tp_id = spread (tp_id pair) (ptp_id data),
       tp_baseAsset = spread (tp_baseAsset pair) (ptp_baseAsset data),
       tp_quoteAsset = spread (tp_quoteAsset pair) (ptp_quoteAsset data),
       tp_pairSymbol = spread (tp_pairSymbol pair) (ptp_pairSymbol data),
       tp_minTradeAmount = spread (tp_minTradeAmount pair) (ptp_minTradeAmount data),
       tp_maxTradeAmount = spread (tp_maxTradeAmount pair) (ptp_maxTradeAmount data),
       tp_tradingFee = spread (tp_tradingFee pair) (ptp_tradingFee data),
       tp_isActive = spread (tp_isActive pair) (ptp_isActive data) \<rparr>"

definition updateTradingPair ::
  "MemStorage \<Rightarrow> int \<Rightarrow> TradingPairPatch \<Rightarrow> TradingPair option \<times> MemStorage" where
  "updateTradingPair s id' data =
     (case getTradingPair s id' of
        None \<Rightarrow> (None, s)
      | Some pair \<Rightarrow>
          (let updatedPair = spread_TradingPair pair data
           in (Some updatedPair, s\<lparr> tradingPairs := Map_set (tradingPairs s) id' updatedPair \<rparr>)))"

subsection \<open>Order methods\<close>

definition getOrder :: "MemStorage \<Rightarrow> int \<Rightarrow> Order option" where
  "getOrder s id' = Map_get (orders s) id'"

definition createOrder :: "MemStorage \<Rightarrow> date \<Rightarrow> InsertOrder \<Rightarrow> Order \<times> MemStorage" where
  "createOrder s now order' =
     (let id' = orderCurrentId s;
          newOrder = \<lparr> o_id = id',
                       o_userId = io_userId order',
                       o_tradingPairId = io_tradingPairId order',
                       o_type = io_type order',
                       o_side = io_side order',
                       o_price = io_price order',
                       o_amount = io_amount order',
                       o_filled = Val (Fin 0),
                       o_status = (if io_type order' = ''Market'' then ''Filled'' else ''Open''),
                       o_createdAt = Some now,
                       o_updatedAt = Some now \<rparr>
      in (newOrder, s\<lparr> orderCurrentId := id' + 1, orders := Map_set (orders s) id' newOrder \<rparr>))"

definition spread_Order :: "Order \<Rightarrow> OrderPatch \<Rightarrow> Order" where
  "spread_Order order' data =
     \<lparr> o_id = spread (o_id order') (po_id data),
       o_userId = spread (o_userId order') (po_userId data),
       o_tradingPairId = spread (o_tradingPairId order') (po_tradingPairId data),
       o_type = spread (o_type order') (po_type data),
       o_side = spread (o_side order') (po_side data),
       o_price = spread (o_price order') (po_price data),
       o_amount = spread (o_amount order') (po_amount data),
       o_filled = spread (o_filled order') (po_filled data),
       o_status = spread (o_status order') (po_status data),
       o_createdAt = spread (o_createdAt order') (po_createdAt data),
       o_updatedAt = spread (o_updatedAt order') (po_updatedAt data) \<rparr>"

definition no_Order_fields :: OrderPatch where
  "no_Order_fields =
     \<lparr> po_id = None, po_userId = None, po_tradingPairId = None, po_type = None,
       po_side = None, po_price = None, po_amount = None, po_filled = None,
       po_status = None, po_createdAt = None, po_updatedAt = None \<rparr>"

definition updateOrder ::
  "MemStorage \<Rightarrow> date \<Rightarrow> int \<Rightarrow> OrderPatch \<Rightarrow> Order option \<times> MemStorage" where
  "updateOrder s now id' data =
     (case getOrder s id' of
        None \<Rightarrow> (None, s)
      | Some order' \<Rightarrow>
          (let updatedOrder = (spread_Order order' data)\<lparr> o_updatedAt := Some now \<rparr>
           in (Some updatedOrder, s\<lparr> orders := Map_set (orders s) id' updatedOrder \<rparr>)))"

subsection \<open>Trade methods\<close>

definition getTrade :: "MemStorage \<Rightarrow> int \<Rightarrow> Trade option" where
  "getTrade s id' = Map_get (trades s) id'"

text \<open>The two object literals that \<open>createTrade\<close> passes to \<open>updateOrder\<close> and \<open>updateUser\<close>.\<close>

definition fill_fields :: "Order \<Rightarrow> InsertTrade \<Rightarrow> OrderPatch" where
  "fill_fields order' trade =
     no_Order_fields
       \<lparr> po_filled := Some (Val (dadd (or_zero (o_filled order')) (it_amount trade))),
         po_status := Some (if dge (dadd (or_zero (o_filled order')) (it_amount trade))
                                   (o_amount order')
                            then ''Filled'' else ''Partial'') \<rparr>"

definition volume_fields :: "User \<Rightarrow> InsertTrade \<Rightarrow> UserPatch" where
  "volume_fields user trade =
     no_User_fields
       \<lparr> pu_totalTradingVolume :=
           Some (Val (dadd (or_zero (u_totalTradingVolume user)) (it_totalValue trade))) \<rparr>"

text \<open>
  \<open>createTrade\<close> reads both orders before it updates either, and reads each user just
  before it updates that user. The intermediate stores are named \<open>s1\<close> to \<open>s5\<close>.
\<close>

definition createTrade :: "MemStorage \<Rightarrow> date \<Rightarrow> InsertTrade \<Rightarrow> Trade \<times> MemStorage" where
  "createTrade s now trade =
     (let id' = tradeCurrentId s;
          newTrade = \<lparr> t_id = id',
                       t_buyOrderId = it_buyOrderId trade,
                       t_sellOrderId = it_sellOrderId trade,
                       t_tradingPairId = it_tradingPairId trade,
                       t_price = it_price trade,
                       t_amount = it_amount trade,
                       t_totalValue = it_totalValue trade,
                       t_fee = it_fee trade,
                       t_timestamp = Some now \<rparr>;
          s1 = s\<lparr> tradeCurrentId := id' + 1, trades := Map_set (trades s) id' newTrade \<rparr>;
          buyOrder = getOrder s1 (it_buyOrderId trade);
          sellOrder = getOrder s1 (it_sellOrderId trade);
          s2 = (case buyOrder of
                  None \<Rightarrow> s1
                | Some bo \<Rightarrow> snd (updateOrder s1 now (o_id bo) (fill_fields bo trade)));
          s3 = (case sellOrder of
                  None \<Rightarrow> s2
                | Some so \<Rightarrow> snd (updateOrder s2 now (o_id so) (fill_fields so trade)));
          s4 = (case buyOrder of
                  None \<Rightarrow> s3
                | Some bo \<Rightarrow>
                    (case getUser s3 (o_userId bo) of
                       None \<Rightarrow> s3
                     | Some buyer \<Rightarrow>
                         snd (updateUser s3 now (u_id buyer) (volume_fields buyer trade))));
          s5 = (case sellOrder of
                  None \<Rightarrow> s4
                | Some so \<Rightarrow>
                    (case getUser s4 (o_userId so) of
                       None \<Rightarrow> s4
                     | Some seller \<Rightarrow>
                         snd (updateUser s4 now (u_id seller) (volume_fields seller trade))))
      in (newTrade, s5))"

subsection \<open>Rewards methods\<close>

definition getRewardsEvent :: "MemStorage \<Rightarrow> int \<Rightarrow> RewardsEvent option" where
  "getRewardsEvent s id' = Map_get (rewardsEvents s) id'"

definition getUserRewardsEvents :: "MemStorage \<Rightarrow> int \<Rightarrow> RewardsEvent list" where
  "getUserRewardsEvents s userId =
     filter (\<lambda>event. re_userId event = userId) (Map_values (rewardsEvents s))"

definition points_fields :: "User \<Rightarrow> InsertRewardsEvent \<Rightarrow> UserPatch" where
  "points_fields user event =
     no_User_fields
       \<lparr> pu_rewardsPoints :=
           Some (Val (dadd (or_zero (u_rewardsPoints user)) (ire_points event))) \<rparr>"

definition createRewardsEvent ::
  "MemStorage \<Rightarrow> date \<Rightarrow> InsertRewardsEvent \<Rightarrow> RewardsEvent \<times> MemStorage" where
  "createRewardsEvent s now event =
     (let id' = rewardsEventCurrentId s;
          newEvent = \<lparr> re_id = id',
                       re_userId = ire_userId event,
                       re_eventType = ire_eventType event,
                       re_points = ire_points event,
                       re_description = ire_description event,
                       re_createdAt = Some now,
                       re_additionalData = ire_additionalData event \<rparr>;
          s1 = s\<lparr> rewardsEventCurrentId := id' + 1,
                   rewardsEvents := Map_set (rewardsEvents s) id' newEvent \<rparr>;
          s2 = (case getUser s1 (ire_userId event) of
                  None \<Rightarrow> s1
                | Some user \<Rightarrow> snd (updateUser s1 now (u_id user) (points_fields user event)))
      in (newEvent, s2))"

definition getAllRewardsTiers :: "MemStorage \<Rightarrow> RewardsTier list" where
  "getAllRewardsTiers s = Map_values (rewardsTiers s)"

text \<open>
  \<open>tiers.sort((a, b) => b.pointsRequired - a.pointsRequired)\<close>: a stable sort, descending
  by \<open>pointsRequired\<close>. \<open>Array.prototype.sort\<close> sorts the array in place and returns that
  same array, so after the call \<open>tiers\<close> and \<open>sortedTiers\<close> are one sorted array, and the
  final \<open>tiers[0]\<close> reads its first element (\<open>undefined\<close> when there is no tier).
  \<open>user.rewardsPoints >= tier.pointsRequired\<close> compares two numbers: a \<open>null\<close> counts as
  0, and \<open>undefined\<close> and NaN are at least nothing.
\<close>

definition sort_tiers :: "RewardsTier list \<Rightarrow> RewardsTier list" where
  "sort_tiers tiers = sort_key (\<lambda>tier. - rt_pointsRequired tier) tiers"

definition getUserRewardsTier :: "MemStorage \<Rightarrow> int \<Rightarrow> RewardsTier option" where
  "getUserRewardsTier s userId =
     (case getUser s userId of
        None \<Rightarrow> None
      | Some user \<Rightarrow>
          (let sortedTiers = sort_tiers (getAllRewardsTiers s);
               tiers = sortedTiers
           in case find (\<lambda>tier. dge (to_number (u_rewardsPoints user))
                                      (Fin (of_int (rt_pointsRequired tier)))) sortedTiers of
                Some tier \<Rightarrow> Some tier
              | None \<Rightarrow> (case tiers of [] \<Rightarrow> None | tier # _ \<Rightarrow> Some tier)))"

definition createRewardsTier ::
  "MemStorage \<Rightarrow> InsertRewardsTier \<Rightarrow> RewardsTier \<times> MemStorage" where
  "createRewardsTier s tier =
     (let id' = rewardsTierCurrentId s;
          newTier = \<lparr> rt_id = id',
                      rt_name = irt_name tier,
                      rt_pointsRequired = irt_pointsRequired tier,
                      rt_tradingFeeDiscount = irt_tradingFeeDiscount tier,
                      rt_additionalBenefits = irt_additionalBenefits tier,
                      rt_icon = irt_icon tier \<rparr>
      in (newTier, s\<lparr> rewardsTierCurrentId := id' + 1,
                       rewardsTiers := Map_set (rewardsTiers s) id' newTier \<rparr>))"

subsection \<open>News methods\<close>

definition getNewsArticle :: "MemStorage \<Rightarrow> int \<Rightarrow> NewsArticle option" where
  "getNewsArticle s id' = Map_get (newsArticles s) id'"

definition createNewsArticle ::
  "MemStorage \<Rightarrow> InsertNewsArticle \<Rightarrow> NewsArticle \<times> MemStorage" where
  "createNewsArticle s article =
     (let id' = newsArticleCurrentId s;
          newArticle = \<lparr> na_id = id',
                         na_title = ina_title article,
                         na_content = ina_content article,
                         na_summary = ina_summary article,
                         na_author = ina_author article,
                         na_publishDate = ina_publishDate article,
                         na_isPublished = ina_isPublished article,
                         na_imageUrl = ina_imageUrl article,
                         na_tags = ina_tags article \<rparr>
      in (newArticle, s\<lparr> newsArticleCurrentId := id' + 1,
                          newsArticles := Map_set (newsArticles s) id' newArticle \<rparr>))"

definition spread_NewsArticle :: "NewsArticle \<Rightarrow> NewsArticlePatch \<Rightarrow> NewsArticle" where
  "spread_NewsArticle article data =
     \<lparr> na_id = spread (na_id article) (pna_id data),
       na_title = spread (na_title article) (pna_title data),
       na_content = spread (na_content article) (pna_content data),
       na_summary = spread (na_summary article) (pna_summary data),
       na_author = spread (na_author article) (pna_author data),
       na_publishDate = spread (na_publishDate article) (pna_publishDate data),
       na_isPublished = spread (na_isPublished article) (pna_isPublished data),
       na_imageUrl = spread (na_imageUrl article) (pna_imageUrl data),
       na_tags = spread (na_tags article) (pna_tags data) \<rparr>"

definition updateNewsArticle ::
  "MemStorage \<Rightarrow> int \<Rightarrow> NewsArticlePatch \<Rightarrow> NewsArticle option \<times> MemStorage" where
  "updateNewsArticle s id' data =
     (case getNewsArticle s id' of
        None \<Rightarrow> (None, s)
      | Some article \<Rightarrow>
          (let updatedArticle = spread_NewsArticle article data
           in (Some updatedArticle,
               s\<lparr> newsArticles := Map_set (newsArticles s) id' updatedArticle \<rparr>)))"

subsection \<open>Subscriber methods\<close>

definition createSubscriber ::
  "MemStorage \<Rightarrow> date \<Rightarrow> InsertSubscriber \<Rightarrow> Subscriber \<times> MemStorage" where
  "createSubscriber s now insertSubscriber =
     (let id' = subscriberCurrentId s;
          subscriber = \<lparr> sub_id = id',
                         sub_email = isub_email insertSubscriber,
                         sub_subscribedAt = Some now,
                         sub_isActive = Some True \<rparr>
      in (subscriber, s\<lparr> subscriberCurrentId := id' + 1,
                          subscribers := Map_set (subscribers s) id' subscriber \<rparr>))"

definition getSubscriberByEmail :: "MemStorage \<Rightarrow> string \<Rightarrow> Subscriber option" where
  "getSubscriberByEmail s email =
     find (\<lambda>subscriber. sub_email subscriber = email) (Map_values (subscribers s))"

definition getAllSubscribers :: "MemStorage \<Rightarrow> Subscriber list" where
  "getAllSubscribers s =
     filter (\<lambda>subscriber. sub_isActive subscriber = Some True) (Map_values (subscribers s))"

definition unsubscribe :: "MemStorage \<Rightarrow> string \<Rightarrow> bool \<times> MemStorage" where
  "unsubscribe s email =
     (case getSubscriberByEmail s email of
        None \<Rightarrow> (False, s)
      | Some subscriber \<Rightarrow>
          (let updatedSubscriber = subscriber\<lparr> sub_isActive := Some False \<rparr>
           in (True, s\<lparr> subscribers :=
                          Map_set (subscribers s) (sub_id subscriber) updatedSubscriber \<rparr>)))"

subsection \<open>The constructor\<close>

definition emptyStorage :: MemStorage where
  "emptyStorage =
     \<lparr> users = [], tradingPairs = [], orders = [], trades = [], rewardsEvents = [],
       rewardsTiers = [], newsArticles = [], subscribers = [],
       userCurrentId = 1, tradingPairCurrentId = 1, orderCurrentId = 1, tradeCurrentId = 1,
       rewardsEventCurrentId = 1, rewardsTierCurrentId = 1, newsArticleCurrentId = 1,
       subscriberCurrentId = 1 \<rparr>"

definition seedPair :: "string \<Rightarrow> InsertTradingPair" where
  "seedPair quote =
     \<lparr> itp_baseAsset = ''T&E'', itp_quoteAsset = quote, itp_pairSymbol = ''T&E/'' @ quote,
       itp_minTradeAmount = Fin 100, itp_maxTradeAmount = Some (Fin 1000000),
       itp_tradingFee = Some (round64 (1 / 1000)), itp_isActive = Some True \<rparr>"

definition Bronze :: InsertRewardsTier where
  "Bronze =
     \<lparr> irt_name = ''Bronze'', irt_pointsRequired = 0, irt_tradingFeeDiscount = Some (Fin 0),
       irt_additionalBenefits = Some [''Access to basic features''],
       irt_icon = Some [CHR 0xF0, CHR 0x9F, CHR 0xA5, CHR 0x89] \<rparr>"

definition Silver :: InsertRewardsTier where
  "Silver =
     \<lparr> irt_name = ''Silver'', irt_pointsRequired = 1000, irt_tradingFeeDiscount = Some (round64 (1 / 10)),
       irt_additionalBenefits = Some [''10% trading fee discount'', ''Priority support''],
       irt_icon = Some [CHR 0xF0, CHR 0x9F, CHR 0xA5, CHR 0x88] \<rparr>"

definition Gold :: InsertRewardsTier where
  "Gold =
     \<lparr> irt_name = ''Gold'', irt_pointsRequired = 5000, irt_tradingFeeDiscount = Some (round64 (2 / 10)),
       irt_additionalBenefits =
         Some [''20% trading fee discount'', ''Priority support'',
               ''Early access to new features''],
       irt_icon = Some [CHR 0xF0, CHR 0x9F, CHR 0xA5, CHR 0x87] \<rparr>"

definition Platinum :: InsertRewardsTier where
  "Platinum =
     \<lparr> irt_name = ''Platinum'', irt_pointsRequired = 10000, irt_tradingFeeDiscount = Some (round64 (3 / 10)),
       irt_additionalBenefits =
         Some [''30% trading fee discount'', ''VIP support'',
               ''Early access to new features'', ''Exclusive airdrops''],
       irt_icon = Some [CHR 0xF0, CHR 0x9F, CHR 0x92, CHR 0x8E] \<rparr>"

definition newMemStorage :: MemStorage where
  "newMemStorage =
     (let s = emptyStorage;
          s = snd (createTradingPair s (seedPair ''SOL''));
          s = snd (createTradingPair s (seedPair ''USDC''));
          s = snd (createTradingPair s (seedPair ''BTC''));
          s = snd (createRewardsTier s Bronze);
          s = snd (createRewardsTier s Silver);
          s = snd (createRewardsTier s Gold);
          s = snd (createRewardsTier s Platinum)
      in s)"

subsection \<open>server/routes.ts: the newsletter subscription endpoint\<close>

text \<open>
  The handler of \<open>POST /api/subscribe\<close>, after the body has passed the schema: the HTTP
  status and message it answers with, and the store afterwards.
\<close>

definition subscribe_route ::
  "MemStorage \<Rightarrow> date \<Rightarrow> InsertSubscriber \<Rightarrow> (int \<times> string) \<times> MemStorage" where
  "subscribe_route s now validatedData =
     (case getSubscriberByEmail s (isub_email validatedData) of
        Some existingSubscriber \<Rightarrow> ((400, ''Email already subscribed''), s)
      | None \<Rightarrow>
          (let (subscriber, s') = createSubscriber s now validatedData
           in ((201, ''Successfully subscribed''), s')))"

subsection \<open>Sequences of store operations\<close>

text \<open>
  Every method of \<open>IStorage\<close> that changes the store, as one operation; an operation is
  run at the time its \<open>new Date()\<close> reads, and \<open>GenerateResetToken\<close> carries the random
  token and the expiry.
\<close>

datatype store_op =
    CreateUser InsertUser
  | UpdateUser int UserPatch
  | VerifyUser string
  | ResetPassword string string
  | GenerateResetToken string date string
  | CreateTradingPair InsertTradingPair
  | UpdateTradingPair int TradingPairPatch
  | CreateOrder InsertOrder
  | UpdateOrder int OrderPatch
  | CreateTrade InsertTrade
  | CreateRewardsEvent InsertRewardsEvent
  | CreateRewardsTier InsertRewardsTier
  | CreateNewsArticle InsertNewsArticle
  | UpdateNewsArticle int NewsArticlePatch
  | CreateSubscriber InsertSubscriber
  | Unsubscribe string

fun apply_op :: "template \<Rightarrow> MemStorage \<Rightarrow> date \<Rightarrow> store_op \<Rightarrow> MemStorage" where
  "apply_op template s now (CreateUser insertUser) = snd (createUser template s now insertUser)"
| "apply_op template s now (UpdateUser id' data) = snd (updateUser s now id' data)"
| "apply_op template s now (VerifyUser verificationToken) = snd (verifyUser s now verificationToken)"
| "apply_op template s now (ResetPassword resetToken newPassword) =
     snd (resetPassword s now resetToken newPassword)"
| "apply_op template s now (GenerateResetToken rnd expires email) =
     snd (generateResetToken s now rnd expires email)"
| "apply_op template s now (CreateTradingPair tradingPair) = snd (createTradingPair s tradingPair)"
| "apply_op template s now (UpdateTradingPair id' data) = snd (updateTradingPair s id' data)"
| "apply_op template s now (CreateOrder order') = snd (createOrder s now order')"
| "apply_op template s now (UpdateOrder id' data) = snd (updateOrder s now id' data)"
| "apply_op template s now (CreateTrade trade) = snd (createTrade s now trade)"
| "apply_op template s now (CreateRewardsEvent event) = snd (createRewardsEvent s now event)"
| "apply_op template s now (CreateRewardsTier tier) = snd (createRewardsTier s tier)"
| "apply_op template s now (CreateNewsArticle article) = snd (createNewsArticle s article)"
| "apply_op template s now (UpdateNewsArticle id' data) = snd (updateNewsArticle s id' data)"
| "apply_op template s now (CreateSubscriber insertSubscriber) =
     snd (createSubscriber s now insertSubscriber)"
| "apply_op template s now (Unsubscribe email) = snd (unsubscribe s email)"

fun run :: "template \<Rightarrow> MemStorage \<Rightarrow> (date \<times> store_op) list \<Rightarrow> MemStorage" where
  "run template s [] = s"
| "run template s ((now, op) # ops) = run template (apply_op template s now op) ops"

subsection \<open>Records keyed by their own id\<close>

text \<open>
  The data model of the store: each map holds a record under the record's own \<open>id\<close>,
  once. The constructor and every method keep it so, except an update whose partial
  record overwrites \<open>id\<close>.
\<close>

definition keyed_by :: "('v \<Rightarrow> int) \<Rightarrow> (int, 'v) js_map \<Rightarrow> bool" where
  "keyed_by ident m = (distinct (map fst m) \<and> (\<forall>p\<in>set m. ident (snd p) = fst p))"

text \<open>
  Keyed, and every key below the counter that gives the next id; the three maps whose
  records the methods look up by a field and store back under \<open>id\<close>; and the operations
  that do not overwrite an \<open>id\<close>.
\<close>

definition fresh_keyed :: "('v \<Rightarrow> int) \<Rightarrow> int \<Rightarrow> (int, 'v) js_map \<Rightarrow> bool" where
  "fresh_keyed ident next m = (keyed_by ident m \<and> (\<forall>k\<in>fst ` set m. k < next))"

definition ids_inv :: "MemStorage \<Rightarrow> bool" where
  "ids_inv s =
     (fresh_keyed u_id (userCurrentId s) (users s) \<and>
      fresh_keyed o_id (orderCurrentId s) (orders s) \<and>
      fresh_keyed sub_id (subscriberCurrentId s) (subscribers s))"

fun keeps_id :: "store_op \<Rightarrow> bool" where
  "keeps_id (UpdateUser id' data) = (pu_id data = None)"
| "keeps_id (UpdateOrder id' data) = (po_id data = None)"
| "keeps_id op = True"

subsection \<open>Orders: status and fill\<close>

text \<open>
  An order as \<open>createOrder\<close> leaves it, and an order whose status is the one a trade
  computes: \<open>Filled\<close> when \<open>filled >= amount\<close> holds of the two stored numbers, \<open>Partial\<close>
  when it does not.
\<close>

definition as_created :: "Order \<Rightarrow> bool" where
  "as_created order' =
     (o_filled order' = Val (Fin 0) \<and>
      o_status order' = (if o_type order' = ''Market'' then ''Filled'' else ''Open''))"

definition status_by_fill :: "Order \<Rightarrow> bool" where
  "status_by_fill order' =
     (o_status order' =
        (if dge (to_number (o_filled order')) (o_amount order') then ''Filled'' else ''Partial''))"

fun is_UpdateOrder :: "store_op \<Rightarrow> bool" where
  "is_UpdateOrder (UpdateOrder id' data) = True"
| "is_UpdateOrder op = False"

definition orders_inv :: "MemStorage \<Rightarrow> bool" where
  "orders_inv s =
     (keyed_by o_id (orders s) \<and>
      (\<forall>k\<in>fst ` set (orders s). k < orderCurrentId s) \<and>
      (\<forall>order'\<in>set (Map_values (orders s)). as_created order' \<or> status_by_fill order'))"

text \<open>
  The orders that a trade names are each stored under their own id (or absent), and the
  users that those orders name are each stored under their own id (or absent).
\<close>

definition order_under_id :: "MemStorage \<Rightarrow> int \<Rightarrow> bool" where
  "order_under_id s k = (case getOrder s k of None \<Rightarrow> True | Some order' \<Rightarrow> o_id order' = k)"

definition user_under_id :: "MemStorage \<Rightarrow> int \<Rightarrow> bool" where
  "user_under_id s k = (case getUser s k of None \<Rightarrow> True | Some user \<Rightarrow> u_id user = k)"

subsection \<open>Rewards: points and events\<close>

text \<open>
  The sum of the points of a user's events, an exact rational (an event whose points
  are not finite counts as 0 in it); a double-precision sum that is exact; and the
  sequences of operations that keep \<open>rewardsPoints\<close> equal to the sum: every
  \<open>createRewardsEvent\<close> names a user who is in the store at that moment, with finite points
  whose sum with the user's \<open>rewardsPoints\<close> a double holds exactly, and no \<open>updateUser\<close>
  supplies \<open>id\<close> or \<open>rewardsPoints\<close>.
\<close>

fun is_finite :: "number \<Rightarrow> bool" where
  "is_finite (Fin q) = True"
| "is_finite x = False"

fun value_of :: "number \<Rightarrow> rat" where
  "value_of (Fin q) = q"
| "value_of x = 0"

definition points_total :: "MemStorage \<Rightarrow> int \<Rightarrow> rat" where
  "points_total s userId =
     sum_list (map (\<lambda>event. value_of (re_points event)) (getUserRewardsEvents s userId))"

fun exact_sum :: "number \<Rightarrow> number \<Rightarrow> bool" where
  "exact_sum (Fin x) (Fin y) = (dadd (Fin x) (Fin y) = Fin (x + y))"
| "exact_sum x y = False"

fun points_safe :: "MemStorage \<Rightarrow> store_op \<Rightarrow> bool" where
  "points_safe s (CreateRewardsEvent event) =
     (case getUser s (ire_userId event) of
        None \<Rightarrow> False
      | Some user \<Rightarrow> exact_sum (or_zero (u_rewardsPoints user)) (ire_points event))"
| "points_safe s (UpdateUser id' data) = (pu_id data = None \<and> pu_rewardsPoints data = None)"
| "points_safe s op = True"

fun run_points_safe :: "template \<Rightarrow> MemStorage \<Rightarrow> (date \<times> store_op) list \<Rightarrow> bool" where
  "run_points_safe template s [] = True"
| "run_points_safe template s ((now, op) # ops) =
     (points_safe s op \<and> run_points_safe template (apply_op template s now op) ops)"

definition rewards_inv :: "MemStorage \<Rightarrow> bool" where
  "rewards_inv s =
     (keyed_by u_id (users s) \<and>
      (\<forall>k\<in>fst ` set (users s). k < userCurrentId s) \<and>
      (\<forall>k\<in>fst ` set (rewardsEvents s). k < rewardsEventCurrentId s) \<and>
      (\<forall>event\<in>set (Map_values (rewardsEvents s)).
         re_userId event \<in> fst ` set (users s) \<and> is_finite (re_points event)) \<and>
      (\<forall>user\<in>set (Map_values (users s)).
         u_rewardsPoints user = Val (Fin (points_total s (u_id user)))))"

subsection \<open>Reset tokens\<close>

text \<open>The user records that hold a reset token, in the order of the map.\<close>

definition holders :: "MemStorage \<Rightarrow> string \<Rightarrow> User list" where
  "holders s resetToken =
     filter (\<lambda>user. u_resetPasswordToken user = Some resetToken) (Map_values (users s))"

subsection \<open>Example stores\<close>

definition alice :: InsertUser where
  "alice =
     \<lparr> iu_username = ''alice'', iu_email = ''alice@x.com'', iu_password = ''pw123456'',
       iu_fullName = None, iu_walletAddress = None \<rparr>"

definition bob :: InsertUser where
  "bob =
     \<lparr> iu_username = ''bob'', iu_email = ''bob@x.com'', iu_password = ''hunter22'',
       iu_fullName = Some ''Bob'', iu_walletAddress = None \<rparr>"

text \<open>Alice with a verification token, as an administrator's update can store one.\<close>

definition pending_alice :: MemStorage where
  "pending_alice =
     run ascii_template newMemStorage
       [(1000, CreateUser alice),
        (2000, UpdateUser 1 (no_User_fields\<lparr> pu_verificationToken := Some (Some ''tok'') \<rparr>))]"

text \<open>Bob subscribes to the newsletter and unsubscribes.\<close>

definition cancelled_bob_ops :: "(date \<times> store_op) list" where
  "cancelled_bob_ops =
     [(1000, CreateSubscriber \<lparr> isub_email = ''bob@x.com'' \<rparr>),
      (2000, Unsubscribe ''bob@x.com'')]"

text \<open>Alice after she asked for a password reset at time 2000, with the expiry 3602000.\<close>

definition alice_reset :: MemStorage where
  "alice_reset =
     run ascii_template newMemStorage
       [(1000, CreateUser alice),
        (2000, GenerateResetToken ''T'' 3602000 ''alice@x.com'')]"

definition alice_holds_T :: User where
  "alice_holds_T =
     \<lparr> u_id = 1, u_username = ''alice'', u_email = ''alice@x.com'', u_password = ''pw123456'',
       u_fullName = None, u_walletAddress = None, u_twoFactorEnabled = Some False,
       u_twoFactorSecret = None, u_createdAt = Some 1000, u_updatedAt = Some 2000,
       u_profilePicture = None, u_isVerified = Some False, u_verificationToken = None,
       u_resetPasswordToken = Some ''T'', u_resetPasswordExpires = Some 3602000,
       u_totalTradingVolume = Val (Fin 0), u_rewardsPoints = Val (Fin 0),
       u_referralCode = Some ''ALICE1'', u_referredBy = None \<rparr>"

text \<open>Two users whose records were given the same reset token by updates.\<close>

definition token_T :: UserPatch where
  "token_T =
     no_User_fields\<lparr> pu_resetPasswordToken := Some (Some ''T''),
                      pu_resetPasswordExpires := Some (Some 9000) \<rparr>"

definition shared_token :: MemStorage where
  "shared_token =
     run ascii_template newMemStorage
       [(1000, CreateUser alice),
        (1001, CreateUser bob),
        (2000, UpdateUser 1 token_T),
        (2001, UpdateUser 2 token_T)]"

text \<open>Alice and Bob, where only Bob's record holds the token \<open>T\<close>.\<close>

definition bob_holds_T_ops :: "(date \<times> store_op) list" where
  "bob_holds_T_ops =
     [(1000, CreateUser alice), (1001, CreateUser bob), (2000, UpdateUser 2 token_T)]"

definition bob_holds_T :: MemStorage where
  "bob_holds_T = run ascii_template newMemStorage bob_holds_T_ops"

text \<open>Alice's record after an update that gave it the token \<open>T\<close> and the \<open>id\<close> 7.\<close>

definition token_on_renumbered :: MemStorage where
  "token_on_renumbered =
     run ascii_template newMemStorage
       [(1000, CreateUser alice), (2000, UpdateUser 1 (token_T\<lparr> pu_id := Some 7 \<rparr>))]"

definition alice_stored :: User where
  "alice_stored =
     \<lparr> u_id = 1, u_username = ''alice'', u_email = ''alice@x.com'', u_password = ''pw123456'',
       u_fullName = None, u_walletAddress = None, u_twoFactorEnabled = Some False,
       u_twoFactorSecret = None, u_createdAt = Some 1000, u_updatedAt = Some 1000,
       u_profilePicture = None, u_isVerified = Some False, u_verificationToken = None,
       u_resetPasswordToken = None, u_resetPasswordExpires = None,
       u_totalTradingVolume = Val (Fin 0), u_rewardsPoints = Val (Fin 0),
       u_referralCode = Some ''ALICE1'', u_referredBy = None \<rparr>"

definition only_alice_ops :: "(date \<times> store_op) list" where
  "only_alice_ops = [(1000, CreateUser alice)]"

definition only_alice :: MemStorage where
  "only_alice = run ascii_template newMemStorage only_alice_ops"

definition rename_alice :: UserPatch where
  "rename_alice =
     no_User_fields\<lparr> pu_fullName := Some (Some ''Alice''), pu_updatedAt := Some (Some 7) \<rparr>"

definition deactivate :: TradingPairPatch where
  "deactivate =
     \<lparr> ptp_id = None, ptp_baseAsset = None, ptp_quoteAsset = None, ptp_pairSymbol = None,
       ptp_minTradeAmount = None, ptp_maxTradeAmount = None, ptp_tradingFee = None,
       ptp_isActive = Some (Some False) \<rparr>"

text \<open>Two users with one limit order each, and trades between the orders.\<close>

definition alice_buys :: InsertOrder where
  "alice_buys =
     \<lparr> io_userId = 1, io_tradingPairId = 1, io_type = ''Limit'', io_side = ''Buy'',
       io_price = Some (Fin 2), io_amount = Fin 500 \<rparr>"

definition bob_sells :: InsertOrder where
  "bob_sells =
     \<lparr> io_userId = 2, io_tradingPairId = 1, io_type = ''Limit'', io_side = ''Sell'',
       io_price = Some (Fin 2), io_amount = Fin 500 \<rparr>"

definition alice_market :: InsertOrder where
  "alice_market =
     \<lparr> io_userId = 1, io_tradingPairId = 1, io_type = ''Market'', io_side = ''Buy'',
       io_price = None, io_amount = Fin 500 \<rparr>"

definition two_traders_ops :: "(date \<times> store_op) list" where
  "two_traders_ops =
     [(1000, CreateUser alice), (1001, CreateUser bob),
      (2000, CreateOrder alice_buys), (2001, CreateOrder bob_sells)]"

definition two_traders :: MemStorage where
  "two_traders = run ascii_template newMemStorage two_traders_ops"

definition first_trade :: InsertTrade where
  "first_trade =
     \<lparr> it_buyOrderId = 1, it_sellOrderId = 2, it_tradingPairId = 1, it_price = Fin 2,
       it_amount = Fin 200, it_totalValue = Fin 400, it_fee = round64 (4 / 10) \<rparr>"

definition self_trade :: InsertTrade where
  "self_trade =
     \<lparr> it_buyOrderId = 1, it_sellOrderId = 1, it_tradingPairId = 1, it_price = Fin 2,
       it_amount = Fin 200, it_totalValue = Fin 400, it_fee = round64 (4 / 10) \<rparr>"

definition big_trade :: InsertTrade where
  "big_trade =
     \<lparr> it_buyOrderId = 1, it_sellOrderId = 2, it_tradingPairId = 1, it_price = Fin 2,
       it_amount = Fin 800, it_totalValue = Fin 1600, it_fee = round64 (16 / 10) \<rparr>"

text \<open>
  A trade of \<open>2 ^ 53\<close> at the price 1, and a trade of 1 after it: \<open>2 ^ 53 + 1\<close> is not a
  double.
\<close>

definition huge_trade :: InsertTrade where
  "huge_trade =
     \<lparr> it_buyOrderId = 1, it_sellOrderId = 2, it_tradingPairId = 1, it_price = Fin 1,
       it_amount = Fin 9007199254740992, it_totalValue = Fin 9007199254740992,
       it_fee = Fin 0 \<rparr>"

definition unit_trade :: InsertTrade where
  "unit_trade =
     \<lparr> it_buyOrderId = 1, it_sellOrderId = 2, it_tradingPairId = 1, it_price = Fin 1,
       it_amount = Fin 1, it_totalValue = Fin 1, it_fee = Fin 0 \<rparr>"

definition after_huge_trade :: MemStorage where
  "after_huge_trade = snd (createTrade two_traders 3000 huge_trade)"

text \<open>The two traders after an update that gave order 1 the \<open>id\<close> 5, or user 1 the \<open>id\<close> 7.\<close>

definition order_renumbered :: MemStorage where
  "order_renumbered =
     snd (updateOrder two_traders 2500 1 (no_Order_fields\<lparr> po_id := Some 5 \<rparr>))"

definition user_renumbered :: MemStorage where
  "user_renumbered =
     snd (updateUser two_traders 2500 1 (no_User_fields\<lparr> pu_id := Some 7 \<rparr>))"

text \<open>Rewards events: 150 points for user 1, 5 points for user 1, and a deduction.\<close>

definition earn_150 :: InsertRewardsEvent where
  "earn_150 =
     \<lparr> ire_userId = 1, ire_eventType = ''Trade'', ire_points = Fin 150,
       ire_description = ''Earned points for trading'', ire_additionalData = None \<rparr>"

definition earn_5 :: InsertRewardsEvent where
  "earn_5 =
     \<lparr> ire_userId = 1, ire_eventType = ''Signup'', ire_points = Fin 5,
       ire_description = ''Welcome'', ire_additionalData = None \<rparr>"

definition lose_5 :: InsertRewardsEvent where
  "lose_5 =
     \<lparr> ire_userId = 1, ire_eventType = ''Adjustment'', ire_points = Fin (- 5),
       ire_description = ''Correction'', ire_additionalData = None \<rparr>"

definition earn_huge :: InsertRewardsEvent where
  "earn_huge =
     \<lparr> ire_userId = 1, ire_eventType = ''Trade'', ire_points = Fin 9007199254740992,
       ire_description = ''Earned points for trading'', ire_additionalData = None \<rparr>"

definition earn_1 :: InsertRewardsEvent where
  "earn_1 =
     \<lparr> ire_userId = 1, ire_eventType = ''Trade'', ire_points = Fin 1,
       ire_description = ''Earned points for trading'', ire_additionalData = None \<rparr>"

definition alice_earns_ops :: "(date \<times> store_op) list" where
  "alice_earns_ops = [(1000, CreateUser alice), (2000, CreateRewardsEvent earn_150)]"

definition event_before_user :: MemStorage where
  "event_before_user =
     run ascii_template newMemStorage
       [(1000, CreateRewardsEvent earn_5), (2000, CreateUser alice)]"

definition points_overwritten :: MemStorage where
  "points_overwritten =
     run ascii_template newMemStorage
       [(1000, CreateUser alice),
        (2000, UpdateUser 1 (no_User_fields\<lparr> pu_rewardsPoints := Some (Val (Fin 999)) \<rparr>))]"

definition points_rounded :: MemStorage where
  "points_rounded =
     run ascii_template newMemStorage
       [(1000, CreateUser alice), (2000, CreateRewardsEvent earn_huge),
        (3000, CreateRewardsEvent earn_1)]"

definition renumbered_after_event :: MemStorage where
  "renumbered_after_event =
     run ascii_template newMemStorage
       [(1000, CreateUser alice), (2000, CreateRewardsEvent earn_5),
        (3000, UpdateUser 1 (no_User_fields\<lparr> pu_id := Some 7 \<rparr>))]"

definition alice_renumbered :: MemStorage where
  "alice_renumbered =
     run ascii_template newMemStorage
       [(1000, CreateUser alice), (2000, UpdateUser 1 (no_User_fields\<lparr> pu_id := Some 7 \<rparr>))]"

definition negative_alice :: MemStorage where
  "negative_alice =
     run ascii_template newMemStorage
       [(1000, CreateUser alice), (2000, CreateRewardsEvent lose_5)]"

text \<open>Alice after an update that made her \<open>rewardsPoints\<close> \<open>undefined\<close>.\<close>

definition undefined_points :: MemStorage where
  "undefined_points =
     run ascii_template newMemStorage
       [(1000, CreateUser alice),
        (2000, UpdateUser 1 (no_User_fields\<lparr> pu_rewardsPoints := Some Undefined \<rparr>))]"

section \<open>Properties of the numbers, of the Map and of the methods\<close>

subsection \<open>Sums that a double holds exactly\<close>

text \<open>
  A whole number below \<open>2 ^ 53\<close> in absolute value is a double, so the sum of two whole
  numbers is exact when it is below \<open>2 ^ 53\<close>; \<open>2 ^ 53 + 1\<close> is rounded to \<open>2 ^ 53\<close>.
\<close>

lemma round_half_even_int: "round_half_even (of_int k) = k"
  by (simp add: round_half_even_def)

lemma expo_int:
  assumes "n \<noteq> 0" and "\<bar>n\<bar> < 2 ^ 53"
  shows "0 \<le> expo (of_int n)" and "expo (of_int n) \<le> 52"
proof -
  from assms have pos: "0 < \<bar>n\<bar>" by simp
  from assms(1) have one: "1 \<le> \<bar>n\<bar>" by linarith
  then have "(1::rat) \<le> \<bar>of_int n\<bar>" by (metis of_int_1_le_iff of_int_abs)
  then have e: "expo (of_int n) = bitlen \<bar>n\<bar> - 1"
    by (simp add: expo_def flip: of_int_abs)
  have "0 < bitlen \<bar>n\<bar>"
  proof (rule ccontr)
    assume "\<not> 0 < bitlen \<bar>n\<bar>"
    then have "nat (bitlen \<bar>n\<bar>) = 0" by simp
    with bitlen_bounds [OF pos] pos show False by simp
  qed
  with e show "0 \<le> expo (of_int n)" by simp
  from bitlen_bounds [OF pos] assms(2) have "(2::int) ^ nat (bitlen \<bar>n\<bar> - 1) < 2 ^ 53" by linarith
  then have "nat (bitlen \<bar>n\<bar> - 1) < 53"
    using power_less_imp_less_exp [of "2::int" "nat (bitlen \<bar>n\<bar> - 1)" 53] by simp
  with e show "expo (of_int n) \<le> 52" by simp
qed

lemma round64_int:
  assumes "\<bar>n\<bar> < 2 ^ 53"
  shows "round64 (of_int n) = Fin (of_int n)"
proof (cases "n = 0")
  case True
  then show ?thesis by (simp add: round64_def)
next
  case False
  define e where "e = expo (of_int n)"
  from expo_int [OF False assms] have e: "0 \<le> e" "e \<le> 52" by (simp_all add: e_def)
  define k where "k = nat (52 - e)"
  from e have p: "max e (- 1022) - 52 = - int k" by (simp add: k_def)
  have s: "scale2 \<bar>of_int n\<bar> (int k) = of_int (\<bar>n\<bar> * 2 ^ k)"
    by (simp add: scale2_def)
  have m: "round_half_even (scale2 \<bar>of_int n\<bar> (int k)) = \<bar>n\<bar> * 2 ^ k"
    unfolding s by (rule round_half_even_int)
  have bk: "scale2 (\<bar>of_int n\<bar> * 2 ^ k) (- int k) = \<bar>of_int n\<bar>"
    by (cases "k = 0") (simp_all add: scale2_def)
  have "sgn (of_int n :: rat) * of_int \<bar>n\<bar> = of_int n"
    by (simp add: sgn_if)
  with False show ?thesis
    unfolding round64_def Let_def e_def [symmetric] p
    by (simp add: m bk)
qed

lemma dadd_int:
  "\<bar>a + b\<bar> < 2 ^ 53 \<Longrightarrow> dadd (Fin (of_int a)) (Fin (of_int b)) = Fin (of_int (a + b))"
  using round64_int [of "a + b"] by simp

lemma round64_numeral:
  "round64 0 = Fin 0"
  "round64 1 = Fin 1"
  "(numeral k :: int) < 2 ^ 53 \<Longrightarrow> round64 (numeral k) = Fin (numeral k)"
  "(numeral k :: int) < 2 ^ 53 \<Longrightarrow> round64 (- numeral k) = Fin (- numeral k)"
  using round64_int [of 0] round64_int [of 1] round64_int [of "numeral k"]
    round64_int [of "- numeral k"] by simp_all

lemma round64_above: "round64 9007199254740993 = Fin 9007199254740992"
  "round64 9007199254740992 = Fin 9007199254740992"
  by code_simp+

text \<open>
  Decimal fractions are rounded when they are read and again when they are added: the
  doubles for 0.2, 0.5 and 0.2 add up to the double below the one for 0.9.
\<close>

lemma tenths_fall_short:
  "dadd (dadd (dadd (Fin 0) (round64 (2 / 10))) (round64 (5 / 10))) (round64 (2 / 10)) =
     Fin (8106479329266892 / 2 ^ 53) \<and>
   round64 (9 / 10) = Fin (8106479329266893 / 2 ^ 53) \<and>
   \<not> dge (dadd (dadd (dadd (Fin 0) (round64 (2 / 10))) (round64 (5 / 10))) (round64 (2 / 10)))
          (round64 (9 / 10))"
  by code_simp

subsection \<open>Map\<close>

lemma Map_get_set: "Map_get (Map_set m k v) k' = (if k' = k then Some v else Map_get m k')"
  by (induction m) (auto simp: Map_get_def)

lemma keys_Map_set: "fst ` set (Map_set m k v) = insert k (fst ` set m)"
  by (induction m) auto

lemma Map_set_fresh: "k \<notin> fst ` set m \<Longrightarrow> Map_set m k v = m @ [(k, v)]"
  by (induction m) auto

lemma find_Some_D: "find P xs = Some x \<Longrightarrow> x \<in> set xs \<and> P x"
  by (induction xs) (auto split: if_splits)

lemma key_memI: "(k, v) \<in> set m \<Longrightarrow> k \<in> fst ` set m"
  by force

lemma keyed_by_Cons:
  "keyed_by ident (p # m) \<longleftrightarrow> ident (snd p) = fst p \<and> fst p \<notin> fst ` set m \<and> keyed_by ident m"
  by (auto simp: keyed_by_def)


lemma keyed_by_get:
  "keyed_by ident m \<Longrightarrow> v \<in> set (Map_values m) \<Longrightarrow> Map_get m (ident v) = Some v"
  by (auto simp: keyed_by_def Map_values_def Map_get_def)

lemma Map_get_value: "Map_get m k = Some v \<Longrightarrow> v \<in> set (Map_values m)"
  by (auto simp: Map_get_def Map_values_def dest: map_of_SomeD intro: rev_image_eqI)

lemma keyed_by_get_ident: "keyed_by ident m \<Longrightarrow> Map_get m k = Some v \<Longrightarrow> ident v = k"
  by (auto simp: keyed_by_def Map_get_def dest: map_of_SomeD)

lemma keyed_by_Map_set:
  "keyed_by ident m \<Longrightarrow> ident v = k \<Longrightarrow> keyed_by ident (Map_set m k v)"
proof (induction m)
  case Nil
  then show ?case by (simp add: keyed_by_def)
next
  case (Cons p m)
  then show ?case by (auto simp: keyed_by_Cons keys_Map_set dest: key_memI)
qed

lemma set_Map_set:
  "distinct (map fst m) \<Longrightarrow> set (Map_set m k v) = {p \<in> set m. fst p \<noteq> k} \<union> {(k, v)}"
proof (induction m)
  case Nil
  then show ?case by simp
next
  case (Cons p m)
  show ?case
  proof (cases "fst p = k")
    case True
    with Cons.prems have "k \<notin> fst ` set m" by simp
    then have "{q \<in> set m. fst q \<noteq> k} = set m" by force
    with True show ?thesis by auto
  next
    case False
    with Cons show ?thesis by auto
  qed
qed


text \<open>Values after a set: the new one, and the old ones under other keys.\<close>

lemma values_Map_set:
  "keyed_by ident m \<Longrightarrow> x \<in> set (Map_values (Map_set m k v)) \<Longrightarrow>
   x = v \<or> (x \<in> set (Map_values m) \<and> ident x \<noteq> k)"
  by (auto simp: keyed_by_def Map_values_def set_Map_set)

subsection \<open>What an update leaves alone\<close>

lemma updateUser_frame [simp]:
  "tradingPairs (snd (updateUser s now i d)) = tradingPairs s"
  "orders (snd (updateUser s now i d)) = orders s"
  "trades (snd (updateUser s now i d)) = trades s"
  "rewardsEvents (snd (updateUser s now i d)) = rewardsEvents s"
  "rewardsTiers (snd (updateUser s now i d)) = rewardsTiers s"
  "newsArticles (snd (updateUser s now i d)) = newsArticles s"
  "subscribers (snd (updateUser s now i d)) = subscribers s"
  "userCurrentId (snd (updateUser s now i d)) = userCurrentId s"
  "tradingPairCurrentId (snd (updateUser s now i d)) = tradingPairCurrentId s"
  "orderCurrentId (snd (updateUser s now i d)) = orderCurrentId s"
  "tradeCurrentId (snd (updateUser s now i d)) = tradeCurrentId s"
  "rewardsEventCurrentId (snd (updateUser s now i d)) = rewardsEventCurrentId s"
  "rewardsTierCurrentId (snd (updateUser s now i d)) = rewardsTierCurrentId s"
  "newsArticleCurrentId (snd (updateUser s now i d)) = newsArticleCurrentId s"
  "subscriberCurrentId (snd (updateUser s now i d)) = subscriberCurrentId s"
  by (simp_all add: updateUser_def Let_def split: option.split)

lemma updateOrder_frame [simp]:
  "users (snd (updateOrder s now i d)) = users s"
  "tradingPairs (snd (updateOrder s now i d)) = tradingPairs s"
  "trades (snd (updateOrder s now i d)) = trades s"
  "rewardsEvents (snd (updateOrder s now i d)) = rewardsEvents s"
  "rewardsTiers (snd (updateOrder s now i d)) = rewardsTiers s"
  "newsArticles (snd (updateOrder s now i d)) = newsArticles s"
  "subscribers (snd (updateOrder s now i d)) = subscribers s"
  "userCurrentId (snd (updateOrder s now i d)) = userCurrentId s"
  "tradingPairCurrentId (snd (updateOrder s now i d)) = tradingPairCurrentId s"
  "orderCurrentId (snd (updateOrder s now i d)) = orderCurrentId s"
  "tradeCurrentId (snd (updateOrder s now i d)) = tradeCurrentId s"
  "rewardsEventCurrentId (snd (updateOrder s now i d)) = rewardsEventCurrentId s"
  "rewardsTierCurrentId (snd (updateOrder s now i d)) = rewardsTierCurrentId s"
  "newsArticleCurrentId (snd (updateOrder s now i d)) = newsArticleCurrentId s"
  "subscriberCurrentId (snd (updateOrder s now i d)) = subscriberCurrentId s"
  by (simp_all add: updateOrder_def Let_def split: option.split)

lemma createTrade_trades:
  "trades (snd (createTrade s now x)) = Map_set (trades s) (tradeCurrentId s) (fst (createTrade s now x))"
  "tradeCurrentId (snd (createTrade s now x)) = tradeCurrentId s + 1"
  by (simp_all add: createTrade_def Let_def split: option.split)

lemma createRewardsEvent_events:
  "rewardsEvents (snd (createRewardsEvent s now x)) =
     Map_set (rewardsEvents s) (rewardsEventCurrentId s) (fst (createRewardsEvent s now x))"
  "rewardsEventCurrentId (snd (createRewardsEvent s now x)) = rewardsEventCurrentId s + 1"
  by (simp_all add: createRewardsEvent_def Let_def split: option.split)

subsection \<open>Create, then get\<close>

lemma rt_user:
  "getUser (snd (createUser template s now x)) (u_id (fst (createUser template s now x))) = Some (fst (createUser template s now x)) \<and>
   u_id (fst (createUser template s now x)) = userCurrentId s \<and>
   userCurrentId (snd (createUser template s now x)) = userCurrentId s + 1 \<and>
   u_username (fst (createUser template s now x)) = iu_username x \<and>
   u_email (fst (createUser template s now x)) = iu_email x \<and>
   u_password (fst (createUser template s now x)) = iu_password x \<and>
   u_fullName (fst (createUser template s now x)) = iu_fullName x \<and>
   u_walletAddress (fst (createUser template s now x)) = iu_walletAddress x \<and>
   u_createdAt (fst (createUser template s now x)) = Some now \<and>
   u_updatedAt (fst (createUser template s now x)) = Some now \<and>
   u_twoFactorEnabled (fst (createUser template s now x)) = Some False \<and>
   u_isVerified (fst (createUser template s now x)) = Some False \<and>
   u_totalTradingVolume (fst (createUser template s now x)) = Val (Fin 0) \<and>
   u_rewardsPoints (fst (createUser template s now x)) = Val (Fin 0) \<and>
   u_referralCode (fst (createUser template s now x)) =
     Some (template (iu_username x) (userCurrentId s))"
  by (simp add: createUser_def Let_def getUser_def Map_get_set)

lemma rt_trade:
  "getTrade (snd (createTrade s now x)) (t_id (fst (createTrade s now x))) = Some (fst (createTrade s now x)) \<and>
   t_id (fst (createTrade s now x)) = tradeCurrentId s \<and>
   tradeCurrentId (snd (createTrade s now x)) = tradeCurrentId s + 1 \<and>
   t_buyOrderId (fst (createTrade s now x)) = it_buyOrderId x \<and>
   t_sellOrderId (fst (createTrade s now x)) = it_sellOrderId x \<and>
   t_tradingPairId (fst (createTrade s now x)) = it_tradingPairId x \<and>
   t_price (fst (createTrade s now x)) = it_price x \<and>
   t_amount (fst (createTrade s now x)) = it_amount x \<and>
   t_totalValue (fst (createTrade s now x)) = it_totalValue x \<and>
   t_fee (fst (createTrade s now x)) = it_fee x \<and>
   t_timestamp (fst (createTrade s now x)) = Some now"
proof -
  have f: "fst (createTrade s now x) =
    \<lparr> t_id = tradeCurrentId s, t_buyOrderId = it_buyOrderId x, t_sellOrderId = it_sellOrderId x,
      t_tradingPairId = it_tradingPairId x, t_price = it_price x, t_amount = it_amount x,
      t_totalValue = it_totalValue x, t_fee = it_fee x, t_timestamp = Some now \<rparr>"
    by (simp add: createTrade_def Let_def)
  show ?thesis
    by (simp add: getTrade_def createTrade_trades Map_get_set) (simp add: f)
qed

lemma rt_pair:
  "getTradingPair (snd (createTradingPair s x)) (tp_id (fst (createTradingPair s x))) =
     Some (fst (createTradingPair s x)) \<and>
   tp_id (fst (createTradingPair s x)) = tradingPairCurrentId s \<and>
   tradingPairCurrentId (snd (createTradingPair s x)) = tradingPairCurrentId s + 1 \<and>
   tp_baseAsset (fst (createTradingPair s x)) = itp_baseAsset x \<and>
   tp_quoteAsset (fst (createTradingPair s x)) = itp_quoteAsset x \<and>
   tp_pairSymbol (fst (createTradingPair s x)) = itp_pairSymbol x \<and>
   tp_minTradeAmount (fst (createTradingPair s x)) = itp_minTradeAmount x \<and>
   tp_maxTradeAmount (fst (createTradingPair s x)) = itp_maxTradeAmount x \<and>
   tp_tradingFee (fst (createTradingPair s x)) = itp_tradingFee x \<and>
   tp_isActive (fst (createTradingPair s x)) = itp_isActive x"
  by (simp add: createTradingPair_def Let_def getTradingPair_def Map_get_set)

lemma rt_order:
  "getOrder (snd (createOrder s now x)) (o_id (fst (createOrder s now x))) =
     Some (fst (createOrder s now x)) \<and>
   o_id (fst (createOrder s now x)) = orderCurrentId s \<and>
   orderCurrentId (snd (createOrder s now x)) = orderCurrentId s + 1 \<and>
   o_userId (fst (createOrder s now x)) = io_userId x \<and>
   o_tradingPairId (fst (createOrder s now x)) = io_tradingPairId x \<and>
   o_type (fst (createOrder s now x)) = io_type x \<and>
   o_side (fst (createOrder s now x)) = io_side x \<and>
   o_price (fst (createOrder s now x)) = io_price x \<and>
   o_amount (fst (createOrder s now x)) = io_amount x \<and>
   o_filled (fst (createOrder s now x)) = Val (Fin 0) \<and>
   o_status (fst (createOrder s now x)) = (if io_type x = ''Market'' then ''Filled'' else ''Open'') \<and>
   o_createdAt (fst (createOrder s now x)) = Some now \<and>
   o_updatedAt (fst (createOrder s now x)) = Some now"
  by (simp add: createOrder_def Let_def getOrder_def Map_get_set)

lemma rt_event:
  "getRewardsEvent (snd (createRewardsEvent s now x)) (re_id (fst (createRewardsEvent s now x))) =
     Some (fst (createRewardsEvent s now x)) \<and>
   re_id (fst (createRewardsEvent s now x)) = rewardsEventCurrentId s \<and>
   rewardsEventCurrentId (snd (createRewardsEvent s now x)) = rewardsEventCurrentId s + 1 \<and>
   re_userId (fst (createRewardsEvent s now x)) = ire_userId x \<and>
   re_eventType (fst (createRewardsEvent s now x)) = ire_eventType x \<and>
   re_points (fst (createRewardsEvent s now x)) = ire_points x \<and>
   re_description (fst (createRewardsEvent s now x)) = ire_description x \<and>
   re_additionalData (fst (createRewardsEvent s now x)) = ire_additionalData x \<and>
   re_createdAt (fst (createRewardsEvent s now x)) = Some now"
proof -
  have f: "fst (createRewardsEvent s now x) =
    \<lparr> re_id = rewardsEventCurrentId s, re_userId = ire_userId x, re_eventType = ire_eventType x,
      re_points = ire_points x, re_description = ire_description x, re_createdAt = Some now,
      re_additionalData = ire_additionalData x \<rparr>"
    by (simp add: createRewardsEvent_def Let_def)
  show ?thesis
    by (simp add: getRewardsEvent_def createRewardsEvent_events Map_get_set) (simp add: f)
qed

lemma rt_tier:
  "getAllRewardsTiers (snd (createRewardsTier s x)) =
     Map_values (Map_set (rewardsTiers s) (rewardsTierCurrentId s) (fst (createRewardsTier s x))) \<and>
   Map_get (rewardsTiers (snd (createRewardsTier s x))) (rt_id (fst (createRewardsTier s x))) =
     Some (fst (createRewardsTier s x)) \<and>
   rt_id (fst (createRewardsTier s x)) = rewardsTierCurrentId s \<and>
   rewardsTierCurrentId (snd (createRewardsTier s x)) = rewardsTierCurrentId s + 1 \<and>
   rt_name (fst (createRewardsTier s x)) = irt_name x \<and>
   rt_pointsRequired (fst (createRewardsTier s x)) = irt_pointsRequired x \<and>
   rt_tradingFeeDiscount (fst (createRewardsTier s x)) = irt_tradingFeeDiscount x \<and>
   rt_additionalBenefits (fst (createRewardsTier s x)) = irt_additionalBenefits x \<and>
   rt_icon (fst (createRewardsTier s x)) = irt_icon x"
  by (simp add: createRewardsTier_def Let_def getAllRewardsTiers_def Map_get_set)

lemma rt_article:
  "getNewsArticle (snd (createNewsArticle s x)) (na_id (fst (createNewsArticle s x))) =
     Some (fst (createNewsArticle s x)) \<and>
   na_id (fst (createNewsArticle s x)) = newsArticleCurrentId s \<and>
   newsArticleCurrentId (snd (createNewsArticle s x)) = newsArticleCurrentId s + 1 \<and>
   na_title (fst (createNewsArticle s x)) = ina_title x \<and>
   na_content (fst (createNewsArticle s x)) = ina_content x \<and>
   na_summary (fst (createNewsArticle s x)) = ina_summary x \<and>
   na_author (fst (createNewsArticle s x)) = ina_author x \<and>
   na_publishDate (fst (createNewsArticle s x)) = ina_publishDate x \<and>
   na_isPublished (fst (createNewsArticle s x)) = ina_isPublished x \<and>
   na_imageUrl (fst (createNewsArticle s x)) = ina_imageUrl x \<and>
   na_tags (fst (createNewsArticle s x)) = ina_tags x"
  by (simp add: createNewsArticle_def Let_def getNewsArticle_def Map_get_set)

lemma rt_subscriber:
  "Map_get (subscribers (snd (createSubscriber s now x))) (sub_id (fst (createSubscriber s now x))) =
     Some (fst (createSubscriber s now x)) \<and>
   sub_id (fst (createSubscriber s now x)) = subscriberCurrentId s \<and>
   subscriberCurrentId (snd (createSubscriber s now x)) = subscriberCurrentId s + 1 \<and>
   sub_email (fst (createSubscriber s now x)) = isub_email x \<and>
   sub_subscribedAt (fst (createSubscriber s now x)) = Some now \<and>
   sub_isActive (fst (createSubscriber s now x)) = Some True"
  by (simp add: createSubscriber_def Let_def Map_get_set)

subsection \<open>Evaluating the methods on the example stores\<close>

lemma digits_1: "digits (Suc 0) = ''1''"
  by (simp add: digits.simps)

lemma digits_2: "digits 2 = ''2''"
  by (simp add: digits.simps)

lemmas method_defs =
  newMemStorage_def emptyStorage_def seedPair_def Bronze_def Silver_def Gold_def Platinum_def
  createUser_def updateUser_def verifyUser_def resetPassword_def reset_matches_def
  generateResetToken_def getUser_def getUserByEmail_def
  createTradingPair_def createRewardsTier_def createOrder_def updateOrder_def getOrder_def
  createTrade_def fill_fields_def volume_fields_def createRewardsEvent_def points_fields_def
  getUserRewardsEvents_def createSubscriber_def unsubscribe_def getSubscriberByEmail_def
  getAllSubscribers_def subscribe_route_def
  spread_User_def spread_Order_def spread_def or_zero_def to_number_def
  no_User_fields_def no_Order_fields_def
  Map_get_def Map_values_def Let_def keyed_by_def order_under_id_def user_under_id_def
  holders_def round64_numeral round64_above
  ascii_template_def toUpperCase_def upper_char_def number_toString_def digits_1 digits_2
  alice_def bob_def cancelled_bob_ops_def alice_stored_def only_alice_ops_def only_alice_def
  rename_alice_def deactivate_def token_T_def
  alice_buys_def bob_sells_def alice_market_def two_traders_ops_def two_traders_def
  first_trade_def self_trade_def big_trade_def huge_trade_def unit_trade_def
  after_huge_trade_def order_renumbered_def user_renumbered_def
  earn_150_def earn_5_def lose_5_def earn_huge_def earn_1_def
  alice_earns_ops_def event_before_user_def points_overwritten_def points_rounded_def
  renumbered_after_event_def alice_renumbered_def negative_alice_def undefined_points_def
  pending_alice_def alice_reset_def shared_token_def bob_holds_T_ops_def bob_holds_T_def
  token_on_renumbered_def

lemmas trade_defs = createTrade_def Let_def updateOrder_def updateUser_def getOrder_def getUser_def
  Map_get_set fill_fields_def volume_fields_def spread_Order_def spread_User_def spread_def
  no_Order_fields_def no_User_fields_def

subsection \<open>The order invariant\<close>

lemma orders_inv_cong:
  "orders s' = orders s \<Longrightarrow> orderCurrentId s' = orderCurrentId s \<Longrightarrow>
   orders_inv s' = orders_inv s"
  by (simp add: orders_inv_def)

lemma orders_inv_new: "orders_inv newMemStorage"
  by (simp add: orders_inv_def method_defs)

lemma Map_values_append: "Map_values (m @ [(k, v)]) = Map_values m @ [v]"
  by (simp add: Map_values_def)

lemma orders_inv_createOrder:
  assumes "orders_inv s"
  shows "orders_inv (snd (createOrder s now x))"
proof -
  let ?new = "fst (createOrder s now x)"
  from assms have fresh: "orderCurrentId s \<notin> fst ` set (orders s)"
    by (auto simp: orders_inv_def)
  have o: "orders (snd (createOrder s now x)) = Map_set (orders s) (orderCurrentId s) ?new"
    and c: "orderCurrentId (snd (createOrder s now x)) = orderCurrentId s + 1"
    by (simp_all add: createOrder_def Let_def)
  have n: "o_id ?new = orderCurrentId s" "as_created ?new"
    by (simp_all add: createOrder_def Let_def as_created_def)
  from assms n have k: "keyed_by o_id (Map_set (orders s) (orderCurrentId s) ?new)"
    by (simp add: orders_inv_def keyed_by_Map_set)
  from assms have b: "\<forall>k\<in>fst ` set (Map_set (orders s) (orderCurrentId s) ?new).
      k < orderCurrentId s + 1"
    by (auto simp: keys_Map_set orders_inv_def)
  from assms n have v: "\<forall>order'\<in>set (Map_values (Map_set (orders s) (orderCurrentId s) ?new)).
      as_created order' \<or> status_by_fill order'"
    by (auto simp: Map_set_fresh [OF fresh] Map_values_append orders_inv_def)
  from k b v show ?thesis unfolding orders_inv_def o c by blast
qed

lemma key_of_get: "Map_get m k = Some v \<Longrightarrow> k \<in> fst ` set m"
  by (auto simp: Map_get_def dest!: map_of_SomeD intro: key_memI)

text \<open>The update that a trade makes to an order it read before.\<close>

lemma orders_inv_fill:
  assumes inv: "orders_inv s"
      and same: "\<forall>y. getOrder s (o_id x) = Some y \<longrightarrow> o_amount y = o_amount x"
  shows "orders_inv (snd (updateOrder s now (o_id x) (fill_fields x t)))"
proof (cases "getOrder s (o_id x)")
  case None
  then show ?thesis using inv by (simp add: updateOrder_def)
next
  case (Some y)
  let ?y' = "(spread_Order y (fill_fields x t))\<lparr> o_updatedAt := Some now \<rparr>"
  from Some have g: "Map_get (orders s) (o_id x) = Some y" by (simp add: getOrder_def)
  from inv have kb: "keyed_by o_id (orders s)" by (simp add: orders_inv_def)
  from kb g have idy: "o_id y = o_id x" by (rule keyed_by_get_ident)
  from same Some have am: "o_amount y = o_amount x" by simp
  have s': "snd (updateOrder s now (o_id x) (fill_fields x t)) =
      s\<lparr> orders := Map_set (orders s) (o_id x) ?y' \<rparr>"
    using Some by (simp add: updateOrder_def Let_def)
  have idy': "o_id ?y' = o_id x"
    using idy by (simp add: spread_Order_def fill_fields_def no_Order_fields_def spread_def)
  have st: "status_by_fill ?y'"
    using am by (simp add: status_by_fill_def spread_Order_def fill_fields_def
        no_Order_fields_def spread_def to_number_def)
  from kb idy' have k: "keyed_by o_id (Map_set (orders s) (o_id x) ?y')"
    by (simp add: keyed_by_Map_set)
  from key_of_get [OF g] have "insert (o_id x) (fst ` set (orders s)) = fst ` set (orders s)"
    by blast
  with inv have b: "\<forall>k\<in>fst ` set (Map_set (orders s) (o_id x) ?y'). k < orderCurrentId s"
    by (simp add: keys_Map_set orders_inv_def)
  have v: "\<forall>order'\<in>set (Map_values (Map_set (orders s) (o_id x) ?y')).
      as_created order' \<or> status_by_fill order'"
  proof
    fix z assume "z \<in> set (Map_values (Map_set (orders s) (o_id x) ?y'))"
    from values_Map_set [OF kb this] st inv
    show "as_created z \<or> status_by_fill z" by (auto simp: orders_inv_def)
  qed
  from k b v show ?thesis unfolding s' orders_inv_def by simp
qed

lemma getOrder_after_fill:
  "getOrder (snd (updateOrder s now k d)) k' =
     (if k' = k then map_option (\<lambda>y. (spread_Order y d)\<lparr> o_updatedAt := Some now \<rparr>) (getOrder s k)
      else getOrder s k')"
  by (cases "Map_get (orders s) k") (simp_all add: updateOrder_def getOrder_def Let_def Map_get_set)

lemma createTrade_orders:
  "orders (snd (createTrade s now t)) =
     orders (let s1 = s;
                 buyOrder = getOrder s1 (it_buyOrderId t);
                 sellOrder = getOrder s1 (it_sellOrderId t);
                 s2 = (case buyOrder of None \<Rightarrow> s1
                       | Some bo \<Rightarrow> snd (updateOrder s1 now (o_id bo) (fill_fields bo t)));
                 s3 = (case sellOrder of None \<Rightarrow> s2
                       | Some so \<Rightarrow> snd (updateOrder s2 now (o_id so) (fill_fields so t)))
             in s3) \<and>
   orderCurrentId (snd (createTrade s now t)) = orderCurrentId s"
  by (simp add: createTrade_def Let_def updateOrder_def getOrder_def split: option.split)

lemma orders_inv_createTrade:
  assumes inv: "orders_inv s"
  shows "orders_inv (snd (createTrade s now t))"
proof -
  let ?s2 = "case getOrder s (it_buyOrderId t) of None \<Rightarrow> s
             | Some bo \<Rightarrow> snd (updateOrder s now (o_id bo) (fill_fields bo t))"
  let ?s3 = "case getOrder s (it_sellOrderId t) of None \<Rightarrow> ?s2
             | Some so \<Rightarrow> snd (updateOrder ?s2 now (o_id so) (fill_fields so t))"
  from inv have kb: "keyed_by o_id (orders s)" by (simp add: orders_inv_def)
  have i2: "orders_inv ?s2"
  proof (cases "getOrder s (it_buyOrderId t)")
    case None
    then show ?thesis using inv by simp
  next
    case (Some bo)
    from kb Some have "o_id bo = it_buyOrderId t"
      by (simp add: getOrder_def keyed_by_get_ident)
    with Some have "\<forall>y. getOrder s (o_id bo) = Some y \<longrightarrow> o_amount y = o_amount bo" by simp
    from orders_inv_fill [OF inv this] Some show ?thesis by simp
  qed
  have i3: "orders_inv ?s3"
  proof (cases "getOrder s (it_sellOrderId t)")
    case None
    then show ?thesis using i2 by simp
  next
    case (Some so)
    from kb Some have ids: "o_id so = it_sellOrderId t"
      by (simp add: getOrder_def keyed_by_get_ident)
    have "\<forall>y. getOrder ?s2 (o_id so) = Some y \<longrightarrow> o_amount y = o_amount so"
    proof (cases "getOrder s (it_buyOrderId t)")
      case None
      then show ?thesis using Some ids by simp
    next
      case bo: (Some bo)
      from kb bo have idb: "o_id bo = it_buyOrderId t"
        by (simp add: getOrder_def keyed_by_get_ident)
      show ?thesis
        using bo Some ids idb
        by (auto simp: getOrder_after_fill spread_Order_def fill_fields_def
            no_Order_fields_def spread_def)
    qed
    from orders_inv_fill [OF i2 this] Some show ?thesis by simp
  qed
  have "orders (snd (createTrade s now t)) = orders ?s3"
    and "orderCurrentId (snd (createTrade s now t)) = orderCurrentId ?s3"
    using createTrade_orders [of s now t]
    by (simp_all add: Let_def updateOrder_def getOrder_def split: option.split)
  from orders_inv_cong [OF this] i3 show ?thesis by simp
qed

lemma other_methods_orders [simp]:
  "orders (snd (createUser template s now xu)) = orders s"
  "orderCurrentId (snd (createUser template s now xu)) = orderCurrentId s"
  "orders (snd (verifyUser s now tk)) = orders s"
  "orderCurrentId (snd (verifyUser s now tk)) = orderCurrentId s"
  "orders (snd (resetPassword s now tk p)) = orders s"
  "orderCurrentId (snd (resetPassword s now tk p)) = orderCurrentId s"
  "orders (snd (generateResetToken s now rnd expires email)) = orders s"
  "orderCurrentId (snd (generateResetToken s now rnd expires email)) = orderCurrentId s"
  "orders (snd (createTradingPair s xp)) = orders s"
  "orderCurrentId (snd (createTradingPair s xp)) = orderCurrentId s"
  "orders (snd (updateTradingPair s i dp)) = orders s"
  "orderCurrentId (snd (updateTradingPair s i dp)) = orderCurrentId s"
  "orders (snd (createRewardsEvent s now xe)) = orders s"
  "orderCurrentId (snd (createRewardsEvent s now xe)) = orderCurrentId s"
  "orders (snd (createRewardsTier s xr)) = orders s"
  "orderCurrentId (snd (createRewardsTier s xr)) = orderCurrentId s"
  "orders (snd (createNewsArticle s xa)) = orders s"
  "orderCurrentId (snd (createNewsArticle s xa)) = orderCurrentId s"
  "orders (snd (updateNewsArticle s i da)) = orders s"
  "orderCurrentId (snd (updateNewsArticle s i da)) = orderCurrentId s"
  "orders (snd (createSubscriber s now xs)) = orders s"
  "orderCurrentId (snd (createSubscriber s now xs)) = orderCurrentId s"
  "orders (snd (unsubscribe s email)) = orders s"
  "orderCurrentId (snd (unsubscribe s email)) = orderCurrentId s"
  by (simp_all add: createUser_def verifyUser_def resetPassword_def generateResetToken_def
      createTradingPair_def updateTradingPair_def createRewardsEvent_def createRewardsTier_def
      createNewsArticle_def updateNewsArticle_def createSubscriber_def unsubscribe_def
      Let_def split: option.split)

lemma orders_inv_frame:
  "orders_inv s \<Longrightarrow> orders s' = orders s \<Longrightarrow> orderCurrentId s' = orderCurrentId s \<Longrightarrow>
   orders_inv s'"
  by (simp add: orders_inv_def)

lemma orders_inv_apply_op:
  assumes "orders_inv s" and "\<not> is_UpdateOrder op"
  shows "orders_inv (apply_op template s now op)"
proof (cases op)
  case (CreateOrder x)
  with assms show ?thesis by (simp add: orders_inv_createOrder)
next
  case (CreateTrade t)
  with assms show ?thesis by (simp add: orders_inv_createTrade)
next
  case (UpdateOrder i d)
  with assms show ?thesis by simp
qed (use assms in \<open>auto intro!: orders_inv_frame [of s]\<close>)

lemma orders_inv_run:
  "orders_inv s \<Longrightarrow> \<forall>x\<in>set ops. \<not> is_UpdateOrder (snd x) \<Longrightarrow> orders_inv (run template s ops)"
proof (induction ops arbitrary: s)
  case Nil
  then show ?case by simp
next
  case (Cons x ops)
  obtain now op where x: "x = (now, op)" by (cases x)
  with Cons.prems have "orders_inv (apply_op template s now op)"
    by (simp add: orders_inv_apply_op)
  with Cons x show ?case by simp
qed

lemma createTrade_fills:
  assumes ub: "order_under_id s (it_buyOrderId t)"
      and us: "order_under_id s (it_sellOrderId t)"
      and ref: "getOrder s (it_buyOrderId t) = Some order' \<or>
                getOrder s (it_sellOrderId t) = Some order'"
  shows "\<exists>o'. getOrder (snd (createTrade s now t)) (o_id order') = Some o' \<and>
           o_amount o' = o_amount order' \<and>
           o_filled o' = Val (dadd (or_zero (o_filled order')) (it_amount t)) \<and>
           (o_status o' = ''Filled'' \<longleftrightarrow> dge (to_number (o_filled o')) (o_amount o')) \<and>
           (o_status o' \<noteq> ''Filled'' \<longrightarrow> o_status o' = ''Partial'')"
proof -
  let ?s2 = "case getOrder s (it_buyOrderId t) of None \<Rightarrow> s
             | Some bo \<Rightarrow> snd (updateOrder s now (o_id bo) (fill_fields bo t))"
  let ?s3 = "case getOrder s (it_sellOrderId t) of None \<Rightarrow> ?s2
             | Some so \<Rightarrow> snd (updateOrder ?s2 now (o_id so) (fill_fields so t))"
  have "orders (snd (createTrade s now t)) = orders ?s3"
    using createTrade_orders [of s now t] by (simp add: Let_def)
  then have eq: "getOrder (snd (createTrade s now t)) k = getOrder ?s3 k" for k
    by (simp add: getOrder_def)
  have ids: "getOrder s k = Some y \<Longrightarrow> k = it_buyOrderId t \<or> k = it_sellOrderId t \<Longrightarrow> o_id y = k"
    for k y
    using ub us by (auto simp: order_under_id_def)
  have fld: "o_amount ((spread_Order y (fill_fields x t))\<lparr> o_updatedAt := Some now \<rparr>) = o_amount y"
    "o_filled ((spread_Order y (fill_fields x t))\<lparr> o_updatedAt := Some now \<rparr>) =
       Val (dadd (or_zero (o_filled x)) (it_amount t))"
    "o_status ((spread_Order y (fill_fields x t))\<lparr> o_updatedAt := Some now \<rparr>) =
       (if dge (dadd (or_zero (o_filled x)) (it_amount t)) (o_amount x)
        then ''Filled'' else ''Partial'')"
    for x y
    by (simp_all add: spread_Order_def fill_fields_def no_Order_fields_def spread_def)
  from ref show ?thesis
  proof
    assume b: "getOrder s (it_buyOrderId t) = Some order'"
    note i = ids [OF b, simplified]
    show ?thesis
    proof (cases "getOrder s (it_sellOrderId t)")
      case None
      with b i show ?thesis
        unfolding eq by (simp add: getOrder_after_fill fld to_number_def)
    next
      case (Some so)
      note j = ids [OF Some, simplified]
      show ?thesis
      proof (cases "it_sellOrderId t = it_buyOrderId t")
        case True
        with b Some have "so = order'" by simp
        with b Some i True show ?thesis
          unfolding eq by (simp add: getOrder_after_fill fld to_number_def)
      next
        case False
        with b Some i j show ?thesis
          unfolding eq by (simp add: getOrder_after_fill fld to_number_def)
      qed
    qed
  next
    assume b: "getOrder s (it_sellOrderId t) = Some order'"
    note i = ids [OF b, simplified]
    show ?thesis
    proof (cases "getOrder s (it_buyOrderId t)")
      case None
      with b i show ?thesis
        unfolding eq by (simp add: getOrder_after_fill fld to_number_def)
    next
      case (Some bo)
      note j = ids [OF Some, simplified]
      show ?thesis
      proof (cases "it_sellOrderId t = it_buyOrderId t")
        case True
        with b Some have "bo = order'" by simp
        with b Some i True show ?thesis
          unfolding eq by (simp add: getOrder_after_fill fld to_number_def)
      next
        case False
        with b Some i j show ?thesis
          unfolding eq by (simp add: getOrder_after_fill fld to_number_def)
      qed
    qed
  qed
qed

subsection \<open>The rewards invariant\<close>

lemma points_total_cong:
  "rewardsEvents s' = rewardsEvents s \<Longrightarrow> points_total s' = points_total s"
  by (simp add: points_total_def getUserRewardsEvents_def fun_eq_iff)

lemma rewards_inv_new: "rewards_inv newMemStorage"
  by (simp add: rewards_inv_def method_defs)

lemma rewards_inv_frame:
  "rewards_inv s \<Longrightarrow> users s' = users s \<Longrightarrow> userCurrentId s' = userCurrentId s \<Longrightarrow>
   rewardsEvents s' = rewardsEvents s \<Longrightarrow> rewardsEventCurrentId s' = rewardsEventCurrentId s \<Longrightarrow>
   rewards_inv s'"
  using points_total_cong [of s' s] by (simp add: rewards_inv_def)

lemma rewards_inv_set_user:
  assumes inv: "rewards_inv s"
      and g: "Map_get (users s) k = Some u"
      and i: "u_id u' = k"
      and p: "u_rewardsPoints u' = u_rewardsPoints u"
  shows "rewards_inv (s\<lparr> users := Map_set (users s) k u' \<rparr>)"
proof -
  let ?s' = "s\<lparr> users := Map_set (users s) k u' \<rparr>"
  from inv have kb: "keyed_by u_id (users s)" by (simp add: rewards_inv_def)
  from kb i have k1: "keyed_by u_id (users ?s')" by (simp add: keyed_by_Map_set)
  from key_of_get [OF g] have keys: "fst ` set (users ?s') = fst ` set (users s)"
    by (auto simp: keys_Map_set)
  have pt: "points_total ?s' = points_total s" by (rule points_total_cong) simp
  from kb g have "u_id u = k" by (rule keyed_by_get_ident)
  moreover from g have "u \<in> set (Map_values (users s))" by (rule Map_get_value)
  ultimately have pu: "u_rewardsPoints u' = Val (Fin (points_total s (u_id u')))"
    using inv i p by (simp add: rewards_inv_def)
  have v: "\<forall>user\<in>set (Map_values (users ?s')).
      u_rewardsPoints user = Val (Fin (points_total ?s' (u_id user)))"
  proof
    fix x assume "x \<in> set (Map_values (users ?s'))"
    then have "x \<in> set (Map_values (Map_set (users s) k u'))" by simp
    from values_Map_set [OF kb this] pu inv
    show "u_rewardsPoints x = Val (Fin (points_total ?s' (u_id x)))"
      unfolding pt by (auto simp: rewards_inv_def)
  qed
  from inv have rest: "(\<forall>k\<in>fst ` set (users s). k < userCurrentId ?s') \<and>
      (\<forall>k\<in>fst ` set (rewardsEvents ?s'). k < rewardsEventCurrentId ?s') \<and>
      (\<forall>event\<in>set (Map_values (rewardsEvents ?s')).
         re_userId event \<in> fst ` set (users s) \<and> is_finite (re_points event))"
    by (simp add: rewards_inv_def)
  from k1 v rest show ?thesis unfolding rewards_inv_def keys by blast
qed

lemma rewards_inv_updateUser:
  assumes inv: "rewards_inv s" and "pu_id d = None" and "pu_rewardsPoints d = None"
  shows "rewards_inv (snd (updateUser s now k d))"
proof (cases "Map_get (users s) k")
  case None
  with inv show ?thesis by (simp add: updateUser_def getUser_def)
next
  case (Some u)
  from inv have kb: "keyed_by u_id (users s)" by (simp add: rewards_inv_def)
  from kb Some have "u_id u = k" by (rule keyed_by_get_ident)
  with assms have "rewards_inv (s\<lparr> users :=
      Map_set (users s) k ((spread_User u d)\<lparr> u_updatedAt := Some now \<rparr>) \<rparr>)"
    by (intro rewards_inv_set_user [OF inv Some]) (simp_all add: spread_User_def spread_def)
  with Some show ?thesis by (simp add: updateUser_def getUser_def Let_def)
qed

lemma rewards_inv_found:
  assumes inv: "rewards_inv s"
      and f: "find P (Map_values (users s)) = Some u"
      and i: "u_id u' = u_id u"
      and p: "u_rewardsPoints u' = u_rewardsPoints u"
  shows "rewards_inv (s\<lparr> users := Map_set (users s) (u_id u) u' \<rparr>)"
proof -
  from inv have kb: "keyed_by u_id (users s)" by (simp add: rewards_inv_def)
  from f have "u \<in> set (Map_values (users s))" using find_Some_D by fastforce
  with kb have "Map_get (users s) (u_id u) = Some u" by (rule keyed_by_get)
  from rewards_inv_set_user [OF inv this i p] show ?thesis .
qed

lemma rewards_inv_verifyUser: "rewards_inv s \<Longrightarrow> rewards_inv (snd (verifyUser s now tk))"
  by (cases "find (\<lambda>user. u_verificationToken user = Some tk) (Map_values (users s))")
    (simp_all add: verifyUser_def Let_def rewards_inv_found)

lemma rewards_inv_resetPassword:
  "rewards_inv s \<Longrightarrow> rewards_inv (snd (resetPassword s now tk p))"
  by (cases "find (reset_matches now tk) (Map_values (users s))")
    (simp_all add: resetPassword_def Let_def rewards_inv_found)

lemma rewards_inv_generateResetToken:
  "rewards_inv s \<Longrightarrow> rewards_inv (snd (generateResetToken s now rnd expires email))"
  by (cases "find (\<lambda>user. u_email user = email) (Map_values (users s))")
    (simp_all add: generateResetToken_def getUserByEmail_def Let_def rewards_inv_found)

lemma points_total_none:
  "\<forall>event\<in>set (Map_values (rewardsEvents s)). re_userId event \<noteq> i \<Longrightarrow> points_total s i = 0"
proof -
  assume "\<forall>event\<in>set (Map_values (rewardsEvents s)). re_userId event \<noteq> i"
  then have "filter (\<lambda>event. re_userId event = i) (Map_values (rewardsEvents s)) = []"
    by (simp add: filter_empty_conv)
  then show ?thesis by (simp add: points_total_def getUserRewardsEvents_def)
qed

lemma rewards_inv_createUser:
  assumes inv: "rewards_inv s"
  shows "rewards_inv (snd (createUser template s now x))"
proof -
  let ?new = "fst (createUser template s now x)"
  let ?s' = "snd (createUser template s now x)"
  from inv have kb: "keyed_by u_id (users s)" by (simp add: rewards_inv_def)
  from inv have fresh: "userCurrentId s \<notin> fst ` set (users s)"
    by (auto simp: rewards_inv_def)
  have u: "users ?s' = Map_set (users s) (userCurrentId s) ?new"
    and c: "userCurrentId ?s' = userCurrentId s + 1"
    and e: "rewardsEvents ?s' = rewardsEvents s"
    and ec: "rewardsEventCurrentId ?s' = rewardsEventCurrentId s"
    by (simp_all add: createUser_def Let_def)
  have n: "u_id ?new = userCurrentId s" "u_rewardsPoints ?new = Val (Fin 0)"
    by (simp_all add: createUser_def Let_def)
  have pt: "points_total ?s' = points_total s" using e by (rule points_total_cong)
  from inv have ev: "\<forall>event\<in>set (Map_values (rewardsEvents s)). re_userId event \<in> fst ` set (users s)"
    and fin: "\<forall>event\<in>set (Map_values (rewardsEvents s)). is_finite (re_points event)"
    by (simp_all add: rewards_inv_def)
  have "\<forall>event\<in>set (Map_values (rewardsEvents s)). re_userId event \<noteq> userCurrentId s"
  proof
    fix event assume "event \<in> set (Map_values (rewardsEvents s))"
    with ev have "re_userId event \<in> fst ` set (users s)" by simp
    with fresh show "re_userId event \<noteq> userCurrentId s" by metis
  qed
  then have z: "points_total s (userCurrentId s) = 0" by (rule points_total_none)
  from kb n have k1: "keyed_by u_id (users ?s')"
    unfolding u by (simp add: keyed_by_Map_set)
  from inv have k2: "\<forall>k\<in>fst ` set (users ?s'). k < userCurrentId ?s'"
    unfolding u c by (auto simp: keys_Map_set rewards_inv_def)
  from inv have k3: "\<forall>k\<in>fst ` set (rewardsEvents ?s'). k < rewardsEventCurrentId ?s'"
    unfolding e ec by (simp add: rewards_inv_def)
  from ev fin have k4: "\<forall>event\<in>set (Map_values (rewardsEvents ?s')).
      re_userId event \<in> fst ` set (users ?s') \<and> is_finite (re_points event)"
    unfolding e u by (simp add: keys_Map_set)
  from inv n z have k5: "\<forall>user\<in>set (Map_values (users ?s')).
      u_rewardsPoints user = Val (Fin (points_total ?s' (u_id user)))"
    unfolding pt u by (auto simp: Map_set_fresh [OF fresh] Map_values_append rewards_inv_def)
  from k1 k2 k3 k4 k5 show ?thesis unfolding rewards_inv_def by blast
qed

lemma rewards_inv_order_step:
  "rewards_inv s \<Longrightarrow>
   rewards_inv (case ord of None \<Rightarrow> s | Some x \<Rightarrow> snd (updateOrder s now (o_id x) (fill_fields x t)))"
  by (cases ord) (auto intro: rewards_inv_frame [of s])

lemma rewards_inv_volume_step:
  "rewards_inv s \<Longrightarrow>
   rewards_inv (case ord of None \<Rightarrow> s
      | Some x \<Rightarrow> (case getUser s (o_userId x) of None \<Rightarrow> s
          | Some user \<Rightarrow> snd (updateUser s now (u_id user) (volume_fields user t))))"
  by (cases ord; cases "getUser s (o_userId (the ord))")
    (simp_all add: rewards_inv_updateUser volume_fields_def no_User_fields_def)

lemma rewards_inv_createTrade:
  assumes inv: "rewards_inv s"
  shows "rewards_inv (snd (createTrade s now t))"
proof -
  let ?s1 = "s\<lparr> tradeCurrentId := tradeCurrentId s + 1,
                trades := Map_set (trades s) (tradeCurrentId s) (fst (createTrade s now t)) \<rparr>"
  have "rewards_inv ?s1" by (rule rewards_inv_frame [OF inv]) simp_all
  then show ?thesis
    unfolding createTrade_def Let_def snd_conv fst_conv
    by (intro rewards_inv_volume_step rewards_inv_order_step)
qed

lemma points_total_append:
  "rewardsEvents s' = Map_set (rewardsEvents s) k event \<Longrightarrow> k \<notin> fst ` set (rewardsEvents s) \<Longrightarrow>
   points_total s' i =
     points_total s i + (if re_userId event = i then value_of (re_points event) else 0)"
  by (simp add: points_total_def getUserRewardsEvents_def Map_set_fresh Map_values_append)

lemma exact_sum_D:
  "exact_sum a b \<Longrightarrow> \<exists>x y. a = Fin x \<and> b = Fin y \<and> dadd a b = Fin (x + y)"
  by (cases a; cases b) simp_all

lemma rewards_inv_createRewardsEvent:
  assumes inv: "rewards_inv s"
      and safe: "points_safe s (CreateRewardsEvent x)"
  shows "rewards_inv (snd (createRewardsEvent s now x))"
proof -
  let ?new = "fst (createRewardsEvent s now x)"
  let ?s1 = "s\<lparr> rewardsEventCurrentId := rewardsEventCurrentId s + 1,
                rewardsEvents := Map_set (rewardsEvents s) (rewardsEventCurrentId s) ?new \<rparr>"
  from safe obtain u where g: "Map_get (users s) (ire_userId x) = Some u"
    and ex: "exact_sum (or_zero (u_rewardsPoints u)) (ire_points x)"
    by (auto simp: getUser_def split: option.splits)
  from inv have kb: "keyed_by u_id (users s)" by (simp add: rewards_inv_def)
  from kb g have idu: "u_id u = ire_userId x" by (rule keyed_by_get_ident)
  from g have mem: "u \<in> set (Map_values (users s))" by (rule Map_get_value)
  from inv have fresh: "rewardsEventCurrentId s \<notin> fst ` set (rewardsEvents s)"
    by (auto simp: rewards_inv_def)
  have n: "re_userId ?new = ire_userId x" "re_points ?new = ire_points x"
    by (simp_all add: createRewardsEvent_def Let_def)
  have pt: "points_total s' i =
      points_total s i + (if ire_userId x = i then value_of (ire_points x) else 0)"
    if "rewardsEvents s' = rewardsEvents ?s1" for s' i
    using points_total_append [of s' s "rewardsEventCurrentId s" ?new i] that fresh n by simp
  let ?u' = "(spread_User u (points_fields u x))\<lparr> u_updatedAt := Some now \<rparr>"
  let ?s2 = "?s1\<lparr> users := Map_set (users s) (ire_userId x) ?u' \<rparr>"
  have s2: "snd (createRewardsEvent s now x) = ?s2"
    using g idu by (simp add: createRewardsEvent_def Let_def updateUser_def getUser_def)
  from inv mem have old: "u_rewardsPoints u = Val (Fin (points_total s (u_id u)))"
    by (simp add: rewards_inv_def)
  then have oz: "or_zero (u_rewardsPoints u) = Fin (points_total s (u_id u))"
    by (simp add: or_zero_def)
  from exact_sum_D [OF ex] oz obtain y where y: "ire_points x = Fin y"
    and sum: "dadd (Fin (points_total s (u_id u))) (Fin y) = Fin (points_total s (u_id u) + y)"
    by auto
  have u': "u_id ?u' = ire_userId x"
    "u_rewardsPoints ?u' = Val (Fin (points_total s (ire_userId x) + value_of (ire_points x)))"
    using idu oz sum y
    by (simp_all add: spread_User_def points_fields_def no_User_fields_def spread_def
        del: dadd.simps)
  from kb u' have k1: "keyed_by u_id (users ?s2)" by (simp add: keyed_by_Map_set)
  from key_of_get [OF g] have keys: "fst ` set (users ?s2) = fst ` set (users s)"
    by (auto simp: keys_Map_set)
  from inv have k2: "\<forall>k\<in>fst ` set (users s). k < userCurrentId ?s2"
    by (simp add: rewards_inv_def)
  from inv have k3: "\<forall>k\<in>fst ` set (rewardsEvents ?s2). k < rewardsEventCurrentId ?s2"
    by (auto simp: keys_Map_set rewards_inv_def)
  from inv n y key_of_get [OF g]
  have k4: "\<forall>event\<in>set (Map_values (rewardsEvents ?s2)).
      re_userId event \<in> fst ` set (users s) \<and> is_finite (re_points event)"
    by (auto simp: Map_set_fresh [OF fresh] Map_values_append rewards_inv_def)
  have k5: "\<forall>user\<in>set (Map_values (users ?s2)).
      u_rewardsPoints user = Val (Fin (points_total ?s2 (u_id user)))"
  proof
    fix v assume "v \<in> set (Map_values (users ?s2))"
    then have "v \<in> set (Map_values (Map_set (users s) (ire_userId x) ?u'))" by simp
    from values_Map_set [OF kb this]
    have "v = ?u' \<or> (v \<in> set (Map_values (users s)) \<and> u_id v \<noteq> ire_userId x)" .
    then show "u_rewardsPoints v = Val (Fin (points_total ?s2 (u_id v)))"
    proof
      assume "v = ?u'"
      with u' show ?thesis by (simp add: pt)
    next
      assume "v \<in> set (Map_values (users s)) \<and> u_id v \<noteq> ire_userId x"
      with inv show ?thesis by (simp add: pt rewards_inv_def)
    qed
  qed
  from k1 k2 k3 k4 k5 show ?thesis unfolding s2 rewards_inv_def keys by blast
qed

lemma other_methods_rewards [simp]:
  "users (snd (createTradingPair s xp)) = users s"
  "userCurrentId (snd (createTradingPair s xp)) = userCurrentId s"
  "rewardsEvents (snd (createTradingPair s xp)) = rewardsEvents s"
  "rewardsEventCurrentId (snd (createTradingPair s xp)) = rewardsEventCurrentId s"
  "users (snd (updateTradingPair s i dp)) = users s"
  "userCurrentId (snd (updateTradingPair s i dp)) = userCurrentId s"
  "rewardsEvents (snd (updateTradingPair s i dp)) = rewardsEvents s"
  "rewardsEventCurrentId (snd (updateTradingPair s i dp)) = rewardsEventCurrentId s"
  "users (snd (createOrder s now xo)) = users s"
  "userCurrentId (snd (createOrder s now xo)) = userCurrentId s"
  "rewardsEvents (snd (createOrder s now xo)) = rewardsEvents s"
  "rewardsEventCurrentId (snd (createOrder s now xo)) = rewardsEventCurrentId s"
  "users (snd (createRewardsTier s xr)) = users s"
  "userCurrentId (snd (createRewardsTier s xr)) = userCurrentId s"
  "rewardsEvents (snd (createRewardsTier s xr)) = rewardsEvents s"
  "rewardsEventCurrentId (snd (createRewardsTier s xr)) = rewardsEventCurrentId s"
  "users (snd (createNewsArticle s xa)) = users s"
  "userCurrentId (snd (createNewsArticle s xa)) = userCurrentId s"
  "rewardsEvents (snd (createNewsArticle s xa)) = rewardsEvents s"
  "rewardsEventCurrentId (snd (createNewsArticle s xa)) = rewardsEventCurrentId s"
  "users (snd (updateNewsArticle s i da)) = users s"
  "userCurrentId (snd (updateNewsArticle s i da)) = userCurrentId s"
  "rewardsEvents (snd (updateNewsArticle s i da)) = rewardsEvents s"
  "rewardsEventCurrentId (snd (updateNewsArticle s i da)) = rewardsEventCurrentId s"
  "users (snd (createSubscriber s now xs)) = users s"
  "userCurrentId (snd (createSubscriber s now xs)) = userCurrentId s"
  "rewardsEvents (snd (createSubscriber s now xs)) = rewardsEvents s"
  "rewardsEventCurrentId (snd (createSubscriber s now xs)) = rewardsEventCurrentId s"
  "users (snd (unsubscribe s email)) = users s"
  "userCurrentId (snd (unsubscribe s email)) = userCurrentId s"
  "rewardsEvents (snd (unsubscribe s email)) = rewardsEvents s"
  "rewardsEventCurrentId (snd (unsubscribe s email)) = rewardsEventCurrentId s"
  by (simp_all add: createTradingPair_def updateTradingPair_def createOrder_def
      createRewardsTier_def createNewsArticle_def updateNewsArticle_def createSubscriber_def
      unsubscribe_def Let_def split: option.split)

lemma rewards_inv_apply_op:
  assumes "rewards_inv s" and "points_safe s op"
  shows "rewards_inv (apply_op template s now op)"
proof (cases op)
  case (CreateUser x)
  with assms show ?thesis by (simp add: rewards_inv_createUser)
next
  case (UpdateUser i d)
  with assms show ?thesis by (simp add: rewards_inv_updateUser)
next
  case (VerifyUser tk)
  with assms show ?thesis by (simp add: rewards_inv_verifyUser)
next
  case (ResetPassword tk p)
  with assms show ?thesis by (simp add: rewards_inv_resetPassword)
next
  case (GenerateResetToken rnd expires email)
  with assms show ?thesis by (simp add: rewards_inv_generateResetToken)
next
  case (CreateTrade t)
  with assms show ?thesis by (simp add: rewards_inv_createTrade)
next
  case (CreateRewardsEvent x)
  with assms show ?thesis by (simp add: rewards_inv_createRewardsEvent del: points_safe.simps)
qed (use assms in \<open>auto intro!: rewards_inv_frame [of s]\<close>)

lemma rewards_inv_run:
  "rewards_inv s \<Longrightarrow> run_points_safe template s ops \<Longrightarrow> rewards_inv (run template s ops)"
proof (induction ops arbitrary: s)
  case Nil
  then show ?case by simp
next
  case (Cons x ops)
  obtain now op where x: "x = (now, op)" by (cases x)
  with Cons.prems have "rewards_inv (apply_op template s now op)"
    by (simp add: rewards_inv_apply_op)
  with Cons x show ?case by simp
qed

subsection \<open>Ids under the operations\<close>

lemma fresh_keyed_create:
  "fresh_keyed ident next m \<Longrightarrow> ident v = next \<Longrightarrow> fresh_keyed ident (next + 1) (Map_set m next v)"
  by (auto simp: fresh_keyed_def keyed_by_Map_set keys_Map_set)

lemma fresh_keyed_replace:
  assumes "fresh_keyed ident next m" and g: "Map_get m k = Some old" and "ident v = k"
  shows "fresh_keyed ident next (Map_set m k v)"
proof -
  from key_of_get [OF g] have "insert k (fst ` set m) = fst ` set m" by blast
  with assms show ?thesis by (simp add: fresh_keyed_def keyed_by_Map_set keys_Map_set)
qed

lemma fresh_keyed_found:
  assumes fk: "fresh_keyed ident next m" and f: "find P (Map_values m) = Some old"
      and i: "ident v = ident old"
  shows "fresh_keyed ident next (Map_set m (ident old) v)"
proof -
  from f have "old \<in> set (Map_values m)" using find_Some_D by fastforce
  with fk have "Map_get m (ident old) = Some old" by (simp add: fresh_keyed_def keyed_by_get)
  from fresh_keyed_replace [OF fk this i] show ?thesis .
qed

lemma ids_inv_frame:
  "ids_inv s \<Longrightarrow> users s' = users s \<Longrightarrow> userCurrentId s' = userCurrentId s \<Longrightarrow>
   orders s' = orders s \<Longrightarrow> orderCurrentId s' = orderCurrentId s \<Longrightarrow>
   subscribers s' = subscribers s \<Longrightarrow> subscriberCurrentId s' = subscriberCurrentId s \<Longrightarrow>
   ids_inv s'"
  by (simp add: ids_inv_def)

lemma ids_inv_new: "ids_inv newMemStorage"
  by (simp add: ids_inv_def fresh_keyed_def method_defs)

lemma ids_inv_createUser: "ids_inv s \<Longrightarrow> ids_inv (snd (createUser template s now x))"
  by (simp add: ids_inv_def createUser_def Let_def fresh_keyed_create)

lemma ids_inv_createOrder: "ids_inv s \<Longrightarrow> ids_inv (snd (createOrder s now x))"
  by (simp add: ids_inv_def createOrder_def Let_def fresh_keyed_create)

lemma ids_inv_createSubscriber: "ids_inv s \<Longrightarrow> ids_inv (snd (createSubscriber s now x))"
  by (simp add: ids_inv_def createSubscriber_def Let_def fresh_keyed_create)

lemma ids_inv_updateUser:
  assumes "ids_inv s" and "pu_id d = None"
  shows "ids_inv (snd (updateUser s now k d))"
proof (cases "Map_get (users s) k")
  case None
  with assms show ?thesis by (simp add: updateUser_def getUser_def)
next
  case (Some u)
  from assms have fk: "fresh_keyed u_id (userCurrentId s) (users s)" by (simp add: ids_inv_def)
  then have "u_id u = k" using Some by (auto simp: fresh_keyed_def dest: keyed_by_get_ident)
  with assms have "u_id ((spread_User u d)\<lparr> u_updatedAt := Some now \<rparr>) = k"
    by (simp add: spread_User_def spread_def)
  from fresh_keyed_replace [OF fk Some this] assms Some show ?thesis
    by (simp add: updateUser_def getUser_def Let_def ids_inv_def)
qed

lemma ids_inv_updateOrder:
  assumes "ids_inv s" and "po_id d = None"
  shows "ids_inv (snd (updateOrder s now k d))"
proof (cases "Map_get (orders s) k")
  case None
  with assms show ?thesis by (simp add: updateOrder_def getOrder_def)
next
  case (Some x)
  from assms have fk: "fresh_keyed o_id (orderCurrentId s) (orders s)" by (simp add: ids_inv_def)
  then have "o_id x = k" using Some by (auto simp: fresh_keyed_def dest: keyed_by_get_ident)
  with assms have "o_id ((spread_Order x d)\<lparr> o_updatedAt := Some now \<rparr>) = k"
    by (simp add: spread_Order_def spread_def)
  from fresh_keyed_replace [OF fk Some this] assms Some show ?thesis
    by (simp add: updateOrder_def getOrder_def Let_def ids_inv_def)
qed

lemma ids_inv_verifyUser: "ids_inv s \<Longrightarrow> ids_inv (snd (verifyUser s now tk))"
  by (cases "find (\<lambda>user. u_verificationToken user = Some tk) (Map_values (users s))")
    (simp_all add: verifyUser_def Let_def ids_inv_def fresh_keyed_found)

lemma ids_inv_resetPassword: "ids_inv s \<Longrightarrow> ids_inv (snd (resetPassword s now tk p))"
  by (cases "find (reset_matches now tk) (Map_values (users s))")
    (simp_all add: resetPassword_def Let_def ids_inv_def fresh_keyed_found)

lemma ids_inv_generateResetToken:
  "ids_inv s \<Longrightarrow> ids_inv (snd (generateResetToken s now rnd expires email))"
  by (cases "find (\<lambda>user. u_email user = email) (Map_values (users s))")
    (simp_all add: generateResetToken_def getUserByEmail_def Let_def ids_inv_def fresh_keyed_found)

lemma ids_inv_unsubscribe: "ids_inv s \<Longrightarrow> ids_inv (snd (unsubscribe s email))"
  by (cases "find (\<lambda>subscriber. sub_email subscriber = email) (Map_values (subscribers s))")
    (simp_all add: unsubscribe_def getSubscriberByEmail_def Let_def ids_inv_def fresh_keyed_found)

lemma ids_inv_order_step:
  "ids_inv s \<Longrightarrow>
   ids_inv (case ord of None \<Rightarrow> s | Some x \<Rightarrow> snd (updateOrder s now (o_id x) (fill_fields x t)))"
  by (cases ord) (simp_all add: ids_inv_updateOrder fill_fields_def no_Order_fields_def)

lemma ids_inv_volume_step:
  "ids_inv s \<Longrightarrow>
   ids_inv (case ord of None \<Rightarrow> s
      | Some x \<Rightarrow> (case getUser s (o_userId x) of None \<Rightarrow> s
          | Some user \<Rightarrow> snd (updateUser s now (u_id user) (volume_fields user t))))"
  by (cases ord; cases "getUser s (o_userId (the ord))")
    (simp_all add: ids_inv_updateUser volume_fields_def no_User_fields_def)

lemma ids_inv_createTrade:
  assumes inv: "ids_inv s"
  shows "ids_inv (snd (createTrade s now t))"
proof -
  let ?s1 = "s\<lparr> tradeCurrentId := tradeCurrentId s + 1,
                trades := Map_set (trades s) (tradeCurrentId s) (fst (createTrade s now t)) \<rparr>"
  have "ids_inv ?s1" by (rule ids_inv_frame [OF inv]) simp_all
  then show ?thesis
    unfolding createTrade_def Let_def snd_conv fst_conv
    by (intro ids_inv_volume_step ids_inv_order_step)
qed

lemma ids_inv_points_step:
  "ids_inv s \<Longrightarrow>
   ids_inv (case getUser s i of None \<Rightarrow> s
      | Some user \<Rightarrow> snd (updateUser s now (u_id user) (points_fields user x)))"
  by (cases "getUser s i")
    (simp_all add: ids_inv_updateUser points_fields_def no_User_fields_def)

lemma ids_inv_createRewardsEvent:
  assumes inv: "ids_inv s"
  shows "ids_inv (snd (createRewardsEvent s now x))"
proof -
  let ?s1 = "s\<lparr> rewardsEventCurrentId := rewardsEventCurrentId s + 1,
                rewardsEvents := Map_set (rewardsEvents s) (rewardsEventCurrentId s)
                  (fst (createRewardsEvent s now x)) \<rparr>"
  have "ids_inv ?s1" by (rule ids_inv_frame [OF inv]) simp_all
  then show ?thesis
    unfolding createRewardsEvent_def Let_def snd_conv fst_conv
    by (intro ids_inv_points_step)
qed

lemma other_methods_ids [simp]:
  "subscribers (snd (createTradingPair s xp)) = subscribers s"
  "subscriberCurrentId (snd (createTradingPair s xp)) = subscriberCurrentId s"
  "subscribers (snd (updateTradingPair s i dp)) = subscribers s"
  "subscriberCurrentId (snd (updateTradingPair s i dp)) = subscriberCurrentId s"
  "subscribers (snd (createRewardsTier s xr)) = subscribers s"
  "subscriberCurrentId (snd (createRewardsTier s xr)) = subscriberCurrentId s"
  "subscribers (snd (createNewsArticle s xa)) = subscribers s"
  "subscriberCurrentId (snd (createNewsArticle s xa)) = subscriberCurrentId s"
  "subscribers (snd (updateNewsArticle s i da)) = subscribers s"
  "subscriberCurrentId (snd (updateNewsArticle s i da)) = subscriberCurrentId s"
  by (simp_all add: createTradingPair_def updateTradingPair_def createRewardsTier_def
      createNewsArticle_def updateNewsArticle_def Let_def split: option.split)

lemma ids_inv_apply_op:
  assumes "ids_inv s" and "keeps_id op"
  shows "ids_inv (apply_op template s now op)"
proof (cases op)
  case (CreateUser x)
  with assms show ?thesis by (simp add: ids_inv_createUser)
next
  case (UpdateUser i d)
  with assms show ?thesis by (simp add: ids_inv_updateUser)
next
  case (VerifyUser tk)
  with assms show ?thesis by (simp add: ids_inv_verifyUser)
next
  case (ResetPassword tk p)
  with assms show ?thesis by (simp add: ids_inv_resetPassword)
next
  case (GenerateResetToken rnd expires email)
  with assms show ?thesis by (simp add: ids_inv_generateResetToken)
next
  case (CreateOrder x)
  with assms show ?thesis by (simp add: ids_inv_createOrder)
next
  case (UpdateOrder i d)
  with assms show ?thesis by (simp add: ids_inv_updateOrder)
next
  case (CreateTrade t)
  with assms show ?thesis by (simp add: ids_inv_createTrade)
next
  case (CreateRewardsEvent x)
  with assms show ?thesis by (simp add: ids_inv_createRewardsEvent)
next
  case (CreateSubscriber x)
  with assms show ?thesis by (simp add: ids_inv_createSubscriber)
next
  case (Unsubscribe email)
  with assms show ?thesis by (simp add: ids_inv_unsubscribe)
qed (use assms in \<open>auto intro!: ids_inv_frame [of s]\<close>)

lemma ids_inv_run:
  "ids_inv s \<Longrightarrow> \<forall>x\<in>set ops. keeps_id (snd x) \<Longrightarrow> ids_inv (run template s ops)"
proof (induction ops arbitrary: s)
  case Nil
  then show ?case by simp
next
  case (Cons x ops)
  obtain now op where x: "x = (now, op)" by (cases x)
  with Cons.prems have "ids_inv (apply_op template s now op)"
    by (simp add: ids_inv_apply_op)
  with Cons x show ?case by simp
qed

text \<open>
  Every store that the constructor and the methods produce holds its users, orders and
  subscribers under their own ids, as long as no update overwrites an \<open>id\<close>.
\<close>

lemma reachable_keyed:
  assumes "\<forall>x\<in>set ops. keeps_id (snd x)"
  shows "keyed_by u_id (users (run template newMemStorage ops)) \<and>
         keyed_by o_id (orders (run template newMemStorage ops)) \<and>
         keyed_by sub_id (subscribers (run template newMemStorage ops))"
  using ids_inv_run [OF ids_inv_new assms] by (simp add: ids_inv_def fresh_keyed_def)

lemma other_methods_subscribers [simp]:
  "subscribers (snd (createUser template s now xu)) = subscribers s"
  "subscriberCurrentId (snd (createUser template s now xu)) = subscriberCurrentId s"
  "subscribers (snd (verifyUser s now tk)) = subscribers s"
  "subscriberCurrentId (snd (verifyUser s now tk)) = subscriberCurrentId s"
  "subscribers (snd (resetPassword s now tk p)) = subscribers s"
  "subscriberCurrentId (snd (resetPassword s now tk p)) = subscriberCurrentId s"
  "subscribers (snd (generateResetToken s now rnd expires email)) = subscribers s"
  "subscriberCurrentId (snd (generateResetToken s now rnd expires email)) = subscriberCurrentId s"
  "subscribers (snd (createOrder s now xo)) = subscribers s"
  "subscriberCurrentId (snd (createOrder s now xo)) = subscriberCurrentId s"
  "subscribers (snd (createTrade s now xt)) = subscribers s"
  "subscriberCurrentId (snd (createTrade s now xt)) = subscriberCurrentId s"
  "subscribers (snd (createRewardsEvent s now xe)) = subscribers s"
  "subscriberCurrentId (snd (createRewardsEvent s now xe)) = subscriberCurrentId s"
  by (simp_all add: createUser_def verifyUser_def resetPassword_def generateResetToken_def
      createOrder_def createTrade_def createRewardsEvent_def Let_def split: option.split)




subsection \<open>The keys of the users\<close>












text \<open>
  Where one record only satisfies a predicate and it is the value of a key, a set of that
  key to a record that does not satisfy it leaves none.
\<close>

lemma filter_Map_set_single:
  "Map_get m k = Some u \<Longrightarrow> filter P (Map_values m) = [u] \<Longrightarrow> \<not> P u' \<Longrightarrow>
   filter P (Map_values (Map_set m k u')) = []"
proof (induction m)
  case Nil
  then show ?case by (simp add: Map_get_def)
next
  case (Cons p m)
  from Cons.prems(2) have "u \<in> set (filter P (Map_values (p # m)))" by simp
  then have pu: "P u" by simp
  show ?case
  proof (cases "fst p = k")
    case True
    with Cons.prems have "snd p = u" by (simp add: Map_get_def)
    with Cons.prems True pu show ?thesis
      by (simp add: Map_values_def)
  next
    case False
    with Cons.prems have g: "Map_get m k = Some u" by (simp add: Map_get_def)
    then have mem: "u \<in> set (Map_values m)" by (rule Map_get_value)
    have np: "\<not> P (snd p)"
    proof
      assume "P (snd p)"
      with Cons.prems(2) have "filter P (Map_values m) = []" by (simp add: Map_values_def)
      with mem pu show False by (simp add: filter_empty_conv)
    qed
    with Cons.prems(2) have "filter P (Map_values m) = [u]" by (simp add: Map_values_def)
    from Cons.IH [OF g this Cons.prems(3)] False np show ?thesis
      by (simp add: Map_values_def)
  qed
qed

section \<open>The claims\<close>

subsection \<open>C1: rewardsPoints and the rewards events\<close>

text \<open>
  C1 as stated fails, in ways that the store allows. \<open>createRewardsEvent\<close> stores an
  event for a user id that no user has yet, and the user created later under that id
  starts at 0 points (\<open>event_before_user\<close>). \<open>updateUser\<close> writes any \<open>rewardsPoints\<close> it
  is given, without an event (\<open>points_overwritten\<close>), and any \<open>id\<close>
  (\<open>renumbered_after_event\<close>: the record with 5 points gets the id 7, for which there is
  no event). The points are doubles: an event of 1 point for a user with \<open>2 ^ 53\<close> points
  leaves \<open>2 ^ 53\<close> (\<open>points_rounded\<close>). And where the record found under the event's
  \<open>userId\<close> has another \<open>id\<close> (\<open>alice_renumbered\<close>), \<open>createRewardsEvent\<close> updates the
  record under that other id, here none.
\<close>

theorem rewards_points_counterexample:
  "map_option u_rewardsPoints (getUser event_before_user 1) = Some (Val (Fin 0)) \<and>
   points_total event_before_user 1 = 5 \<and>
   map_option u_rewardsPoints (getUser points_overwritten 1) = Some (Val (Fin 999)) \<and>
   points_total points_overwritten 1 = 0 \<and>
   map_option u_id (getUser renumbered_after_event 1) = Some 7 \<and>
   map_option u_rewardsPoints (getUser renumbered_after_event 1) = Some (Val (Fin 5)) \<and>
   points_total renumbered_after_event 7 = 0 \<and>
   map_option u_rewardsPoints (getUser points_rounded 1) =
     Some (Val (Fin 9007199254740992)) \<and>
   points_total points_rounded 1 = 9007199254740993 \<and>
   map_option u_rewardsPoints (getUser alice_renumbered 1) = Some (Val (Fin 0)) \<and>
   ire_userId earn_5 = 1 \<and> ire_points earn_5 = Fin 5 \<and>
   map_option u_rewardsPoints
     (getUser (snd (createRewardsEvent alice_renumbered 3000 earn_5)) 1) = Some (Val (Fin 0))"
  by (simp add: points_total_def method_defs)

text \<open>
  C1, amended. Starting from the store the constructor leaves, after any sequence of
  store operations in which every \<open>createRewardsEvent\<close> names a user who is in the store
  at that moment, with finite points whose double-precision sum with the user's
  \<open>rewardsPoints\<close> is exact, and in which no \<open>updateUser\<close> supplies \<open>id\<close> or \<open>rewardsPoints\<close>:
  every user's \<open>rewardsPoints\<close> equals the sum of \<open>points\<close> over the rewards events whose
  \<open>userId\<close> is the user's id, all of them finite. \<open>createUser\<close> sets \<open>rewardsPoints\<close> to 0.
  \<open>createRewardsEvent\<close> sets the \<open>rewardsPoints\<close> of the user it names, when that user
  exists and is stored under its id, to the double-precision sum of
  \<open>rewardsPoints || 0\<close> and \<open>event.points\<close>. That sum is exact for whole numbers whose sum
  is below \<open>2 ^ 53\<close> in absolute value.
\<close>

theorem rewards_points_spec:
  "(run_points_safe template newMemStorage ops \<longrightarrow>
      (\<forall>user\<in>set (Map_values (users (run template newMemStorage ops))).
         u_rewardsPoints user =
           Val (Fin (points_total (run template newMemStorage ops) (u_id user))) \<and>
         (\<forall>e\<in>set (getUserRewardsEvents (run template newMemStorage ops) (u_id user)).
            is_finite (re_points e)))) \<and>
   u_rewardsPoints (fst (createUser template s now x)) = Val (Fin 0) \<and>
   (getUser s (ire_userId event) = Some user \<and> u_id user = ire_userId event \<longrightarrow>
      map_option u_rewardsPoints (getUser (snd (createRewardsEvent s now event)) (ire_userId event)) =
        Some (Val (dadd (or_zero (u_rewardsPoints user)) (ire_points event)))) \<and>
   (\<bar>a + b\<bar> < 2 ^ 53 \<longrightarrow> exact_sum (Fin (of_int a)) (Fin (of_int b)))"
proof -
  let ?s = "run template newMemStorage ops"
  have a: "run_points_safe template newMemStorage ops \<longrightarrow>
      (\<forall>user\<in>set (Map_values (users ?s)).
         u_rewardsPoints user = Val (Fin (points_total ?s (u_id user))) \<and>
         (\<forall>e\<in>set (getUserRewardsEvents ?s (u_id user)). is_finite (re_points e)))"
  proof
    assume "run_points_safe template newMemStorage ops"
    from rewards_inv_run [OF rewards_inv_new this]
    have p: "\<forall>user\<in>set (Map_values (users ?s)).
        u_rewardsPoints user = Val (Fin (points_total ?s (u_id user)))"
      and f: "\<forall>e\<in>set (Map_values (rewardsEvents ?s)). is_finite (re_points e)"
      by (simp_all add: rewards_inv_def)
    from f have "\<forall>e\<in>set (getUserRewardsEvents ?s i). is_finite (re_points e)" for i
      by (simp add: getUserRewardsEvents_def)
    with p show "\<forall>user\<in>set (Map_values (users ?s)).
         u_rewardsPoints user = Val (Fin (points_total ?s (u_id user))) \<and>
         (\<forall>e\<in>set (getUserRewardsEvents ?s (u_id user)). is_finite (re_points e))"
      by blast
  qed
  have b: "u_rewardsPoints (fst (createUser template s now x)) = Val (Fin 0)"
    by (simp add: createUser_def Let_def)
  have c: "getUser s (ire_userId event) = Some user \<and> u_id user = ire_userId event \<longrightarrow>
      map_option u_rewardsPoints (getUser (snd (createRewardsEvent s now event)) (ire_userId event)) =
        Some (Val (dadd (or_zero (u_rewardsPoints user)) (ire_points event)))"
  proof (intro impI, elim conjE)
    assume g: "getUser s (ire_userId event) = Some user" and i: "u_id user = ire_userId event"
    from g have g': "Map_get (users s) (ire_userId event) = Some user" by (simp add: getUser_def)
    with i show "map_option u_rewardsPoints
        (getUser (snd (createRewardsEvent s now event)) (ire_userId event)) =
        Some (Val (dadd (or_zero (u_rewardsPoints user)) (ire_points event)))"
      by (simp add: createRewardsEvent_def Let_def updateUser_def getUser_def Map_get_set
          points_fields_def spread_User_def spread_def no_User_fields_def)
  qed
  have d: "\<bar>a + b\<bar> < 2 ^ 53 \<longrightarrow> exact_sum (Fin (of_int a)) (Fin (of_int b))"
    using dadd_int [of a b] by simp
  show ?thesis by (rule conjI [OF a conjI [OF b conjI [OF c d]]])
qed

text \<open>The first scenario of the specification: Alice earns 150 points.\<close>

theorem rewards_points_spec_witness:
  "run_points_safe ascii_template newMemStorage alice_earns_ops \<and>
   (\<exists>user\<in>set (Map_values (users (run ascii_template newMemStorage alice_earns_ops))).
      u_id user = 1 \<and>
      u_rewardsPoints user =
        Val (Fin (points_total (run ascii_template newMemStorage alice_earns_ops) 1))) \<and>
   points_total (run ascii_template newMemStorage alice_earns_ops) 1 = 150 \<and>
   getUser only_alice 1 = Some alice_stored \<and> u_id alice_stored = 1 \<and>
   map_option u_rewardsPoints (getUser (snd (createRewardsEvent only_alice 2000 earn_150)) 1) =
     Some (Val (Fin 150)) \<and>
   \<bar>0 + 150 :: int\<bar> < 2 ^ 53 \<and> exact_sum (Fin 0) (Fin 150)"
proof -
  have safe: "run_points_safe ascii_template newMemStorage alice_earns_ops"
    by (simp add: method_defs)
  have mem: "\<exists>user\<in>set (Map_values (users (run ascii_template newMemStorage alice_earns_ops))).
      u_id user = 1"
    by (simp add: method_defs)
  have total: "points_total (run ascii_template newMemStorage alice_earns_ops) 1 = 150"
    by (simp add: points_total_def method_defs)
  have g: "getUser only_alice 1 = Some alice_stored"
    by (simp add: method_defs)
  have e: "ire_userId earn_150 = 1" "ire_points earn_150 = Fin 150"
    "u_rewardsPoints alice_stored = Val (Fin 0)" "u_id alice_stored = 1"
    by (simp_all add: earn_150_def alice_stored_def)
  note t = rewards_points_spec [of ascii_template alice_earns_ops only_alice 2000 alice
      earn_150 alice_stored 0 150]
  note ta = t [THEN conjunct1, THEN mp, OF safe]
  from g e have "getUser only_alice (ire_userId earn_150) = Some alice_stored \<and>
      u_id alice_stored = ire_userId earn_150"
    by simp
  note tc = t [THEN conjunct2, THEN conjunct2, THEN conjunct1, THEN mp, OF this]
  have small: "\<bar>0 + 150 :: int\<bar> < 2 ^ 53" by simp
  note td = t [THEN conjunct2, THEN conjunct2, THEN conjunct2, THEN mp, OF small]
  from mem obtain u where
    u: "u \<in> set (Map_values (users (run ascii_template newMemStorage alice_earns_ops)))"
    "u_id u = 1" by blast
  from ta u have "u_rewardsPoints u =
      Val (Fin (points_total (run ascii_template newMemStorage alice_earns_ops) 1))"
    by auto
  with u have m: "\<exists>user\<in>set (Map_values (users (run ascii_template newMemStorage alice_earns_ops))).
      u_id user = 1 \<and>
      u_rewardsPoints user =
        Val (Fin (points_total (run ascii_template newMemStorage alice_earns_ops) 1))"
    by blast
  from tc e have p: "map_option u_rewardsPoints
      (getUser (snd (createRewardsEvent only_alice 2000 earn_150)) 1) = Some (Val (Fin 150))"
    by (simp add: or_zero_def round64_numeral)
  from td have x: "exact_sum (Fin 0) (Fin 150)" by simp
  show ?thesis
    by (rule conjI [OF safe conjI [OF m conjI [OF total conjI [OF g conjI [OF e(4)
        conjI [OF p conjI [OF small x]]]]]]])
qed

subsection \<open>C2: filled, amount and status of an order\<close>

text \<open>
  C2 as stated fails on both counts. A market order is stored as \<open>Filled\<close> with nothing
  filled (order 3 below: status \<open>Filled\<close>, \<open>filled\<close> 0, \<open>amount\<close> 500), and a trade for more
  than an order's amount fills it beyond the amount (order 1: \<open>filled\<close> 800, \<open>amount\<close> 500):
  the store compares \<open>filled\<close> with \<open>amount\<close> only to choose the status.
\<close>

theorem order_status_counterexample:
  "map_option o_status (getOrder (snd (createOrder two_traders 2500 alice_market)) 3) =
     Some ''Filled'' \<and>
   map_option o_filled (getOrder (snd (createOrder two_traders 2500 alice_market)) 3) =
     Some (Val (Fin 0)) \<and>
   map_option o_amount (getOrder (snd (createOrder two_traders 2500 alice_market)) 3) =
     Some (Fin 500) \<and>
   \<not> dge (Fin 0) (Fin 500) \<and>
   map_option o_filled (getOrder (snd (createTrade two_traders 3000 big_trade)) 1) =
     Some (Val (Fin 800)) \<and>
   map_option o_amount (getOrder (snd (createTrade two_traders 3000 big_trade)) 1) =
     Some (Fin 500) \<and>
   \<not> dge (Fin 500) (Fin 800)"
  by (simp add: method_defs)

text \<open>
  C2, amended. \<open>createOrder\<close> stores \<open>filled\<close> 0 and the status \<open>Filled\<close> for a market order,
  \<open>Open\<close> for any other. In every store that operations other than \<open>updateOrder\<close> produce
  from the constructor's: every order either is as \<open>createOrder\<close> left it or has the status
  \<open>Filled\<close> if \<open>filled >= amount\<close> holds of its two numbers and \<open>Partial\<close> if not; and
  \<open>createTrade\<close> leaves each order it references and finds with \<open>filled\<close> set to the
  double-precision sum of \<open>filled || 0\<close> and the trade's amount, and with the status
  \<open>Filled\<close> if and only if that \<open>filled\<close> is at least \<open>amount\<close>, \<open>Partial\<close> otherwise. That
  \<open>filled\<close> stays at most \<open>amount\<close> is not part of the amended claim: the store does not
  enforce it.
\<close>

theorem order_status_spec:
  "(o_filled (fst (createOrder s now x)) = Val (Fin 0) \<and>
    o_status (fst (createOrder s now x)) =
      (if io_type x = ''Market'' then ''Filled'' else ''Open'')) \<and>
   ((\<forall>x\<in>set ops. \<not> is_UpdateOrder (snd x)) \<longrightarrow>
      (\<forall>order'\<in>set (Map_values (orders (run template newMemStorage ops))).
         as_created order' \<or> status_by_fill order') \<and>
      (getOrder (run template newMemStorage ops) (it_buyOrderId t) = Some order' \<or>
       getOrder (run template newMemStorage ops) (it_sellOrderId t) = Some order' \<longrightarrow>
         (\<exists>o'. getOrder (snd (createTrade (run template newMemStorage ops) now t)) (o_id order') =
                  Some o' \<and>
            o_id order' \<in> {it_buyOrderId t, it_sellOrderId t} \<and>
            o_amount o' = o_amount order' \<and>
            o_filled o' = Val (dadd (or_zero (o_filled order')) (it_amount t)) \<and>
            (o_status o' = ''Filled'' \<longleftrightarrow> dge (to_number (o_filled o')) (o_amount o')) \<and>
            (o_status o' \<noteq> ''Filled'' \<longrightarrow> o_status o' = ''Partial''))))"
proof -
  let ?s = "run template newMemStorage ops"
  have a: "o_filled (fst (createOrder s now x)) = Val (Fin 0) \<and>
    o_status (fst (createOrder s now x)) =
      (if io_type x = ''Market'' then ''Filled'' else ''Open'')"
    by (simp add: createOrder_def Let_def)
  have b: "(\<forall>order'\<in>set (Map_values (orders ?s)). as_created order' \<or> status_by_fill order') \<and>
      (getOrder ?s (it_buyOrderId t) = Some order' \<or>
       getOrder ?s (it_sellOrderId t) = Some order' \<longrightarrow>
         (\<exists>o'. getOrder (snd (createTrade ?s now t)) (o_id order') = Some o' \<and>
            o_id order' \<in> {it_buyOrderId t, it_sellOrderId t} \<and>
            o_amount o' = o_amount order' \<and>
            o_filled o' = Val (dadd (or_zero (o_filled order')) (it_amount t)) \<and>
            (o_status o' = ''Filled'' \<longleftrightarrow> dge (to_number (o_filled o')) (o_amount o')) \<and>
            (o_status o' \<noteq> ''Filled'' \<longrightarrow> o_status o' = ''Partial'')))"
    if no: "\<forall>x\<in>set ops. \<not> is_UpdateOrder (snd x)"
  proof -
    from orders_inv_run [OF orders_inv_new no]
    have inv: "orders_inv ?s" .
    then have kb: "keyed_by o_id (orders ?s)"
      and st: "\<forall>order'\<in>set (Map_values (orders ?s)). as_created order' \<or> status_by_fill order'"
      by (simp_all add: orders_inv_def)
    from kb have under: "order_under_id ?s k" for k
      by (auto simp: order_under_id_def getOrder_def dest: keyed_by_get_ident
          split: option.split)
    have "\<exists>o'. getOrder (snd (createTrade ?s now t)) (o_id order') = Some o' \<and>
            o_id order' \<in> {it_buyOrderId t, it_sellOrderId t} \<and>
            o_amount o' = o_amount order' \<and>
            o_filled o' = Val (dadd (or_zero (o_filled order')) (it_amount t)) \<and>
            (o_status o' = ''Filled'' \<longleftrightarrow> dge (to_number (o_filled o')) (o_amount o')) \<and>
            (o_status o' \<noteq> ''Filled'' \<longrightarrow> o_status o' = ''Partial'')"
      if r: "getOrder ?s (it_buyOrderId t) = Some order' \<or>
             getOrder ?s (it_sellOrderId t) = Some order'"
    proof -
      from r kb have "o_id order' \<in> {it_buyOrderId t, it_sellOrderId t}"
        by (auto simp: getOrder_def dest: keyed_by_get_ident)
      with createTrade_fills [OF under under r, of now] show ?thesis by blast
    qed
    with st show ?thesis by blast
  qed
  from a b show ?thesis by blast
qed

text \<open>Alice's limit order for 500 after a trade of 200: \<open>Partial\<close>.\<close>

theorem order_status_spec_witness:
  "\<not> (\<exists>x\<in>set two_traders_ops. is_UpdateOrder (snd x)) \<and>
   map_option o_amount (getOrder two_traders 1) = Some (Fin 500) \<and>
   map_option o_filled (getOrder (snd (createTrade two_traders 3000 first_trade)) 1) =
     Some (Val (Fin 200)) \<and>
   map_option o_status (getOrder (snd (createTrade two_traders 3000 first_trade)) 1) =
     Some ''Partial'' \<and>
   (\<exists>order'\<in>set (Map_values (orders two_traders)).
      o_id order' = 1 \<and> (as_created order' \<or> status_by_fill order'))"
proof -
  obtain bo where bo: "getOrder two_traders (it_buyOrderId first_trade) = Some bo"
    and bo1: "o_id bo = 1" "o_filled bo = Val (Fin 0)" "o_amount bo = Fin 500"
    by (simp add: method_defs)
  have tr: "it_buyOrderId first_trade = 1" "it_amount first_trade = Fin 200"
    by (simp_all add: first_trade_def)
  have ops: "\<forall>x\<in>set two_traders_ops. \<not> is_UpdateOrder (snd x)"
    by (simp add: two_traders_ops_def)
  have mem: "\<exists>order'\<in>set (Map_values (orders two_traders)). o_id order' = 1"
    by (simp add: method_defs)
  note t = order_status_spec [where s = two_traders and now = 3000 and x = alice_market
      and ops = two_traders_ops and template = ascii_template and t = first_trade
      and order' = bo]
  note tb = t [THEN conjunct2, THEN mp, OF ops]
  note tc = tb [THEN conjunct1]
  from bo have "getOrder (run ascii_template newMemStorage two_traders_ops)
      (it_buyOrderId first_trade) = Some bo \<or>
    getOrder (run ascii_template newMemStorage two_traders_ops)
      (it_sellOrderId first_trade) = Some bo"
    by (simp add: two_traders_def)
  note td = tb [THEN conjunct2, THEN mp, OF this]
  from td obtain o' where
    o': "getOrder (snd (createTrade two_traders 3000 first_trade)) (o_id bo) = Some o'"
      "o_amount o' = o_amount bo"
      "o_filled o' = Val (dadd (or_zero (o_filled bo)) (it_amount first_trade))"
      "o_status o' = ''Filled'' \<longleftrightarrow> dge (to_number (o_filled o')) (o_amount o')"
      "o_status o' \<noteq> ''Filled'' \<longrightarrow> o_status o' = ''Partial''"
    unfolding two_traders_def [symmetric] by (elim exE conjE)
  from o'(3) bo1 tr have f: "o_filled o' = Val (Fin 200)"
    by (simp add: or_zero_def round64_numeral)
  with o'(2) bo1 have "\<not> dge (to_number (o_filled o')) (o_amount o')"
    by (simp add: to_number_def)
  with o'(4,5) have p: "o_status o' = ''Partial''" by blast
  from o'(1) bo1(1) have g: "getOrder (snd (createTrade two_traders 3000 first_trade)) 1 = Some o'"
    by simp
  with p have a: "map_option o_status
      (getOrder (snd (createTrade two_traders 3000 first_trade)) 1) = Some ''Partial''"
    by simp
  from g f have a': "map_option o_filled
      (getOrder (snd (createTrade two_traders 3000 first_trade)) 1) = Some (Val (Fin 200))"
    by simp
  from mem obtain x where x: "x \<in> set (Map_values (orders two_traders))" "o_id x = 1"
    by blast
  from tc x(1) have "as_created x \<or> status_by_fill x"
    unfolding two_traders_def by blast
  with x have b: "\<exists>order'\<in>set (Map_values (orders two_traders)).
      o_id order' = 1 \<and> (as_created order' \<or> status_by_fill order')"
    by blast
  from bo tr(1) have "getOrder two_traders 1 = Some bo" by simp
  with bo1(3) have c: "map_option o_amount (getOrder two_traders 1) = Some (Fin 500)" by simp
  from ops have d: "\<not> (\<exists>x\<in>set two_traders_ops. is_UpdateOrder (snd x))" by blast
  show ?thesis by (rule conjI [OF d conjI [OF c conjI [OF a' conjI [OF a b]]]])
qed

subsection \<open>C3: what a trade adds\<close>

text \<open>
  C3 as stated fails in three ways. When one user is behind both orders, and so whenever
  the two order ids coincide, \<open>createTrade\<close> reads the seller after it has updated the
  buyer, so that user's \<open>totalTradingVolume\<close> grows by \<open>totalValue\<close> twice: Alice's order 1
  is both sides of a trade of value 400, and her volume goes from 0 to 800. The sums are
  sums of doubles: a trade of amount and value 1, on an order filled to \<open>2 ^ 53\<close> and a
  user with the volume \<open>2 ^ 53\<close>, leaves both as they were. And an order or a user found
  under an id that is not the record's own \<open>id\<close> (\<open>order_renumbered\<close>, \<open>user_renumbered\<close>)
  is not the record that \<open>createTrade\<close> updates.
\<close>

theorem createTrade_same_user_counterexample:
  "map_option o_userId (getOrder two_traders 1) = Some 1 \<and>
   map_option u_totalTradingVolume (getUser two_traders 1) = Some (Val (Fin 0)) \<and>
   it_buyOrderId self_trade = 1 \<and> it_sellOrderId self_trade = 1 \<and>
   it_totalValue self_trade = Fin 400 \<and>
   map_option u_totalTradingVolume (getUser (snd (createTrade two_traders 3000 self_trade)) 1) =
     Some (Val (Fin 800)) \<and>
   map_option o_filled (getOrder after_huge_trade 1) = Some (Val (Fin 9007199254740992)) \<and>
   map_option u_totalTradingVolume (getUser after_huge_trade 1) =
     Some (Val (Fin 9007199254740992)) \<and>
   it_buyOrderId unit_trade = 1 \<and> it_amount unit_trade = Fin 1 \<and>
   it_totalValue unit_trade = Fin 1 \<and>
   map_option o_filled (getOrder (snd (createTrade after_huge_trade 4000 unit_trade)) 1) =
     Some (Val (Fin 9007199254740992)) \<and>
   map_option u_totalTradingVolume
     (getUser (snd (createTrade after_huge_trade 4000 unit_trade)) 1) =
     Some (Val (Fin 9007199254740992)) \<and>
   it_buyOrderId first_trade = 1 \<and> it_amount first_trade = Fin 200 \<and>
   it_totalValue first_trade = Fin 400 \<and>
   map_option o_filled (getOrder order_renumbered 1) = Some (Val (Fin 0)) \<and>
   map_option o_filled (getOrder (snd (createTrade order_renumbered 3000 first_trade)) 1) =
     Some (Val (Fin 0)) \<and>
   map_option o_userId (getOrder user_renumbered 1) = Some 1 \<and>
   map_option u_totalTradingVolume (getUser user_renumbered 1) = Some (Val (Fin 0)) \<and>
   map_option u_totalTradingVolume
     (getUser (snd (createTrade user_renumbered 3000 first_trade)) 1) = Some (Val (Fin 0))"
  by (simp add: method_defs)

text \<open>
  C3, amended. When both orders of a trade and the users behind them exist, each stored
  under its own \<open>id\<close> (as they are in every store that operations which overwrite no
  \<open>id\<close> produce: \<open>reachable_keyed\<close>), \<open>createTrade\<close> sets the \<open>filled\<close> of the buy order and
  of the sell order each to the double-precision sum of \<open>filled || 0\<close> and the trade's
  amount (once, also when the two ids coincide), and adds the trade's \<open>totalValue\<close> in the
  same way to the \<open>totalTradingVolume\<close> of the user behind each order, once for each of
  the two orders that user is behind: once when buyer and seller differ, twice in
  succession when they are one user. A sum of whole numbers below \<open>2 ^ 53\<close> in absolute
  value is exact, so that then \<open>filled\<close> grows by exactly the amount and the volume by
  exactly \<open>totalValue\<close>, or twice \<open>totalValue\<close>.
\<close>

theorem createTrade_effect:
  assumes bo: "getOrder s (it_buyOrderId t) = Some bo"
      and so: "getOrder s (it_sellOrderId t) = Some so"
      and ib: "o_id bo = it_buyOrderId t"
      and isl: "o_id so = it_sellOrderId t"
      and bu: "getUser s (o_userId bo) = Some buyer"
      and su: "getUser s (o_userId so) = Some seller"
      and ub: "u_id buyer = o_userId bo"
      and us: "u_id seller = o_userId so"
  shows "map_option o_filled (getOrder (snd (createTrade s now t)) (it_buyOrderId t)) =
           Some (Val (dadd (or_zero (o_filled bo)) (it_amount t))) \<and>
         map_option o_filled (getOrder (snd (createTrade s now t)) (it_sellOrderId t)) =
           Some (Val (dadd (or_zero (o_filled so)) (it_amount t))) \<and>
         map_option u_totalTradingVolume (getUser (snd (createTrade s now t)) (o_userId bo)) =
           Some (Val (if o_userId bo = o_userId so
                      then dadd (or_zero (Val (dadd (or_zero (u_totalTradingVolume buyer))
                                                   (it_totalValue t))))
                                (it_totalValue t)
                      else dadd (or_zero (u_totalTradingVolume buyer)) (it_totalValue t))) \<and>
         map_option u_totalTradingVolume (getUser (snd (createTrade s now t)) (o_userId so)) =
           Some (Val (if o_userId bo = o_userId so
                      then dadd (or_zero (Val (dadd (or_zero (u_totalTradingVolume seller))
                                                   (it_totalValue t))))
                                (it_totalValue t)
                      else dadd (or_zero (u_totalTradingVolume seller)) (it_totalValue t))) \<and>
         (\<forall>a b. \<bar>a + b\<bar> < 2 ^ 53 \<longrightarrow>
            dadd (Fin (of_int a)) (Fin (of_int b)) = Fin (of_int (a + b)))"
proof -
  from bo so bu su have g: "Map_get (orders s) (it_buyOrderId t) = Some bo"
    "Map_get (orders s) (it_sellOrderId t) = Some so"
    "Map_get (users s) (o_userId bo) = Some buyer"
    "Map_get (users s) (o_userId so) = Some seller"
    by (simp_all add: getOrder_def getUser_def)
  have o1: "map_option o_filled (getOrder (snd (createTrade s now t)) (it_buyOrderId t)) =
           Some (Val (dadd (or_zero (o_filled bo)) (it_amount t)))"
    using g ib isl ub us by (auto simp: trade_defs)
  have o2: "map_option o_filled (getOrder (snd (createTrade s now t)) (it_sellOrderId t)) =
           Some (Val (dadd (or_zero (o_filled so)) (it_amount t)))"
    using g ib isl ub us by (auto simp: trade_defs)
  have u1: "map_option u_totalTradingVolume (getUser (snd (createTrade s now t)) (o_userId bo)) =
           Some (Val (if o_userId bo = o_userId so
                      then dadd (or_zero (Val (dadd (or_zero (u_totalTradingVolume buyer))
                                                   (it_totalValue t))))
                                (it_totalValue t)
                      else dadd (or_zero (u_totalTradingVolume buyer)) (it_totalValue t)))"
    using g ib isl ub us by (auto simp: trade_defs)
  have u2: "map_option u_totalTradingVolume (getUser (snd (createTrade s now t)) (o_userId so)) =
           Some (Val (if o_userId bo = o_userId so
                      then dadd (or_zero (Val (dadd (or_zero (u_totalTradingVolume seller))
                                                   (it_totalValue t))))
                                (it_totalValue t)
                      else dadd (or_zero (u_totalTradingVolume seller)) (it_totalValue t)))"
    using g ib isl ub us by (auto simp: trade_defs)
  have ex: "\<forall>a b. \<bar>a + b\<bar> < 2 ^ 53 \<longrightarrow>
      dadd (Fin (of_int a)) (Fin (of_int b)) = Fin (of_int (a + b))"
    using dadd_int by blast
  show ?thesis by (rule conjI [OF o1 conjI [OF o2 conjI [OF u1 conjI [OF u2 ex]]]])
qed

text \<open>Alice buys from Bob: 200 filled on each order, 400 of volume for each user.\<close>

theorem createTrade_effect_witness:
  "map_option o_id (getOrder two_traders 1) = Some 1 \<and>
   map_option o_id (getOrder two_traders 2) = Some 2 \<and>
   map_option o_userId (getOrder two_traders 1) = Some 1 \<and>
   map_option o_userId (getOrder two_traders 2) = Some 2 \<and>
   map_option u_id (getUser two_traders 1) = Some 1 \<and>
   map_option u_id (getUser two_traders 2) = Some 2 \<and>
   map_option u_totalTradingVolume (getUser two_traders 1) = Some (Val (Fin 0)) \<and>
   map_option u_totalTradingVolume (getUser two_traders 2) = Some (Val (Fin 0)) \<and>
   map_option o_filled (getOrder (snd (createTrade two_traders 3000 first_trade)) 1) =
     Some (Val (Fin 200)) \<and>
   map_option o_filled (getOrder (snd (createTrade two_traders 3000 first_trade)) 2) =
     Some (Val (Fin 200)) \<and>
   map_option u_totalTradingVolume (getUser (snd (createTrade two_traders 3000 first_trade)) 1) =
     Some (Val (Fin 400)) \<and>
   map_option u_totalTradingVolume (getUser (snd (createTrade two_traders 3000 first_trade)) 2) =
     Some (Val (Fin 400))"
proof -
  obtain bo where bo: "getOrder two_traders (it_buyOrderId first_trade) = Some bo"
    and bo1: "o_userId bo = 1" "o_filled bo = Val (Fin 0)" "o_id bo = 1"
    by (simp add: method_defs)
  obtain so where so: "getOrder two_traders (it_sellOrderId first_trade) = Some so"
    and so1: "o_userId so = 2" "o_filled so = Val (Fin 0)" "o_id so = 2"
    by (simp add: method_defs)
  obtain buyer where bu: "getUser two_traders 1 = Some buyer"
    and bu1: "u_totalTradingVolume buyer = Val (Fin 0)" "u_id buyer = 1"
    by (simp add: method_defs)
  obtain seller where su: "getUser two_traders 2 = Some seller"
    and su1: "u_totalTradingVolume seller = Val (Fin 0)" "u_id seller = 2"
    by (simp add: method_defs)
  have tr: "it_buyOrderId first_trade = 1" "it_sellOrderId first_trade = 2"
    "it_amount first_trade = Fin 200" "it_totalValue first_trade = Fin 400"
    by (simp_all add: first_trade_def)
  from bu bo1 have bu': "getUser two_traders (o_userId bo) = Some buyer" by simp
  from su so1 have su': "getUser two_traders (o_userId so) = Some seller" by simp
  from bo1 tr have ib: "o_id bo = it_buyOrderId first_trade" by simp
  from so1 tr have isl: "o_id so = it_sellOrderId first_trade" by simp
  from bu1 bo1 have ub: "u_id buyer = o_userId bo" by simp
  from su1 so1 have us: "u_id seller = o_userId so" by simp
  from createTrade_effect [OF bo so ib isl bu' su' ub us, of 3000]
    bo so bu su bo1 so1 bu1 su1 tr
  show ?thesis by (simp add: or_zero_def round64_numeral)
qed

subsection \<open>C4: getUserRewardsTier\<close>

text \<open>
  What \<open>getUserRewardsTier\<close> does: no tier for a user id that is absent; when some tier's
  threshold is met, a tier with the largest \<open>pointsRequired\<close> among those met; and when
  none is met, the first element of the array sorted in place, which is a tier with the
  largest \<open>pointsRequired\<close> of all, not the lowest. A threshold is met when
  \<open>user.rewardsPoints >= tier.pointsRequired\<close> holds of the two numbers.
\<close>

lemma find_sorted_least:
  "sorted (map f ys) \<Longrightarrow> find P ys = Some t \<Longrightarrow> \<forall>t'\<in>set ys. P t' \<longrightarrow> f t \<le> f t'"
  by (induction ys) (auto split: if_splits)

lemma getUserRewardsTier_absent: "getUser s i = None \<Longrightarrow> getUserRewardsTier s i = None"
  by (simp add: getUserRewardsTier_def)

lemma getUserRewardsTier_qualifying:
  assumes u: "getUser s i = Some user"
      and q: "\<exists>tier\<in>set (getAllRewardsTiers s).
                dge (to_number (u_rewardsPoints user)) (Fin (of_int (rt_pointsRequired tier)))"
  shows "\<exists>tier. getUserRewardsTier s i = Some tier \<and> tier \<in> set (getAllRewardsTiers s) \<and>
           dge (to_number (u_rewardsPoints user)) (Fin (of_int (rt_pointsRequired tier))) \<and>
           (\<forall>t'\<in>set (getAllRewardsTiers s).
              dge (to_number (u_rewardsPoints user)) (Fin (of_int (rt_pointsRequired t'))) \<longrightarrow>
              rt_pointsRequired t' \<le> rt_pointsRequired tier)"
proof -
  let ?P = "\<lambda>tier. dge (to_number (u_rewardsPoints user)) (Fin (of_int (rt_pointsRequired tier)))"
  let ?ys = "sort_tiers (getAllRewardsTiers s)"
  have set_ys: "set ?ys = set (getAllRewardsTiers s)" by (simp add: sort_tiers_def)
  have srt: "sorted (map (\<lambda>tier. - rt_pointsRequired tier) ?ys)"
    by (simp add: sort_tiers_def)
  from q set_ys have "\<exists>tier\<in>set ?ys. ?P tier" by simp
  then obtain t where f: "find ?P ?ys = Some t"
    by (cases "find ?P ?ys") (auto simp: find_None_iff)
  then have t: "t \<in> set ?ys" "?P t" using find_Some_D by fastforce+
  from find_sorted_least [OF srt f]
  have best: "\<forall>t'\<in>set ?ys. ?P t' \<longrightarrow> rt_pointsRequired t' \<le> rt_pointsRequired t" by simp
  from u f have "getUserRewardsTier s i = Some t"
    by (simp add: getUserRewardsTier_def Let_def)
  with t best show ?thesis unfolding set_ys by blast
qed

text \<open>When no threshold is met the result is the head of the sorted array: a tier whose
  \<open>pointsRequired\<close> is the largest of all.\<close>

lemma getUserRewardsTier_fallback:
  assumes u: "getUser s i = Some user"
      and q: "\<forall>tier\<in>set (getAllRewardsTiers s).
                \<not> dge (to_number (u_rewardsPoints user)) (Fin (of_int (rt_pointsRequired tier)))"
      and ne: "getAllRewardsTiers s \<noteq> []"
  shows "\<exists>tier. getUserRewardsTier s i = Some tier \<and> tier \<in> set (getAllRewardsTiers s) \<and>
           (\<forall>t'\<in>set (getAllRewardsTiers s). rt_pointsRequired t' \<le> rt_pointsRequired tier)"
proof -
  let ?P = "\<lambda>tier. dge (to_number (u_rewardsPoints user)) (Fin (of_int (rt_pointsRequired tier)))"
  let ?ys = "sort_tiers (getAllRewardsTiers s)"
  have set_ys: "set ?ys = set (getAllRewardsTiers s)" by (simp add: sort_tiers_def)
  have srt: "sorted (map (\<lambda>tier. - rt_pointsRequired tier) ?ys)"
    by (simp add: sort_tiers_def)
  from ne set_ys have "?ys \<noteq> []" by (metis set_empty)
  then obtain t ts where ys: "?ys = t # ts" by (cases ?ys) auto
  from q set_ys have "find ?P ?ys = None" by (auto simp: find_None_iff)
  with u ys have r: "getUserRewardsTier s i = Some t"
    by (simp add: getUserRewardsTier_def Let_def)
  from srt ys have "\<forall>t'\<in>set ?ys. rt_pointsRequired t' \<le> rt_pointsRequired t" by auto
  moreover from ys have "t \<in> set ?ys" by simp
  ultimately show ?thesis using r unfolding set_ys by blast
qed

text \<open>A user whose \<open>rewardsPoints\<close> is \<open>undefined\<close> meets no threshold, and gets Platinum too.\<close>

lemma getUserRewardsTier_undefined:
  "map_option u_rewardsPoints (getUser undefined_points 1) = Some Undefined \<and>
   map_option rt_name (getUserRewardsTier undefined_points 1) = Some ''Platinum''"
  by (simp add: getUserRewardsTier_def getAllRewardsTiers_def sort_tiers_def method_defs)

text \<open>
  C4 on the store the constructor seeds, for a user with -5 points (a rewards event may
  carry negative points): no threshold is met, not even Bronze's 0, and the method
  returns Platinum, the tier with the highest \<open>pointsRequired\<close>, where the claim (and
  the comment in the code, which expects a tier with 0 points to catch every user)
  has the lowest tier.
\<close>

theorem getUserRewardsTier_fallback_highest:
  "map_option u_rewardsPoints (getUser negative_alice 1) = Some (Val (Fin (- 5))) \<and>
   map rt_name (getAllRewardsTiers negative_alice) =
     [''Bronze'', ''Silver'', ''Gold'', ''Platinum''] \<and>
   map rt_pointsRequired (getAllRewardsTiers negative_alice) = [0, 1000, 5000, 10000] \<and>
   map_option rt_name (getUserRewardsTier negative_alice 1) = Some ''Platinum''"
  by (simp add: getUserRewardsTier_def getAllRewardsTiers_def sort_tiers_def method_defs)

subsection \<open>C5: resetPassword\<close>

text \<open>
  C5 as stated fails in its second call. Where two users hold the same token, which the
  store permits, the first \<open>resetPassword\<close> clears one copy and the second call with the
  same token succeeds again, on the other user: in \<open>shared_token\<close> both Alice and Bob
  hold \<open>T\<close>. And where the record that holds the token is stored under an id other than
  its own \<open>id\<close> (\<open>token_on_renumbered\<close>: Alice under 1, with the \<open>id\<close> 7), \<open>resetPassword\<close>
  stores the changed record under that \<open>id\<close> and leaves the one it found, so the second
  call succeeds again.
\<close>

theorem resetPassword_twice_counterexample:
  "fst (resetPassword shared_token 5000 ''T'' ''pw1'') \<and>
   fst (resetPassword (snd (resetPassword shared_token 5000 ''T'' ''pw1'')) 6000 ''T'' ''pw2'') \<and>
   map u_id (holders token_on_renumbered ''T'') = [7] \<and>
   map_option u_id (getUser token_on_renumbered 1) = Some 7 \<and>
   getUser token_on_renumbered 7 = None \<and>
   fst (resetPassword token_on_renumbered 5000 ''T'' ''pw1'') \<and>
   fst (resetPassword (snd (resetPassword token_on_renumbered 5000 ''T'' ''pw1''))
          6000 ''T'' ''pw2'')"
  by (simp add: method_defs)

text \<open>
  C5, amended. \<open>resetPassword(tk, p)\<close> returns true exactly when some user's stored
  \<open>resetPasswordToken\<close> equals \<open>tk\<close> and that user's \<open>resetPasswordExpires\<close> is later than
  the current time. On failure the store is unchanged. On success there is such a user,
  with the token \<open>tk\<close> and an expiry later than the current time, and afterwards the
  store holds under that user's \<open>id\<close> the user's record with the password \<open>p\<close>, no token
  and no expiry (and \<open>updatedAt\<close> restamped); what is stored under every other id, and
  the rest of the store, is unchanged. If that user's record was the only one to hold
  \<open>tk\<close> and was stored under its own \<open>id\<close>, every later \<open>resetPassword\<close> with \<open>tk\<close> returns
  false and changes nothing.
\<close>

theorem resetPassword_spec:
  "(fst (resetPassword s now tk p) \<longleftrightarrow>
      (\<exists>u\<in>set (Map_values (users s)). u_resetPasswordToken u = Some tk \<and>
         (\<exists>e. u_resetPasswordExpires u = Some e \<and> e > now))) \<and>
   (\<not> fst (resetPassword s now tk p) \<longrightarrow> snd (resetPassword s now tk p) = s) \<and>
   (fst (resetPassword s now tk p) \<longrightarrow>
      (\<exists>u\<in>set (Map_values (users s)).
         u_resetPasswordToken u = Some tk \<and>
         (\<exists>e. u_resetPasswordExpires u = Some e \<and> e > now) \<and>
         getUser (snd (resetPassword s now tk p)) (u_id u) =
           Some (u\<lparr> u_password := p, u_resetPasswordToken := None,
                    u_resetPasswordExpires := None, u_updatedAt := Some now \<rparr>) \<and>
         (\<forall>i. i \<noteq> u_id u \<longrightarrow> getUser (snd (resetPassword s now tk p)) i = getUser s i) \<and>
         snd (resetPassword s now tk p) = s\<lparr> users := users (snd (resetPassword s now tk p)) \<rparr> \<and>
         (holders s tk = [u] \<and> getUser s (u_id u) = Some u \<longrightarrow>
            (\<forall>now' p'. resetPassword (snd (resetPassword s now tk p)) now' tk p' =
               (False, snd (resetPassword s now tk p))))))"
proof (cases "find (reset_matches now tk) (Map_values (users s))")
  case None
  then have no: "\<forall>u\<in>set (Map_values (users s)). \<not> reset_matches now tk u"
    by (simp add: find_None_iff)
  from None have r: "resetPassword s now tk p = (False, s)" by (simp add: resetPassword_def)
  from no have "\<not> (\<exists>u\<in>set (Map_values (users s)). u_resetPasswordToken u = Some tk \<and>
         (\<exists>e. u_resetPasswordExpires u = Some e \<and> e > now))"
    by (auto simp: reset_matches_def)
  with r show ?thesis by simp
next
  case (Some u)
  let ?u' = "u\<lparr> u_password := p, u_resetPasswordToken := None,
                u_resetPasswordExpires := None, u_updatedAt := Some now \<rparr>"
  let ?s' = "s\<lparr> users := Map_set (users s) (u_id u) ?u' \<rparr>"
  from Some have mem: "u \<in> set (Map_values (users s))" and m: "reset_matches now tk u"
    using find_Some_D by fastforce+
  from Some have r: "resetPassword s now tk p = (True, ?s')"
    by (simp add: resetPassword_def Let_def)
  from m have tok: "u_resetPasswordToken u = Some tk"
    and ex: "\<exists>e. u_resetPasswordExpires u = Some e \<and> e > now"
    by (auto simp: reset_matches_def split: option.splits)
  have c1: "\<exists>u\<in>set (Map_values (users s)). u_resetPasswordToken u = Some tk \<and>
         (\<exists>e. u_resetPasswordExpires u = Some e \<and> e > now)"
    using mem tok ex by blast
  have c3: "getUser ?s' (u_id u) = Some ?u'"
    by (simp add: getUser_def Map_get_set)
  have c4: "\<forall>i. i \<noteq> u_id u \<longrightarrow> getUser ?s' i = getUser s i"
    by (simp add: getUser_def Map_get_set)
  have c4': "?s' = s\<lparr> users := users ?s' \<rparr>" by simp
  have c5: "\<forall>now' p'. resetPassword ?s' now' tk p' = (False, ?s')"
    if "holders s tk = [u] \<and> getUser s (u_id u) = Some u"
  proof (intro allI)
    fix now' p'
    from that have h: "filter (\<lambda>v. u_resetPasswordToken v = Some tk) (Map_values (users s)) = [u]"
      and g: "Map_get (users s) (u_id u) = Some u"
      by (simp_all add: holders_def getUser_def)
    have "u_resetPasswordToken ?u' \<noteq> Some tk" by simp
    from filter_Map_set_single [OF g h this]
    have "\<forall>x\<in>set (Map_values (users ?s')). u_resetPasswordToken x \<noteq> Some tk"
      by (simp add: filter_empty_conv)
    then have "\<forall>x\<in>set (Map_values (users ?s')). \<not> reset_matches now' tk x"
      by (simp add: reset_matches_def)
    then have "find (reset_matches now' tk) (Map_values (users ?s')) = None"
      by (simp add: find_None_iff)
    then show "resetPassword ?s' now' tk p' = (False, ?s')"
      by (simp add: resetPassword_def)
  qed
  have c6: "\<exists>u\<in>set (Map_values (users s)).
         u_resetPasswordToken u = Some tk \<and>
         (\<exists>e. u_resetPasswordExpires u = Some e \<and> e > now) \<and>
         getUser ?s' (u_id u) =
           Some (u\<lparr> u_password := p, u_resetPasswordToken := None,
                    u_resetPasswordExpires := None, u_updatedAt := Some now \<rparr>) \<and>
         (\<forall>i. i \<noteq> u_id u \<longrightarrow> getUser ?s' i = getUser s i) \<and>
         ?s' = s\<lparr> users := users ?s' \<rparr> \<and>
         (holders s tk = [u] \<and> getUser s (u_id u) = Some u \<longrightarrow>
            (\<forall>now' p'. resetPassword ?s' now' tk p' = (False, ?s')))"
    using mem tok ex c3 c4 c4' c5 by blast
  show ?thesis
    unfolding r fst_conv snd_conv using c1 c6 by blast
qed

text \<open>On \<open>alice_reset\<close>: the token \<open>T\<close> works once, before its expiry.\<close>

theorem resetPassword_spec_witness:
  "fst (resetPassword alice_reset 3000 ''T'' ''newpw12345'') \<and>
   map_option u_password (getUser (snd (resetPassword alice_reset 3000 ''T'' ''newpw12345'')) 1) =
     Some ''newpw12345'' \<and>
   holders alice_reset ''T'' = [alice_holds_T] \<and>
   getUser alice_reset 1 = Some alice_holds_T \<and> u_id alice_holds_T = 1 \<and>
   resetPassword (snd (resetPassword alice_reset 3000 ''T'' ''newpw12345'')) 4000 ''T'' ''again'' =
     (False, snd (resetPassword alice_reset 3000 ''T'' ''newpw12345'')) \<and>
   \<not> fst (resetPassword alice_reset 3602000 ''T'' ''late'') \<and>
   snd (resetPassword alice_reset 3602000 ''T'' ''late'') = alice_reset"
proof -
  have a: "getUser alice_reset 1 = Some alice_holds_T"
    by (simp add: alice_holds_T_def method_defs)
  have a1: "u_id alice_holds_T = 1"
    by (simp add: alice_holds_T_def alice_stored_def)
  have h: "holders alice_reset ''T'' = [alice_holds_T]"
    by (simp add: alice_holds_T_def method_defs)
  have one: "\<forall>u\<in>set (Map_values (users alice_reset)). u = alice_holds_T"
    by (simp add: alice_holds_T_def method_defs)
  have ok: "\<exists>u\<in>set (Map_values (users alice_reset)). u_resetPasswordToken u = Some ''T'' \<and>
      (\<exists>e. u_resetPasswordExpires u = Some e \<and> e > 3000)"
    by (simp add: method_defs)
  have late: "\<not> (\<exists>u\<in>set (Map_values (users alice_reset)). u_resetPasswordToken u = Some ''T'' \<and>
      (\<exists>e. u_resetPasswordExpires u = Some e \<and> e > 3602000))"
    by (simp add: method_defs)
  note t = resetPassword_spec [of alice_reset 3000 "''T''" "''newpw12345''"]
  from t [THEN conjunct1] ok
  have s: "fst (resetPassword alice_reset 3000 ''T'' ''newpw12345'')" by (rule iffD2)
  from t [THEN conjunct2, THEN conjunct2, THEN mp, OF s]
  obtain u where u: "u \<in> set (Map_values (users alice_reset))"
    and g: "getUser (snd (resetPassword alice_reset 3000 ''T'' ''newpw12345'')) (u_id u) =
           Some (u\<lparr> u_password := ''newpw12345'', u_resetPasswordToken := None,
                    u_resetPasswordExpires := None, u_updatedAt := Some 3000 \<rparr>)"
    and again: "holders alice_reset ''T'' = [u] \<and> getUser alice_reset (u_id u) = Some u \<longrightarrow>
         (\<forall>now' p'. resetPassword (snd (resetPassword alice_reset 3000 ''T'' ''newpw12345''))
             now' ''T'' p' =
           (False, snd (resetPassword alice_reset 3000 ''T'' ''newpw12345'')))"
    by (elim bexE conjE)
  from one u have ua: "u = alice_holds_T" by (rule bspec)
  from g have "map_option u_password
      (getUser (snd (resetPassword alice_reset 3000 ''T'' ''newpw12345'')) (u_id u)) =
      Some ''newpw12345''"
    by simp
  then have pw: "map_option u_password
      (getUser (snd (resetPassword alice_reset 3000 ''T'' ''newpw12345'')) 1) = Some ''newpw12345''"
    unfolding ua a1 .
  from h a have "holders alice_reset ''T'' = [u] \<and> getUser alice_reset (u_id u) = Some u"
    unfolding ua a1 by (rule conjI)
  from again [THEN mp, OF this]
  have ag: "resetPassword (snd (resetPassword alice_reset 3000 ''T'' ''newpw12345''))
      4000 ''T'' ''again'' = (False, snd (resetPassword alice_reset 3000 ''T'' ''newpw12345''))"
    by (elim allE)
  note t' = resetPassword_spec [of alice_reset 3602000 "''T''" "''late''"]
  from t' [THEN conjunct1] late
  have l1: "\<not> fst (resetPassword alice_reset 3602000 ''T'' ''late'')" by simp
  from t' [THEN conjunct2, THEN conjunct1, THEN mp, OF l1]
  have l2: "snd (resetPassword alice_reset 3602000 ''T'' ''late'') = alice_reset" .
  show ?thesis
    by (rule conjI [OF s conjI [OF pw conjI [OF h conjI [OF a conjI [OF a1 conjI [OF ag
        conjI [OF l1 l2]]]]]]])
qed

subsection \<open>C6: the update methods\<close>

text \<open>
  C6 as stated fails for \<open>updateUser\<close> and \<open>updateOrder\<close>: they return and store the merged
  record with \<open>updatedAt\<close> overwritten by the current time, also when the partial record
  gives an \<open>updatedAt\<close> of its own. Here the merge of Alice's record with \<open>rename_alice\<close>
  has \<open>updatedAt\<close> 7, and the record returned at time 5000 has 5000.
\<close>

theorem update_restamps_counterexample:
  "getUser only_alice 1 = Some alice_stored \<and>
   u_updatedAt (spread_User alice_stored rename_alice) = Some 7 \<and>
   map_option u_updatedAt (fst (updateUser only_alice 5000 1 rename_alice)) = Some (Some 5000) \<and>
   fst (updateUser only_alice 5000 1 rename_alice) \<noteq> Some (spread_User alice_stored rename_alice)"
  by (simp add: method_defs)

text \<open>
  C6, amended. For an id absent from its map, \<open>updateUser\<close>, \<open>updateOrder\<close>,
  \<open>updateTradingPair\<close> and \<open>updateNewsArticle\<close> return an empty result and leave the whole
  store unchanged. For an id that is present, \<open>updateTradingPair\<close> and \<open>updateNewsArticle\<close>
  return the stored record merged with the partial fields, and \<open>updateUser\<close> and
  \<open>updateOrder\<close> return that merge with \<open>updatedAt\<close> set to the current time; each stores
  the record it returns under the id.
\<close>

theorem update_spec:
  "(getUser s i = None \<longrightarrow> updateUser s now i du = (None, s)) \<and>
   (\<forall>user. getUser s i = Some user \<longrightarrow>
      fst (updateUser s now i du) = Some ((spread_User user du)\<lparr> u_updatedAt := Some now \<rparr>) \<and>
      getUser (snd (updateUser s now i du)) i =
        Some ((spread_User user du)\<lparr> u_updatedAt := Some now \<rparr>)) \<and>
   (getOrder s i = None \<longrightarrow> updateOrder s now i dor = (None, s)) \<and>
   (\<forall>order'. getOrder s i = Some order' \<longrightarrow>
      fst (updateOrder s now i dor) = Some ((spread_Order order' dor)\<lparr> o_updatedAt := Some now \<rparr>) \<and>
      getOrder (snd (updateOrder s now i dor)) i =
        Some ((spread_Order order' dor)\<lparr> o_updatedAt := Some now \<rparr>)) \<and>
   (getTradingPair s i = None \<longrightarrow> updateTradingPair s i dp = (None, s)) \<and>
   (\<forall>pair. getTradingPair s i = Some pair \<longrightarrow>
      fst (updateTradingPair s i dp) = Some (spread_TradingPair pair dp) \<and>
      getTradingPair (snd (updateTradingPair s i dp)) i = Some (spread_TradingPair pair dp)) \<and>
   (getNewsArticle s i = None \<longrightarrow> updateNewsArticle s i da = (None, s)) \<and>
   (\<forall>article. getNewsArticle s i = Some article \<longrightarrow>
      fst (updateNewsArticle s i da) = Some (spread_NewsArticle article da) \<and>
      getNewsArticle (snd (updateNewsArticle s i da)) i = Some (spread_NewsArticle article da))"
proof -
  have u: "(getUser s i = None \<longrightarrow> updateUser s now i du = (None, s)) \<and>
   (\<forall>user. getUser s i = Some user \<longrightarrow>
      fst (updateUser s now i du) = Some ((spread_User user du)\<lparr> u_updatedAt := Some now \<rparr>) \<and>
      getUser (snd (updateUser s now i du)) i =
        Some ((spread_User user du)\<lparr> u_updatedAt := Some now \<rparr>))"
    by (cases "Map_get (users s) i") (simp_all add: updateUser_def getUser_def Let_def Map_get_set)
  have o: "(getOrder s i = None \<longrightarrow> updateOrder s now i dor = (None, s)) \<and>
   (\<forall>order'. getOrder s i = Some order' \<longrightarrow>
      fst (updateOrder s now i dor) = Some ((spread_Order order' dor)\<lparr> o_updatedAt := Some now \<rparr>) \<and>
      getOrder (snd (updateOrder s now i dor)) i =
        Some ((spread_Order order' dor)\<lparr> o_updatedAt := Some now \<rparr>))"
    by (cases "Map_get (orders s) i") (simp_all add: updateOrder_def getOrder_def Let_def Map_get_set)
  have p: "(getTradingPair s i = None \<longrightarrow> updateTradingPair s i dp = (None, s)) \<and>
   (\<forall>pair. getTradingPair s i = Some pair \<longrightarrow>
      fst (updateTradingPair s i dp) = Some (spread_TradingPair pair dp) \<and>
      getTradingPair (snd (updateTradingPair s i dp)) i = Some (spread_TradingPair pair dp))"
    by (cases "Map_get (tradingPairs s) i")
      (simp_all add: updateTradingPair_def getTradingPair_def Let_def Map_get_set)
  have a: "(getNewsArticle s i = None \<longrightarrow> updateNewsArticle s i da = (None, s)) \<and>
   (\<forall>article. getNewsArticle s i = Some article \<longrightarrow>
      fst (updateNewsArticle s i da) = Some (spread_NewsArticle article da) \<and>
      getNewsArticle (snd (updateNewsArticle s i da)) i = Some (spread_NewsArticle article da))"
    by (cases "Map_get (newsArticles s) i")
      (simp_all add: updateNewsArticle_def getNewsArticle_def Let_def Map_get_set)
  from u o p a show ?thesis by blast
qed

text \<open>On \<open>only_alice\<close>: user 99 and pair 9 are absent, user 1 and pair 2 are updated.\<close>

theorem update_spec_witness:
  "getUser only_alice 99 = None \<and>
   updateUser only_alice 5000 99 rename_alice = (None, only_alice) \<and>
   getUser only_alice 1 = Some alice_stored \<and>
   fst (updateUser only_alice 5000 1 rename_alice) =
     Some (alice_stored\<lparr> u_fullName := Some ''Alice'', u_updatedAt := Some 5000 \<rparr>) \<and>
   getUser (snd (updateUser only_alice 5000 1 rename_alice)) 1 =
     Some (alice_stored\<lparr> u_fullName := Some ''Alice'', u_updatedAt := Some 5000 \<rparr>) \<and>
   map_option tp_isActive (getTradingPair only_alice 2) = Some (Some True) \<and>
   map_option tp_isActive (fst (updateTradingPair only_alice 2 deactivate)) = Some (Some False) \<and>
   updateTradingPair only_alice 9 deactivate = (None, only_alice)"
proof -
  have h1: "getUser only_alice 99 = None" "getUser only_alice 1 = Some alice_stored"
    by (simp_all add: method_defs)
  have m: "(spread_User alice_stored rename_alice)\<lparr> u_updatedAt := Some 5000 \<rparr> =
      alice_stored\<lparr> u_fullName := Some ''Alice'', u_updatedAt := Some 5000 \<rparr>"
    by (simp add: method_defs)
  obtain pair where h2: "getTradingPair only_alice 2 = Some pair" "tp_isActive pair = Some True"
    "getTradingPair only_alice 9 = None"
    by (simp add: getTradingPair_def method_defs)
  have m2: "tp_isActive (spread_TradingPair pair deactivate) = Some False"
    by (simp add: spread_TradingPair_def deactivate_def spread_def)
  note t = update_spec [of only_alice 99 5000 rename_alice]
  note t1 = update_spec [of only_alice 1 5000 rename_alice _ deactivate]
  note t2 = update_spec [of only_alice 2 5000 _ _ deactivate]
  note t9 = update_spec [of only_alice 9 5000 _ _ deactivate]
  from t h1 have a: "updateUser only_alice 5000 99 rename_alice = (None, only_alice)" by blast
  from t1 h1 m have b: "fst (updateUser only_alice 5000 1 rename_alice) =
     Some (alice_stored\<lparr> u_fullName := Some ''Alice'', u_updatedAt := Some 5000 \<rparr>)"
    "getUser (snd (updateUser only_alice 5000 1 rename_alice)) 1 =
     Some (alice_stored\<lparr> u_fullName := Some ''Alice'', u_updatedAt := Some 5000 \<rparr>)"
    by simp_all
  from t2 h2 m2 have c: "map_option tp_isActive (fst (updateTradingPair only_alice 2 deactivate)) = Some (Some False)"
    by simp
  from t9 h2 have d: "updateTradingPair only_alice 9 deactivate = (None, only_alice)" by blast
  from h1 h2 a b c d show ?thesis by simp
qed

subsection \<open>C7: create, then get\<close>

text \<open>
  C7. For each of the eight entity types, \<open>create(x)\<close> returns a record that the map holds
  under the returned id afterwards; the id is the value the type's counter had, and the
  counter is then one more; every field of \<open>x\<close> is in the record unchanged; and the
  timestamps and defaulted fields are as the method sets them: for a user \<open>createdAt\<close>,
  \<open>updatedAt\<close>, \<open>twoFactorEnabled\<close>, \<open>isVerified\<close>, \<open>totalTradingVolume\<close>, \<open>rewardsPoints\<close>
  and \<open>referralCode\<close>, which is the value of the template literal at the username and
  the new id, whatever the runtime's \<open>slice\<close>, \<open>toUpperCase\<close> and number printing make
  of them; for an order \<open>filled\<close>, \<open>status\<close>, \<open>createdAt\<close> and \<open>updatedAt\<close>; for
  a trade \<open>timestamp\<close>; for a rewards event \<open>createdAt\<close>; for a subscriber
  \<open>subscribedAt\<close> and \<open>isActive\<close>. (Tiers and subscribers have no get by id in the
  interface; the lookup is the one in their map.)
\<close>

theorem create_then_get:
  "(getUser (snd (createUser template s now xu)) (u_id (fst (createUser template s now xu))) =
      Some (fst (createUser template s now xu)) \<and>
    u_id (fst (createUser template s now xu)) = userCurrentId s \<and>
    userCurrentId (snd (createUser template s now xu)) = userCurrentId s + 1 \<and>
    u_username (fst (createUser template s now xu)) = iu_username xu \<and>
    u_email (fst (createUser template s now xu)) = iu_email xu \<and>
    u_password (fst (createUser template s now xu)) = iu_password xu \<and>
    u_fullName (fst (createUser template s now xu)) = iu_fullName xu \<and>
    u_walletAddress (fst (createUser template s now xu)) = iu_walletAddress xu \<and>
    u_createdAt (fst (createUser template s now xu)) = Some now \<and>
    u_updatedAt (fst (createUser template s now xu)) = Some now \<and>
    u_twoFactorEnabled (fst (createUser template s now xu)) = Some False \<and>
    u_isVerified (fst (createUser template s now xu)) = Some False \<and>
    u_totalTradingVolume (fst (createUser template s now xu)) = Val (Fin 0) \<and>
    u_rewardsPoints (fst (createUser template s now xu)) = Val (Fin 0) \<and>
    u_referralCode (fst (createUser template s now xu)) =
      Some (template (iu_username xu) (userCurrentId s))) \<and>
   (getTradingPair (snd (createTradingPair s xp)) (tp_id (fst (createTradingPair s xp))) =
      Some (fst (createTradingPair s xp)) \<and>
    tp_id (fst (createTradingPair s xp)) = tradingPairCurrentId s \<and>
    tradingPairCurrentId (snd (createTradingPair s xp)) = tradingPairCurrentId s + 1 \<and>
    tp_baseAsset (fst (createTradingPair s xp)) = itp_baseAsset xp \<and>
    tp_quoteAsset (fst (createTradingPair s xp)) = itp_quoteAsset xp \<and>
    tp_pairSymbol (fst (createTradingPair s xp)) = itp_pairSymbol xp \<and>
    tp_minTradeAmount (fst (createTradingPair s xp)) = itp_minTradeAmount xp \<and>
    tp_maxTradeAmount (fst (createTradingPair s xp)) = itp_maxTradeAmount xp \<and>
    tp_tradingFee (fst (createTradingPair s xp)) = itp_tradingFee xp \<and>
    tp_isActive (fst (createTradingPair s xp)) = itp_isActive xp) \<and>
   (getOrder (snd (createOrder s now xo)) (o_id (fst (createOrder s now xo))) =
      Some (fst (createOrder s now xo)) \<and>
    o_id (fst (createOrder s now xo)) = orderCurrentId s \<and>
    orderCurrentId (snd (createOrder s now xo)) = orderCurrentId s + 1 \<and>
    o_userId (fst (createOrder s now xo)) = io_userId xo \<and>
    o_tradingPairId (fst (createOrder s now xo)) = io_tradingPairId xo \<and>
    o_type (fst (createOrder s now xo)) = io_type xo \<and>
    o_side (fst (createOrder s now xo)) = io_side xo \<and>
    o_price (fst (createOrder s now xo)) = io_price xo \<and>
    o_amount (fst (createOrder s now xo)) = io_amount xo \<and>
    o_filled (fst (createOrder s now xo)) = Val (Fin 0) \<and>
    o_status (fst (createOrder s now xo)) =
      (if io_type xo = ''Market'' then ''Filled'' else ''Open'') \<and>
    o_createdAt (fst (createOrder s now xo)) = Some now \<and>
    o_updatedAt (fst (createOrder s now xo)) = Some now) \<and>
   (getTrade (snd (createTrade s now xt)) (t_id (fst (createTrade s now xt))) =
      Some (fst (createTrade s now xt)) \<and>
    t_id (fst (createTrade s now xt)) = tradeCurrentId s \<and>
    tradeCurrentId (snd (createTrade s now xt)) = tradeCurrentId s + 1 \<and>
    t_buyOrderId (fst (createTrade s now xt)) = it_buyOrderId xt \<and>
    t_sellOrderId (fst (createTrade s now xt)) = it_sellOrderId xt \<and>
    t_tradingPairId (fst (createTrade s now xt)) = it_tradingPairId xt \<and>
    t_price (fst (createTrade s now xt)) = it_price xt \<and>
    t_amount (fst (createTrade s now xt)) = it_amount xt \<and>
    t_totalValue (fst (createTrade s now xt)) = it_totalValue xt \<and>
    t_fee (fst (createTrade s now xt)) = it_fee xt \<and>
    t_timestamp (fst (createTrade s now xt)) = Some now) \<and>
   (getRewardsEvent (snd (createRewardsEvent s now xe))
        (re_id (fst (createRewardsEvent s now xe))) =
      Some (fst (createRewardsEvent s now xe)) \<and>
    re_id (fst (createRewardsEvent s now xe)) = rewardsEventCurrentId s \<and>
    rewardsEventCurrentId (snd (createRewardsEvent s now xe)) = rewardsEventCurrentId s + 1 \<and>
    re_userId (fst (createRewardsEvent s now xe)) = ire_userId xe \<and>
    re_eventType (fst (createRewardsEvent s now xe)) = ire_eventType xe \<and>
    re_points (fst (createRewardsEvent s now xe)) = ire_points xe \<and>
    re_description (fst (createRewardsEvent s now xe)) = ire_description xe \<and>
    re_additionalData (fst (createRewardsEvent s now xe)) = ire_additionalData xe \<and>
    re_createdAt (fst (createRewardsEvent s now xe)) = Some now) \<and>
   (getAllRewardsTiers (snd (createRewardsTier s xr)) =
      Map_values (Map_set (rewardsTiers s) (rewardsTierCurrentId s)
        (fst (createRewardsTier s xr))) \<and>
    Map_get (rewardsTiers (snd (createRewardsTier s xr))) (rt_id (fst (createRewardsTier s xr))) =
      Some (fst (createRewardsTier s xr)) \<and>
    rt_id (fst (createRewardsTier s xr)) = rewardsTierCurrentId s \<and>
    rewardsTierCurrentId (snd (createRewardsTier s xr)) = rewardsTierCurrentId s + 1 \<and>
    rt_name (fst (createRewardsTier s xr)) = irt_name xr \<and>
    rt_pointsRequired (fst (createRewardsTier s xr)) = irt_pointsRequired xr \<and>
    rt_tradingFeeDiscount (fst (createRewardsTier s xr)) = irt_tradingFeeDiscount xr \<and>
    rt_additionalBenefits (fst (createRewardsTier s xr)) = irt_additionalBenefits xr \<and>
    rt_icon (fst (createRewardsTier s xr)) = irt_icon xr) \<and>
   (getNewsArticle (snd (createNewsArticle s xa)) (na_id (fst (createNewsArticle s xa))) =
      Some (fst (createNewsArticle s xa)) \<and>
    na_id (fst (createNewsArticle s xa)) = newsArticleCurrentId s \<and>
    newsArticleCurrentId (snd (createNewsArticle s xa)) = newsArticleCurrentId s + 1 \<and>
    na_title (fst (createNewsArticle s xa)) = ina_title xa \<and>
    na_content (fst (createNewsArticle s xa)) = ina_content xa \<and>
    na_summary (fst (createNewsArticle s xa)) = ina_summary xa \<and>
    na_author (fst (createNewsArticle s xa)) = ina_author xa \<and>
    na_publishDate (fst (createNewsArticle s xa)) = ina_publishDate xa \<and>
    na_isPublished (fst (createNewsArticle s xa)) = ina_isPublished xa \<and>
    na_imageUrl (fst (createNewsArticle s xa)) = ina_imageUrl xa \<and>
    na_tags (fst (createNewsArticle s xa)) = ina_tags xa) \<and>
   (Map_get (subscribers (snd (createSubscriber s now xs)))
        (sub_id (fst (createSubscriber s now xs))) =
      Some (fst (createSubscriber s now xs)) \<and>
    sub_id (fst (createSubscriber s now xs)) = subscriberCurrentId s \<and>
    subscriberCurrentId (snd (createSubscriber s now xs)) = subscriberCurrentId s + 1 \<and>
    sub_email (fst (createSubscriber s now xs)) = isub_email xs \<and>
    sub_subscribedAt (fst (createSubscriber s now xs)) = Some now \<and>
    sub_isActive (fst (createSubscriber s now xs)) = Some True)"
  by (intro conjI [OF rt_user] conjI [OF rt_pair] conjI [OF rt_order] conjI [OF rt_trade]
        conjI [OF rt_event] conjI [OF rt_tier] conjI [OF rt_article] rt_subscriber)

text \<open>
  On the store the constructor leaves: the first user gets id 1 and, with the template
  literal as it is on ASCII usernames, the referral code \<open>ALICE1\<close>; with another function
  for the template literal, that function's value; and a fourth trading pair gets id 4.
\<close>

theorem create_then_get_witness:
  "u_id (fst (createUser ascii_template newMemStorage 1000 alice)) = 1 \<and>
   getUser (snd (createUser ascii_template newMemStorage 1000 alice)) 1 =
     Some (fst (createUser ascii_template newMemStorage 1000 alice)) \<and>
   fst (createUser ascii_template newMemStorage 1000 alice) = alice_stored \<and>
   userCurrentId (snd (createUser ascii_template newMemStorage 1000 alice)) = 2 \<and>
   u_referralCode (fst (createUser (\<lambda>username id'. ''code'') newMemStorage 1000 alice)) =
     Some ''code'' \<and>
   tp_id (fst (createTradingPair newMemStorage (seedPair ''ETH''))) = 4 \<and>
   getTradingPair (snd (createTradingPair newMemStorage (seedPair ''ETH''))) 4 =
     Some (fst (createTradingPair newMemStorage (seedPair ''ETH'')))"
proof -
  have c: "userCurrentId newMemStorage = 1" "tradingPairCurrentId newMemStorage = 4"
    by (simp_all add: method_defs)
  have r: "ascii_template ''alice'' 1 = ''ALICE1''" "iu_username alice = ''alice''"
    by (simp_all add: method_defs)
  have st: "fst (createUser ascii_template newMemStorage 1000 alice) = alice_stored"
    by (simp add: method_defs)
  note t = create_then_get [where s = newMemStorage and now = 1000 and xu = alice
      and xp = "seedPair ''ETH''" and template = ascii_template]
  note t' = create_then_get [where s = newMemStorage and now = 1000 and xu = alice
      and template = "\<lambda>username id'. ''code''"]
  from t [THEN conjunct1] t [THEN conjunct2, THEN conjunct1] t' [THEN conjunct1] c r st
  show ?thesis by auto
qed

subsection \<open>C8: unsubscribe\<close>




subsection \<open>C9: a second reset token replaces the first\<close>




subsection \<open>C10: verifyUser\<close>

text \<open>
  C10. \<open>verifyUser(tk)\<close> returns a user exactly when some stored user's
  \<open>verificationToken\<close> equals \<open>tk\<close>. The user it returns is a stored user with that token,
  with \<open>isVerified\<close> set to true, \<open>verificationToken\<close> cleared and \<open>updatedAt\<close> restamped,
  and the store holds it under its id afterwards. When no user matches, the result is
  empty and the store is unchanged.
\<close>

theorem verifyUser_spec:
  "((\<exists>u'. fst (verifyUser s now tk) = Some u') \<longleftrightarrow>
      (\<exists>u\<in>set (Map_values (users s)). u_verificationToken u = Some tk)) \<and>
   (\<forall>u'. fst (verifyUser s now tk) = Some u' \<longrightarrow>
      u_isVerified u' = Some True \<and> u_verificationToken u' = None \<and>
      (\<exists>u\<in>set (Map_values (users s)). u_verificationToken u = Some tk \<and>
         u' = u\<lparr> u_isVerified := Some True, u_verificationToken := None,
                  u_updatedAt := Some now \<rparr>) \<and>
      getUser (snd (verifyUser s now tk)) (u_id u') = Some u') \<and>
   ((\<forall>u\<in>set (Map_values (users s)). u_verificationToken u \<noteq> Some tk) \<longrightarrow>
      verifyUser s now tk = (None, s))"
proof (cases "find (\<lambda>user. u_verificationToken user = Some tk) (Map_values (users s))")
  case None
  then have no: "\<forall>u\<in>set (Map_values (users s)). u_verificationToken u \<noteq> Some tk"
    by (simp add: find_None_iff)
  from None have "verifyUser s now tk = (None, s)" by (simp add: verifyUser_def)
  with no show ?thesis by simp
next
  case (Some u)
  then have mem: "u \<in> set (Map_values (users s))" and tok: "u_verificationToken u = Some tk"
    using find_Some_D by fastforce+
  from Some show ?thesis using mem tok
    by (auto simp: verifyUser_def Let_def getUser_def Map_get_set)
qed

text \<open>On \<open>pending_alice\<close>: the token \<open>tok\<close> verifies Alice, the token \<open>other\<close> changes nothing.\<close>

theorem verifyUser_spec_witness:
  "(\<exists>u\<in>set (Map_values (users pending_alice)). u_verificationToken u = Some ''tok'') \<and>
   (\<exists>u'. fst (verifyUser pending_alice 3000 ''tok'') = Some u' \<and>
      u_isVerified u' = Some True \<and> u_verificationToken u' = None \<and>
      getUser (snd (verifyUser pending_alice 3000 ''tok'')) (u_id u') = Some u') \<and>
   \<not> (\<exists>u\<in>set (Map_values (users pending_alice)). u_verificationToken u = Some ''other'') \<and>
   verifyUser pending_alice 3000 ''other'' = (None, pending_alice)"
proof -
  have h1: "\<exists>u\<in>set (Map_values (users pending_alice)). u_verificationToken u = Some ''tok''"
    by (simp add: method_defs)
  have h2: "\<forall>u\<in>set (Map_values (users pending_alice)). u_verificationToken u \<noteq> Some ''other''"
    by (simp add: method_defs)
  from h1 h2 verifyUser_spec [of pending_alice 3000 "''tok''"]
    verifyUser_spec [of pending_alice 3000 "''other''"]
  show ?thesis by blast
qed
end
